theory Spec2Isabelle
  imports Main "HOL-Library.Word" "HOL-Library.Monad_Syntax" "HOL-Library.AList"
begin

unbundle bit_operations_syntax

section \<open>Machine integers and byte buffers\<close>

text \<open>
  The source works on \<^verbatim>\<open>std::vector<u8>\<close> buffers and reads typed little-endian
  fields out of them through \<^verbatim>\<open>reinterpret_cast\<close>. A buffer is a list of bytes; a
  pointer into the image is its offset from \<^verbatim>\<open>&image[0]\<close>. An access outside the
  buffer is undefined behaviour in the source; in the model every such access is
  \<open>None\<close>, so a model value \<open>Some r\<close> stands for a run of the source without
  an out-of-range access.
\<close>

type_synonym u8 = "8 word"
type_synonym u16 = "16 word"
type_synonym u32 = "32 word"
type_synonym u64 = "64 word"

definition le_nat :: "u8 list \<Rightarrow> nat" where
  "le_nat bs = foldr (\<lambda>b acc. unat b + 256 * acc) bs 0"

primrec le_bytes :: "nat \<Rightarrow> nat \<Rightarrow> u8 list" where
  "le_bytes 0 v = []"
| "le_bytes (Suc n) v = of_nat (v mod 256) # le_bytes n (v div 256)"

definition enc16 :: "u16 \<Rightarrow> u8 list" where
  "enc16 w = le_bytes (Suc (Suc 0)) (unat w)"

definition enc32 :: "u32 \<Rightarrow> u8 list" where
  "enc32 w = le_bytes (Suc (Suc (Suc (Suc 0)))) (unat w)"

definition enc64 :: "u64 \<Rightarrow> u8 list" where
  "enc64 w = le_bytes (Suc (Suc (Suc (Suc (Suc (Suc (Suc (Suc 0)))))))) (unat w)"

definition read_bytes :: "u8 list \<Rightarrow> nat \<Rightarrow> nat \<Rightarrow> u8 list option" where
  "read_bytes buf off n = (if off + n \<le> length buf then Some (take n (drop off buf)) else None)"

definition overwrite :: "u8 list \<Rightarrow> nat \<Rightarrow> u8 list \<Rightarrow> u8 list" where
  "overwrite buf off bs = take off buf @ bs @ drop (off + length bs) buf"

definition write_bytes :: "u8 list \<Rightarrow> nat \<Rightarrow> u8 list \<Rightarrow> u8 list option" where
  "write_bytes buf off bs = (if off + length bs \<le> length buf then Some (overwrite buf off bs) else None)"

definition rd8 :: "u8 list \<Rightarrow> nat \<Rightarrow> u8 option" where
  "rd8 buf off = map_option (\<lambda>bs. of_nat (le_nat bs)) (read_bytes buf off 1)"

definition rd16 :: "u8 list \<Rightarrow> nat \<Rightarrow> u16 option" where
  "rd16 buf off = map_option (\<lambda>bs. of_nat (le_nat bs)) (read_bytes buf off 2)"

definition rd32 :: "u8 list \<Rightarrow> nat \<Rightarrow> u32 option" where
  "rd32 buf off = map_option (\<lambda>bs. of_nat (le_nat bs)) (read_bytes buf off 4)"

definition rd64 :: "u8 list \<Rightarrow> nat \<Rightarrow> u64 option" where
  "rd64 buf off = map_option (\<lambda>bs. of_nat (le_nat bs)) (read_bytes buf off 8)"

text \<open>
  Modelled from the spec: the \<^verbatim>\<open>ALIGN_UP\<close> macro of \<^verbatim>\<open>types.h\<close> (the spec's
  \<^verbatim>\<open>align_up\<close>), which is not among the source files: round up to the next
  multiple of a power of two, in the arithmetic of the argument's type.
\<close>

definition ALIGN_UP :: "'a::len word \<Rightarrow> 'a word \<Rightarrow> 'a word" where
  "ALIGN_UP x a = (x + (a - 1)) AND NOT (a - 1)"

definition ALIGN_UP_size :: "nat \<Rightarrow> nat \<Rightarrow> nat" where
  "ALIGN_UP_size x a = ((x + (a - 1)) div a) * a"

section \<open>The string table builder\<close>

text \<open>
  \<^verbatim>\<open>struct StringTable\<close>. The source keys its \<^verbatim>\<open>unordered_map\<close> by the
  \<^verbatim>\<open>const char*\<close> of string literals; the model keys it by the string, which is
  the same map when equal literals share one address. The entries are kept in
  insertion order; no lookup depends on the order.
\<close>

record StringTable =
  entries :: "(string \<times> u32) list"
  watermark :: u32
  strtab_offset :: nat
  strtab_size :: nat
  buffer :: "u8 list"

definition AddString :: "string \<Rightarrow> StringTable \<Rightarrow> StringTable" where
  "AddString str t =
     (if map_of (entries t) str = None
      then t\<lparr>entries := entries t @ [(str, watermark t)],
             watermark := watermark t + of_nat (length str) + 1\<rparr>
      else t)"

definition StringTable_new :: StringTable where
  "StringTable_new =
     AddString '''' \<lparr>entries = [], watermark = 0, strtab_offset = 0, strtab_size = 0, buffer = []\<rparr>"

definition GetOffset :: "StringTable \<Rightarrow> string \<Rightarrow> u32" where
  "GetOffset t str = (case map_of (entries t) str of None \<Rightarrow> 0 | Some off \<Rightarrow> off)"

definition c_str :: "string \<Rightarrow> u8 list" where
  "c_str s = map (\<lambda>c. of_nat (of_char c)) s @ [0]"

definition GetBuffer :: "StringTable \<Rightarrow> u8 list option" where
  "GetBuffer t =
     fold (\<lambda>(s, off) b. Option.bind b (\<lambda>buf. write_bytes buf (unat off) (c_str s)))
       (entries t) (Some (replicate (unat (watermark t)) 0))"

definition Finalize :: "StringTable \<Rightarrow> StringTable option" where
  "Finalize t = do {
     buf \<leftarrow> GetBuffer t;
     Some (t\<lparr>buffer := buf, strtab_size := ALIGN_UP_size (length buf) 0x10\<rparr>)
   }"

section \<open>The container and the loaded state\<close>

datatype FileType = kUnknown | kNso | kNro | kMod

text \<open>\<^verbatim>\<open>enum SegmentType { kText, kRodata, kData, kNumSegment }\<close>: indices into the
  three-element segment arrays.\<close>

definition kText :: nat where [simp]: "kText = 0"
definition kRodata :: nat where [simp]: "kRodata = 1"
definition kData :: nat where [simp]: "kData = 2"

record SegmentHeader =
  file_offset :: u32
  mem_offset :: u32
  mem_size :: u32
  bss_align :: u32

record DataExtent =
  ext_offset :: u32
  ext_size :: u32

text \<open>\<^verbatim>\<open>struct NsoHeader\<close>, 0x100 bytes. The three 32-byte digests are kept as one
  field of 96 bytes: no code reads them.\<close>

record NsoHeader =
  magic :: "u8 list"
  field_4 :: u32
  field_8 :: u32
  flags :: u32
  segments :: "SegmentHeader list"
  gnu_build_id :: "u8 list"
  segment_file_sizes :: "u32 list"
  field_6c :: "u32 list"
  dynstr :: DataExtent
  dynsym :: DataExtent
  segment_digests :: "u8 list"

record DynInfo =
  symtab :: u64
  rela :: u64
  relasz :: u64
  jmprel :: u64
  pltrelsz :: u64
  strtab :: u64
  strsz :: u64
  pltgot :: u64
  hash :: u64
  gnu_hash :: u64
  init :: u64
  fini :: u64
  init_array :: u64
  init_arraysz :: u64
  fini_array :: u64
  fini_arraysz :: u64

record PltInfo =
  plt_addr :: u64
  plt_size :: u64

record EhInfo =
  hdr_addr :: u64
  hdr_size :: u64
  frame_addr :: u64
  frame_size :: u64

text \<open>
  The members of \<^verbatim>\<open>struct NsoFile\<close>. The pointers \<^verbatim>\<open>dynamic\<close> and \<^verbatim>\<open>note\<close>
  are offsets into the image (\<open>None\<close> is the null pointer).
\<close>

record NsoFile =
  file_type :: FileType
  header :: NsoHeader
  nso_image :: "u8 list"
  dynamic :: nat
  note_ptr :: "nat option"
  dyn_info :: DynInfo
  plt_info :: PltInfo
  eh_info :: EhInfo

definition SegmentHeader_zero :: SegmentHeader where
  "SegmentHeader_zero = \<lparr>file_offset = 0, mem_offset = 0, mem_size = 0, bss_align = 0\<rparr>"

definition NsoHeader_zero :: NsoHeader where
  "NsoHeader_zero =
     \<lparr>magic = replicate 4 0, field_4 = 0, field_8 = 0, flags = 0,
      segments = replicate 3 SegmentHeader_zero, gnu_build_id = replicate 32 0,
      segment_file_sizes = replicate 3 0, field_6c = replicate 9 0,
      dynstr = \<lparr>ext_offset = 0, ext_size = 0\<rparr>, dynsym = \<lparr>ext_offset = 0, ext_size = 0\<rparr>,
      segment_digests = replicate 96 0\<rparr>"

definition DynInfo_zero :: DynInfo where
  "DynInfo_zero =
     \<lparr>symtab = 0, rela = 0, relasz = 0, jmprel = 0, pltrelsz = 0, strtab = 0, strsz = 0,
      pltgot = 0, hash = 0, gnu_hash = 0, init = 0, fini = 0, init_array = 0,
      init_arraysz = 0, fini_array = 0, fini_arraysz = 0\<rparr>"

text \<open>
  A default-initialised \<^verbatim>\<open>NsoFile nso;\<close>. Every member has a default member
  initialiser except \<^verbatim>\<open>plt_info\<close>, whose value is indeterminate: it is the
  parameter \<open>plt0\<close>.
\<close>

definition NsoFile_new :: "PltInfo \<Rightarrow> NsoFile" where
  "NsoFile_new plt0 =
     \<lparr>file_type = kUnknown, header = NsoHeader_zero, nso_image = [], dynamic = 0,
      note_ptr = None, dyn_info = DynInfo_zero, plt_info = plt0,
      eh_info = \<lparr>hdr_addr = 0, hdr_size = 0, frame_addr = 0, frame_size = 0\<rparr>\<rparr>"

section \<open>The PLT resolver\<close>

text \<open>
  Modelled from the spec: \<^verbatim>\<open>memmem_m\<close> of \<^verbatim>\<open>types.h\<close>, which is not among the
  source files. The spec describes it as a naive masked scan that returns the first
  occurrence: the needle matches at a position when every byte there agrees with
  the needle's byte on the bits of the mask. The result is the offset of the
  match from the start of the haystack, \<open>None\<close> for a null pointer.
\<close>

definition match_masked :: "u8 list \<Rightarrow> u8 list \<Rightarrow> u8 list \<Rightarrow> bool" where
  "match_masked hay needle mask_bytes =
     (length needle \<le> length hay \<and>
      list_all (\<lambda>(h, n, m). h AND m = n AND m) (zip hay (zip needle mask_bytes)))"

fun memmem_m_from :: "nat \<Rightarrow> u8 list \<Rightarrow> u8 list \<Rightarrow> u8 list \<Rightarrow> nat option" where
  "memmem_m_from i [] needle mask_bytes = None"
| "memmem_m_from i (h # hs) needle mask_bytes =
     (if match_masked (h # hs) needle mask_bytes then Some i
      else memmem_m_from (Suc i) hs needle mask_bytes)"

definition memmem_m :: "u8 list \<Rightarrow> u8 list \<Rightarrow> u8 list \<Rightarrow> nat option" where
  "memmem_m hay needle mask_bytes = memmem_m_from 0 hay needle mask_bytes"

definition plt_pattern :: "u32 list" where
  "plt_pattern = [0xa9bf7bf0, 0xd00004d0, 0xf9428a11, 0x91144210,
                  0xd61f0220, 0xd503201f, 0xd503201f, 0xd503201f]"

definition plt_mask :: "u32 list" where
  "plt_mask = [0xffffffff, 0x00000000, 0xff000000, 0xff000000,
               0xff000000, 0xffffffff, 0xffffffff, 0xffffffff]"

text \<open>\<^verbatim>\<open>NsoFile::ResolvePlt(base, len)\<close>; \<open>base\<close> is the offset of the scanned
  buffer in the image. \<^verbatim>\<open>sizeof(Elf64_Rela)\<close> is 24.\<close>

definition ResolvePlt :: "nat \<Rightarrow> nat \<Rightarrow> NsoFile \<Rightarrow> (bool \<times> NsoFile) option" where
  "ResolvePlt base len st =
     (if pltrelsz (dyn_info st) \<noteq> 0 then do {
        buf \<leftarrow> read_bytes (nso_image st) base len;
        (case memmem_m buf (concat (map enc32 plt_pattern)) (concat (map enc32 plt_mask)) of
           Some found \<Rightarrow>
             (let plt_entry_count = pltrelsz (dyn_info st) div 24;
                  plt_entry_size = 4 * 4
              in Some (True, st\<lparr>plt_info :=
                   \<lparr>plt_addr = of_nat (base + found),
                    plt_size = plt_entry_size * 2 + plt_entry_size * plt_entry_count\<rparr>\<rparr>))
         | None \<Rightarrow> Some (False, st))
      } else Some (False, st))"

section \<open>Loading a container\<close>

definition bytes_of :: "string \<Rightarrow> u8 list" where
  "bytes_of s = map (\<lambda>c. of_nat (of_char c)) s"

definition nso_magic :: "u8 list" where "nso_magic = bytes_of ''NSO0''"
definition nro_magic :: "u8 list" where "nro_magic = bytes_of ''NRO0''"
definition mod_magic :: "u8 list" where "mod_magic = bytes_of ''MOD0''"

text \<open>Typed views of a byte buffer (\<^verbatim>\<open>memcpy\<close> into a struct, or a
  \<^verbatim>\<open>reinterpret_cast\<close> of a pointer whose range was checked before).\<close>

definition u16_at :: "u8 list \<Rightarrow> nat \<Rightarrow> u16" where
  "u16_at bs off = of_nat (le_nat (take 2 (drop off bs)))"

definition u32_at :: "u8 list \<Rightarrow> nat \<Rightarrow> u32" where
  "u32_at bs off = of_nat (le_nat (take 4 (drop off bs)))"

definition u64_at :: "u8 list \<Rightarrow> nat \<Rightarrow> u64" where
  "u64_at bs off = of_nat (le_nat (take 8 (drop off bs)))"

definition parse_SegmentHeader :: "u8 list \<Rightarrow> nat \<Rightarrow> SegmentHeader" where
  "parse_SegmentHeader bs off =
     \<lparr>file_offset = u32_at bs off, mem_offset = u32_at bs (off + 4),
      mem_size = u32_at bs (off + 8), bss_align = u32_at bs (off + 12)\<rparr>"

definition parse_DataExtent :: "u8 list \<Rightarrow> nat \<Rightarrow> DataExtent" where
  "parse_DataExtent bs off = \<lparr>ext_offset = u32_at bs off, ext_size = u32_at bs (off + 4)\<rparr>"

definition parse_NsoHeader :: "u8 list \<Rightarrow> NsoHeader" where
  "parse_NsoHeader bs =
     \<lparr>magic = take 4 bs, field_4 = u32_at bs 4, field_8 = u32_at bs 8, flags = u32_at bs 12,
      segments = map (\<lambda>i. parse_SegmentHeader bs (16 + 16 * i)) [0, 1, 2],
      gnu_build_id = take 32 (drop 64 bs),
      segment_file_sizes = map (\<lambda>i. u32_at bs (96 + 4 * i)) [0, 1, 2],
      field_6c = map (\<lambda>i. u32_at bs (108 + 4 * i)) [0, 1, 2, 3, 4, 5, 6, 7, 8],
      dynstr = parse_DataExtent bs 144, dynsym = parse_DataExtent bs 152,
      segment_digests = take 96 (drop 160 bs)\<rparr>"

definition ser_SegmentHeader :: "SegmentHeader \<Rightarrow> u8 list" where
  "ser_SegmentHeader seg =
     enc32 (file_offset seg) @ enc32 (mem_offset seg) @ enc32 (mem_size seg) @ enc32 (bss_align seg)"

definition ser_DataExtent :: "DataExtent \<Rightarrow> u8 list" where
  "ser_DataExtent e = enc32 (ext_offset e) @ enc32 (ext_size e)"

definition ser_NsoHeader :: "NsoHeader \<Rightarrow> u8 list" where
  "ser_NsoHeader h =
     magic h @ enc32 (field_4 h) @ enc32 (field_8 h) @ enc32 (flags h) @
     concat (map ser_SegmentHeader (segments h)) @ gnu_build_id h @
     concat (map enc32 (segment_file_sizes h)) @ concat (map enc32 (field_6c h)) @
     ser_DataExtent (dynstr h) @ ser_DataExtent (dynsym h) @ segment_digests h"

text \<open>\<^verbatim>\<open>struct NroHeader\<close>, 0x70 bytes, at file offset
  \<^verbatim>\<open>ALIGN_UP(sizeof(ModPointer), 0x10)\<close> = 16.\<close>

record NroHeader =
  nro_magic_f :: "u8 list"
  nro_field_4 :: u32
  nro_file_size :: u32
  nro_field_c :: u32
  nro_segments :: "DataExtent list"
  nro_bss_size :: u32
  nro_field_3c :: u32
  nro_gnu_build_id :: "u8 list"
  nro_field_60 :: "u32 list"
  nro_dynstr :: DataExtent
  nro_dynsym :: DataExtent

definition parse_NroHeader :: "u8 list \<Rightarrow> NroHeader" where
  "parse_NroHeader bs =
     \<lparr>nro_magic_f = take 4 bs, nro_field_4 = u32_at bs 4, nro_file_size = u32_at bs 8,
      nro_field_c = u32_at bs 12,
      nro_segments = map (\<lambda>i. parse_DataExtent bs (16 + 8 * i)) [0, 1, 2],
      nro_bss_size = u32_at bs 40, nro_field_3c = u32_at bs 44,
      nro_gnu_build_id = take 32 (drop 48 bs),
      nro_field_60 = map (\<lambda>i. u32_at bs (80 + 4 * i)) [0, 1, 2, 3],
      nro_dynstr = parse_DataExtent bs 96, nro_dynsym = parse_DataExtent bs 104\<rparr>"

text \<open>\<^verbatim>\<open>struct ModHeader\<close>, 28 bytes; the offsets are \<^verbatim>\<open>s32\<close>, read with \<open>sint\<close>.\<close>

record ModHeader =
  mod_magic_f :: "u8 list"
  dynamic_offset :: u32
  bss_start_offset :: u32
  bss_end_offset :: u32
  eh_start_offset :: u32
  eh_end_offset :: u32
  module_object_offset :: u32

definition parse_ModHeader :: "u8 list \<Rightarrow> ModHeader" where
  "parse_ModHeader bs =
     \<lparr>mod_magic_f = take 4 bs, dynamic_offset = u32_at bs 4, bss_start_offset = u32_at bs 8,
      bss_end_offset = u32_at bs 12, eh_start_offset = u32_at bs 16,
      eh_end_offset = u32_at bs 20, module_object_offset = u32_at bs 24\<rparr>"

text \<open>
  \<^verbatim>\<open>LZ4_decompress_safe\<close> is an external library function. It is the parameter
  \<open>lz4\<close>: from the \<^verbatim>\<open>src_len\<close> compressed bytes and the capacity of the
  destination it gives its return value (the decoded length, or a negative
  number) and the bytes it stored at the destination, of which the model keeps
  at most the capacity.
\<close>

type_synonym lz4_decoder = "u8 list \<Rightarrow> nat \<Rightarrow> int \<times> u8 list"

text \<open>\<^verbatim>\<open>NsoFile::Decompress(dst, dst_len, src, src_len)\<close>, with \<open>dst\<close> an offset in the
  image and \<open>src\<close> an offset in the file: the result is \<^verbatim>\<open>len > 0\<close>; the
  comparison of \<^verbatim>\<open>len\<close> with \<^verbatim>\<open>dst_len\<close> only prints a message.\<close>

definition Decompress ::
  "lz4_decoder \<Rightarrow> u8 list \<Rightarrow> nat \<Rightarrow> u32 \<Rightarrow> u8 list \<Rightarrow> nat \<Rightarrow> u32 \<Rightarrow> (bool \<times> u8 list) option" where
  "Decompress lz4 img dst dst_len file src src_len = do {
     src_bytes \<leftarrow> read_bytes file src (unat src_len);
     let (len, stored) = lz4 src_bytes (unat dst_len);
     img' \<leftarrow> write_bytes img dst (take (unat dst_len) stored);
     Some (0 < len, img')
   }"

text \<open>The loop over the three segments of an NSO (lines 266-277); \<open>is\<close> are the
  indices still to do.\<close>

fun Load_nso_segments ::
  "lz4_decoder \<Rightarrow> u8 list \<Rightarrow> NsoHeader \<Rightarrow> nat list \<Rightarrow> u8 list \<Rightarrow> (bool \<times> u8 list) option" where
  "Load_nso_segments lz4 file hdr [] img = Some (True, img)"
| "Load_nso_segments lz4 file hdr (i # is) img =
     (let seg = segments hdr ! i; file_size = segment_file_sizes hdr ! i in
      if (flags hdr AND push_bit i 1) \<noteq> 0 then do {
        (ok, img') \<leftarrow> Decompress lz4 img (unat (mem_offset seg)) (mem_size seg)
                        file (unat (file_offset seg)) file_size;
        if \<not> ok then Some (False, img') else Load_nso_segments lz4 file hdr is img'
      } else do {
        src_bytes \<leftarrow> read_bytes file (unat (file_offset seg)) (unat file_size);
        img' \<leftarrow> write_bytes img (unat (mem_offset seg)) src_bytes;
        Load_nso_segments lz4 file hdr is img'
      })"

definition is_nso :: "u8 list \<Rightarrow> bool" where
  "is_nso file = (0x100 \<le> length file \<and> take 4 file = nso_magic)"

definition is_nro :: "u8 list \<Rightarrow> bool" where
  "is_nro file = (\<not> is_nso file \<and> 16 + 0x70 \<le> length file \<and> take 4 (drop 16 file) = nro_magic)"

text \<open>The NRO branch's loop (lines 286-302) and the same loop of the raw-MOD path
  (lines 449-470): the segment table from three extents, with the data
  segment's \<^verbatim>\<open>bss_align\<close> given.\<close>

definition segments_of_extents :: "DataExtent list \<Rightarrow> u32 \<Rightarrow> SegmentHeader list" where
  "segments_of_extents exts data_bss =
     map (\<lambda>i. \<lparr>file_offset = ext_offset (exts ! i), mem_offset = ext_offset (exts ! i),
               mem_size = ext_size (exts ! i),
               bss_align = (if i = kText then 0x100 else if i = kRodata then 1 else data_bss)\<rparr>)
       [0, 1, 2]"

text \<open>Lines 254-309: recognise an NSO or an NRO and build the image. The result
  \<open>(False, _)\<close> is \<^verbatim>\<open>return false\<close>.\<close>

definition Load_container :: "lz4_decoder \<Rightarrow> u8 list \<Rightarrow> NsoFile \<Rightarrow> (bool \<times> NsoFile) option" where
  "Load_container lz4 file st =
     (if is_nso file then
        (let hdr = parse_NsoHeader file;
             data_seg = segments hdr ! kData;
             image_size = unat (mem_offset data_seg + mem_size data_seg + bss_align data_seg)
         in do {
           (ok, img) \<leftarrow> Load_nso_segments lz4 file hdr [0, 1, 2] (replicate image_size 0);
           if \<not> ok then Some (False, st\<lparr>header := hdr, nso_image := img\<rparr>)
           else Some (True, st\<lparr>header := hdr, nso_image := img, file_type := kNso\<rparr>)
         })
      else if is_nro file then
        (let nro = parse_NroHeader (drop 16 file) in
         if unat (nro_file_size nro) \<noteq> length file then Some (False, st)
         else Some (True, st\<lparr>header := (header st)
                      \<lparr>segments := segments_of_extents (nro_segments nro) (nro_bss_size nro),
                       segment_file_sizes := map ext_size (nro_segments nro),
                       gnu_build_id := nro_gnu_build_id nro,
                       dynstr := nro_dynstr nro, dynsym := nro_dynsym nro\<rparr>,
                    nso_image := file, file_type := kNro\<rparr>))
      else Some (True, st))"

text \<open>Lines 311-338: find the MOD header through the \<^verbatim>\<open>ModPointer\<close> at offset 0
  of the image (NSO, NRO) or of the file (neither). The third component is
  \<^verbatim>\<open>mod_base\<close> as an offset; for a raw MOD the file becomes the image, so the
  offset is the same in both.\<close>

definition Load_mod :: "u8 list \<Rightarrow> NsoFile \<Rightarrow> (bool \<times> NsoFile \<times> nat) option" where
  "Load_mod file st =
     (if file_type st \<noteq> kUnknown then do {
        magic_offset \<leftarrow> rd32 (nso_image st) 4;
        if unat magic_offset + 28 > length (nso_image st) then Some (False, st, 0)
        else if take 4 (drop (unat magic_offset) (nso_image st)) \<noteq> mod_magic
        then Some (False, st, unat magic_offset)
        else Some (True, st, unat magic_offset)
      } else if 8 \<le> length file then do {
        magic_offset \<leftarrow> rd32 file 4;
        if unat magic_offset + 28 > length file then Some (False, st, 0)
        else if take 4 (drop (unat magic_offset) file) \<noteq> mod_magic
        then Some (False, st, unat magic_offset)
        else Some (True, st\<lparr>nso_image := file, file_type := kMod\<rparr>, unat magic_offset)
      } else Some (False, st, 0))"

text \<open>The lambda \<^verbatim>\<open>mod_get_offset\<close>: an offset relative to the MOD header as an
  offset in the image, truncated to \<^verbatim>\<open>u32\<close>.\<close>

definition mod_get_offset :: "nat \<Rightarrow> u32 \<Rightarrow> u32" where
  "mod_get_offset mod_base relative_offset = word_of_int (int mod_base + sint relative_offset)"

text \<open>The tags of the dynamic table that the loader captures (values of
  \<^verbatim>\<open>elf.h\<close>, the standard ELF numbering).\<close>

definition DT_PLTRELSZ :: u64 where "DT_PLTRELSZ = 2"
definition DT_PLTGOT :: u64 where "DT_PLTGOT = 3"
definition DT_HASH :: u64 where "DT_HASH = 4"
definition DT_STRTAB :: u64 where "DT_STRTAB = 5"
definition DT_SYMTAB :: u64 where "DT_SYMTAB = 6"
definition DT_RELA :: u64 where "DT_RELA = 7"
definition DT_RELASZ :: u64 where "DT_RELASZ = 8"
definition DT_STRSZ :: u64 where "DT_STRSZ = 10"
definition DT_INIT :: u64 where "DT_INIT = 12"
definition DT_FINI :: u64 where "DT_FINI = 13"
definition DT_JMPREL :: u64 where "DT_JMPREL = 23"
definition DT_INIT_ARRAY :: u64 where "DT_INIT_ARRAY = 25"
definition DT_FINI_ARRAY :: u64 where "DT_FINI_ARRAY = 26"
definition DT_INIT_ARRAYSZ :: u64 where "DT_INIT_ARRAYSZ = 27"
definition DT_FINI_ARRAYSZ :: u64 where "DT_FINI_ARRAYSZ = 28"
definition DT_GNU_HASH :: u64 where "DT_GNU_HASH = 0x6ffffef5"

definition DT_captured :: "u64 \<Rightarrow> bool" where
  "DT_captured tag =
     (tag \<in> set [DT_SYMTAB, DT_RELA, DT_RELASZ, DT_JMPREL, DT_PLTRELSZ, DT_STRTAB, DT_STRSZ,
                 DT_PLTGOT, DT_HASH, DT_GNU_HASH, DT_INIT, DT_FINI, DT_INIT_ARRAY,
                 DT_INIT_ARRAYSZ, DT_FINI_ARRAY, DT_FINI_ARRAYSZ])"

text \<open>The \<^verbatim>\<open>switch (dyn->d_tag)\<close> of lines 357-374 for a captured tag.\<close>

definition DT_ASSIGN_U64 :: "u64 \<Rightarrow> u64 \<Rightarrow> DynInfo \<Rightarrow> DynInfo" where
  "DT_ASSIGN_U64 tag d_un di =
     (if tag = DT_SYMTAB then di\<lparr>symtab := d_un\<rparr>
      else if tag = DT_RELA then di\<lparr>rela := d_un\<rparr>
      else if tag = DT_RELASZ then di\<lparr>relasz := d_un\<rparr>
      else if tag = DT_JMPREL then di\<lparr>jmprel := d_un\<rparr>
      else if tag = DT_PLTRELSZ then di\<lparr>pltrelsz := d_un\<rparr>
      else if tag = DT_STRTAB then di\<lparr>strtab := d_un\<rparr>
      else if tag = DT_STRSZ then di\<lparr>strsz := d_un\<rparr>
      else if tag = DT_PLTGOT then di\<lparr>pltgot := d_un\<rparr>
      else if tag = DT_HASH then di\<lparr>hash := d_un\<rparr>
      else if tag = DT_GNU_HASH then di\<lparr>gnu_hash := d_un\<rparr>
      else if tag = DT_INIT then di\<lparr>init := d_un\<rparr>
      else if tag = DT_FINI then di\<lparr>fini := d_un\<rparr>
      else if tag = DT_INIT_ARRAY then di\<lparr>init_array := d_un\<rparr>
      else if tag = DT_INIT_ARRAYSZ then di\<lparr>init_arraysz := d_un\<rparr>
      else if tag = DT_FINI_ARRAY then di\<lparr>fini_array := d_un\<rparr>
      else if tag = DT_FINI_ARRAYSZ then di\<lparr>fini_arraysz := d_un\<rparr>
      else di)"

lemma rd64_in_range: "rd64 buf off = Some v \<Longrightarrow> off + 8 \<le> length buf"
  by (auto simp: rd64_def read_bytes_def split: if_splits)

lemma rd32_in_range: "rd32 buf off = Some v \<Longrightarrow> off + 4 \<le> length buf"
  by (auto simp: rd32_def read_bytes_def split: if_splits)

text \<open>The loop \<^verbatim>\<open>for (auto dyn = dynamic; dyn->d_tag; dyn++)\<close> of lines 352-376 over the
  16-byte entries \<^verbatim>\<open>{d_tag, d_un}\<close> at offset \<open>p\<close>. The source has no bound: the
  walk ends at a zero tag or leaves the image.\<close>

function parse_dynamic :: "u8 list \<Rightarrow> nat \<Rightarrow> DynInfo \<Rightarrow> DynInfo option" where
  "parse_dynamic img p di =
     (case rd64 img p of
        None \<Rightarrow> None
      | Some d_tag \<Rightarrow>
          if d_tag = 0 then Some di
          else if DT_captured d_tag then
            (case rd64 img (p + 8) of
               None \<Rightarrow> None
             | Some d_un \<Rightarrow> parse_dynamic img (p + 16) (DT_ASSIGN_U64 d_tag d_un di))
          else parse_dynamic img (p + 16) di)"
  by pat_completeness auto
termination
  by (relation "measure (\<lambda>(img, p, di). length img - p)") (auto dest: rd64_in_range)

definition Load_dynamic :: "nat \<Rightarrow> NsoFile \<Rightarrow> NsoFile option" where
  "Load_dynamic mod_base st =
     (let mod_hdr = parse_ModHeader (drop mod_base (nso_image st));
          p = int mod_base + sint (dynamic_offset mod_hdr)
      in if p < 0 then None
         else do {
           di \<leftarrow> parse_dynamic (nso_image st) (nat p) (dyn_info st);
           Some (st\<lparr>dynamic := nat p, dyn_info := di\<rparr>)
         })"

text \<open>\<^verbatim>\<open>Elf64_Sym\<close>, 24 bytes, and \<^verbatim>\<open>iter_dynsym\<close>: the symbols the callback is
  called with, in order (the callback's index is the position in the list).\<close>

record Elf64_Sym =
  st_name :: u32
  st_info :: u8
  st_other :: u8
  st_shndx :: u16
  st_value :: u64
  st_size :: u64

definition parse_Elf64_Sym :: "u8 list \<Rightarrow> Elf64_Sym" where
  "parse_Elf64_Sym bs =
     \<lparr>st_name = u32_at bs 0, st_info = of_nat (le_nat (take 1 (drop 4 bs))),
      st_other = of_nat (le_nat (take 1 (drop 5 bs))), st_shndx = u16_at bs 6,
      st_value = u64_at bs 8, st_size = u64_at bs 16\<rparr>"

definition iter_dynsym :: "NsoFile \<Rightarrow> Elf64_Sym list option" where
  "iter_dynsym st =
     (let n = unat (ext_size (dynsym (header st))) div 24 in
      map_option (\<lambda>bs. map (\<lambda>i. parse_Elf64_Sym (take 24 (drop (24 * i) bs))) [0..<n])
        (read_bytes (nso_image st) (unat (symtab (dyn_info st))) (24 * n)))"

definition SHN_UNDEF :: u16 where "SHN_UNDEF = 0"
definition SHN_LORESERVE :: u16 where "SHN_LORESERVE = 0xff00"
definition STT_SECTION :: u8 where "STT_SECTION = 3"

text \<open>Lines 402-411: the section indices seen in the symbol table, sorted, without
  duplicates.\<close>

definition seen_shndx_of :: "Elf64_Sym list \<Rightarrow> u16 list" where
  "seen_shndx_of syms =
     remdups_adj (sort (map st_shndx
       (filter (\<lambda>sym. \<not> (st_shndx sym = SHN_UNDEF \<or> SHN_LORESERVE \<le> st_shndx sym)) syms)))"

text \<open>Lines 419-425: the start of \<^verbatim>\<open>.data\<close> from the first section symbol of the
  third section index.\<close>

definition find_data_offset :: "Elf64_Sym list \<Rightarrow> u16 list \<Rightarrow> u32" where
  "find_data_offset syms seen_shndx =
     fold (\<lambda>sym off.
             if off = 0 \<and> (st_info sym AND 0xf) = STT_SECTION \<and> st_shndx sym = seen_shndx ! kData
             then ucast (st_value sym) else off)
       syms 0"

text \<open>Lines 382-471: the segment table of a raw MOD.\<close>

definition Load_mod_segments :: "nat \<Rightarrow> NsoFile \<Rightarrow> (bool \<times> NsoFile) option" where
  "Load_mod_segments mod_base st = do {
     (found, st1) \<leftarrow> ResolvePlt 0 (length (nso_image st)) st;
     if \<not> found then Some (False, st1)
     else if symtab (dyn_info st1) \<ge> strtab (dyn_info st1) then Some (False, st1)
     else
       (let st2 = st1\<lparr>header := (header st1)\<lparr>dynsym := (dynsym (header st1))
                    \<lparr>ext_size := ucast (strtab (dyn_info st1) - symtab (dyn_info st1))\<rparr>\<rparr>\<rparr>
        in do {
          syms \<leftarrow> iter_dynsym st2;
          (let seen_shndx = seen_shndx_of syms in
           if length seen_shndx \<noteq> 3 + 1 then Some (False, st2)
           else
             (let data_offset = find_data_offset syms seen_shndx in
              if data_offset = 0 then Some (False, st2)
              else
                (let text_ext = \<lparr>ext_offset = 0,
                        ext_size = ucast (plt_addr (plt_info st2) + plt_size (plt_info st2))\<rparr>;
                     rodata_offset = ALIGN_UP (ext_offset text_ext + ext_size text_ext) 0x1000;
                     rodata_ext = \<lparr>ext_offset = rodata_offset,
                        ext_size = data_offset - rodata_offset\<rparr>;
                     data_ext = \<lparr>ext_offset = data_offset,
                        ext_size = of_nat (length (nso_image st2)) - data_offset\<rparr>;
                     mod_hdr = parse_ModHeader (drop mod_base (nso_image st2));
                     bss = mod_get_offset mod_base (bss_end_offset mod_hdr) -
                           mod_get_offset mod_base (bss_start_offset mod_hdr);
                     exts = [text_ext, rodata_ext, data_ext]
                 in Some (True, st2\<lparr>header := (header st2)
                      \<lparr>dynstr := \<lparr>ext_offset = ucast (strtab (dyn_info st2) - ucast rodata_offset),
                                  ext_size = ucast (strsz (dyn_info st2))\<rparr>,
                       dynsym := (dynsym (header st2))
                                 \<lparr>ext_offset := ucast (symtab (dyn_info st2) - ucast rodata_offset)\<rparr>,
                       segments := segments_of_extents exts (ALIGN_UP bss 0x1000 + 1),
                       segment_file_sizes := map ext_size exts\<rparr>\<rparr>))))
        })
   }"

text \<open>
  Modelled from the spec: \<^verbatim>\<open>memmemr\<close> of \<^verbatim>\<open>types.h\<close>, which is not among the source
  files: the reverse search, whose result is the latest occurrence of the needle
  in the haystack (its offset from the start of the haystack).
\<close>

fun memmemr_from :: "nat \<Rightarrow> u8 list \<Rightarrow> u8 list \<Rightarrow> nat option \<Rightarrow> nat option" where
  "memmemr_from i [] needle latest = latest"
| "memmemr_from i (h # hs) needle latest =
     memmemr_from (Suc i) hs needle
       (if length needle \<le> length (h # hs) \<and> take (length needle) (h # hs) = needle
        then Some i else latest)"

definition memmemr :: "u8 list \<Rightarrow> u8 list \<Rightarrow> nat option" where
  "memmemr hay needle = memmemr_from 0 hay needle None"

text \<open>
  Modelled from the spec: the needles of lines 474-479 are values of the struct
  \<^verbatim>\<open>GnuBuildId\<close>, which is not among the source files. By the spec the needle is
  a note header with \<^verbatim>\<open>namesz = 4\<close>, the size of the MD5 (16) or SHA1 (20)
  description and \<^verbatim>\<open>type = 3\<close>, followed by the owner \<^verbatim>\<open>"GNU"\<close>; the first 16 bytes
  are compared.
\<close>

definition build_id_needle :: "u32 \<Rightarrow> u8 list" where
  "build_id_needle descsz = enc32 4 @ enc32 descsz @ enc32 3 @ bytes_of ''GNU'' @ [0]"

text \<open>Lines 480-494: the note is searched in \<^verbatim>\<open>.rodata\<close>, \<^verbatim>\<open>.text\<close>, \<^verbatim>\<open>.data\<close>, each
  with the MD5 needle first.\<close>

fun find_note :: "u8 list \<Rightarrow> SegmentHeader list \<Rightarrow> nat list \<Rightarrow> nat option option" where
  "find_note img segs [] = Some None"
| "find_note img segs (i # is) = do {
     buf \<leftarrow> read_bytes img (unat (mem_offset (segs ! i))) (unat (mem_size (segs ! i)));
     (case memmemr buf (build_id_needle 16) of
        Some k \<Rightarrow> Some (Some (unat (mem_offset (segs ! i)) + k))
      | None \<Rightarrow>
          (case memmemr buf (build_id_needle 20) of
             Some k \<Rightarrow> Some (Some (unat (mem_offset (segs ! i)) + k))
           | None \<Rightarrow> find_note img segs is))
   }"

text \<open>Lines 473-502: the note pointer, and for a raw MOD the build id copied out of
  the note (\<^verbatim>\<open>n_descsz\<close> bytes from offset 16 of the note).\<close>

definition Load_note :: "NsoFile \<Rightarrow> NsoFile option" where
  "Load_note st = do {
     found \<leftarrow> find_note (nso_image st) (segments (header st)) [kRodata, kText, kData];
     (case found of
        Some n \<Rightarrow>
          if file_type st = kMod then do {
            n_descsz \<leftarrow> rd32 (nso_image st) (n + 4);
            desc \<leftarrow> read_bytes (nso_image st) (n + 16) (unat n_descsz);
            id' \<leftarrow> write_bytes (gnu_build_id (header st)) 0 desc;
            Some (st\<lparr>note_ptr := Some n, header := (header st)\<lparr>gnu_build_id := id'\<rparr>\<rparr>)
          } else Some (st\<lparr>note_ptr := Some n\<rparr>)
      | None \<Rightarrow> Some (st\<lparr>note_ptr := None\<rparr>))
   }"

text \<open>Lines 504-505.\<close>

definition Load_eh :: "nat \<Rightarrow> NsoFile \<Rightarrow> NsoFile" where
  "Load_eh mod_base st =
     (let mod_hdr = parse_ModHeader (drop mod_base (nso_image st));
          hdr_addr' = ucast (mod_get_offset mod_base (eh_start_offset mod_hdr))
      in st\<lparr>eh_info := (eh_info st)
            \<lparr>hdr_addr := hdr_addr',
             hdr_size := ucast (mod_get_offset mod_base (eh_end_offset mod_hdr)) - hdr_addr'\<rparr>\<rparr>)"

text \<open>
  \<^verbatim>\<open>NsoFile::Load\<close> on the bytes of the file (\<^verbatim>\<open>File::Read\<close> gives the empty
  vector when the file cannot be read). The result \<open>Some (b, st)\<close> is the
  returned \<^verbatim>\<open>bool\<close> and the object after the call.
\<close>

definition Load :: "lz4_decoder \<Rightarrow> u8 list \<Rightarrow> NsoFile \<Rightarrow> (bool \<times> NsoFile) option" where
  "Load lz4 file st0 = do {
     (ok1, st1) \<leftarrow> Load_container lz4 file st0;
     if \<not> ok1 then Some (False, st1) else do {
       (ok2, st2, mod_base) \<leftarrow> Load_mod file st1;
       if \<not> ok2 then Some (False, st2) else do {
         st3 \<leftarrow> Load_dynamic mod_base st2;
         (ok4, st4) \<leftarrow>
           (if file_type st3 \<noteq> kMod then do {
              (found, st') \<leftarrow> ResolvePlt (unat (mem_offset (segments (header st3) ! kText)))
                                (unat (mem_size (segments (header st3) ! kText))) st3;
              Some (True, st')
            } else Load_mod_segments mod_base st3);
         if \<not> ok4 then Some (False, st4) else do {
           st5 \<leftarrow> Load_note st4;
           Some (True, Load_eh mod_base st5)
         }
       }
     }
   }"

section \<open>The uncompressed-NSO writer\<close>

text \<open>\<^verbatim>\<open>NsoFile::WriteUncompressedNso\<close>: the bytes handed to \<^verbatim>\<open>File::Write\<close>.
  \<^verbatim>\<open>sizeof(NsoHeader)\<close> is 0x100.\<close>

definition uncompressed_header :: "NsoHeader \<Rightarrow> NsoHeader" where
  "uncompressed_header h =
     (let segs = map (\<lambda>seg. seg\<lparr>file_offset := mem_offset seg + 0x100\<rparr>) (segments h);
          segs' = segs[kText := (segs ! kText)\<lparr>bss_align := 0x100\<rparr>];
          segs'' = segs'[kRodata := (segs' ! kRodata)\<lparr>bss_align := 0\<rparr>]
      in h\<lparr>flags := flags h AND 0xf8, segments := segs'',
           segment_file_sizes := map mem_size (segments h)\<rparr>)"

definition WriteUncompressedNso :: "NsoFile \<Rightarrow> u8 list option" where
  "WriteUncompressedNso st =
     (let new_header = uncompressed_header (header st);
          image_size = unat (mem_offset (segments new_header ! kData) +
                             mem_size (segments new_header ! kData))
      in do {
        img \<leftarrow> read_bytes (nso_image st) 0 image_size;
        Some (ser_NsoHeader new_header @ img)
      })"

section \<open>The ELF emitter\<close>

text \<open>The structs of \<^verbatim>\<open>elf.h\<close> that the emitter fills in, with the standard ELF64
  layouts (64, 56 and 64 bytes), and the constants it uses.\<close>

record Elf64_Ehdr =
  e_ident :: "u8 list"
  e_type :: u16
  e_machine :: u16
  e_version :: u32
  e_entry :: u64
  e_phoff :: u64
  e_shoff :: u64
  e_flags :: u32
  e_ehsize :: u16
  e_phentsize :: u16
  e_phnum :: u16
  e_shentsize :: u16
  e_shnum :: u16
  e_shstrndx :: u16

record Elf64_Phdr =
  p_type :: u32
  p_flags :: u32
  p_offset :: u64
  p_vaddr :: u64
  p_paddr :: u64
  p_filesz :: u64
  p_memsz :: u64
  p_align :: u64

record Elf64_Shdr =
  sh_name :: u32
  sh_type :: u32
  sh_flags :: u64
  sh_addr :: u64
  sh_offset :: u64
  sh_size :: u64
  sh_link :: u32
  sh_info :: u32
  sh_addralign :: u64
  sh_entsize :: u64




definition Elf64_Phdr_zero :: Elf64_Phdr where
  "Elf64_Phdr_zero =
     \<lparr>p_type = 0, p_flags = 0, p_offset = 0, p_vaddr = 0, p_paddr = 0, p_filesz = 0,
      p_memsz = 0, p_align = 0\<rparr>"

definition Elf64_Shdr_zero :: Elf64_Shdr where
  "Elf64_Shdr_zero =
     \<lparr>sh_name = 0, sh_type = 0, sh_flags = 0, sh_addr = 0, sh_offset = 0, sh_size = 0,
      sh_link = 0, sh_info = 0, sh_addralign = 0, sh_entsize = 0\<rparr>"

definition SHT_NULL :: u32 where "SHT_NULL = 0"
definition SHT_PROGBITS :: u32 where "SHT_PROGBITS = 1"
definition SHT_STRTAB :: u32 where "SHT_STRTAB = 3"
definition SHT_RELA :: u32 where "SHT_RELA = 4"
definition SHT_HASH :: u32 where "SHT_HASH = 5"
definition SHT_DYNAMIC :: u32 where "SHT_DYNAMIC = 6"
definition SHT_NOTE :: u32 where "SHT_NOTE = 7"
definition SHT_NOBITS :: u32 where "SHT_NOBITS = 8"
definition SHT_DYNSYM :: u32 where "SHT_DYNSYM = 11"
definition SHT_INIT_ARRAY :: u32 where "SHT_INIT_ARRAY = 14"
definition SHT_FINI_ARRAY :: u32 where "SHT_FINI_ARRAY = 15"
definition SHT_GNU_HASH :: u32 where "SHT_GNU_HASH = 0x6ffffff6"
definition SHF_WRITE :: u64 where "SHF_WRITE = 1"
definition SHF_ALLOC :: u64 where "SHF_ALLOC = 2"
definition SHF_EXECINSTR :: u64 where "SHF_EXECINSTR = 4"
definition SHF_INFO_LINK :: u64 where "SHF_INFO_LINK = 0x40"
definition PT_LOAD :: u32 where "PT_LOAD = 1"
definition PT_DYNAMIC :: u32 where "PT_DYNAMIC = 2"
definition PT_GNU_EH_FRAME :: u32 where "PT_GNU_EH_FRAME = 0x6474e550"
definition PF_X :: u32 where "PF_X = 1"
definition PF_W :: u32 where "PF_W = 2"
definition PF_R :: u32 where "PF_R = 4"
definition ET_DYN :: u16 where "ET_DYN = 3"
definition EM_AARCH64 :: u16 where "EM_AARCH64 = 183"
definition R_AARCH64_GLOB_DAT :: u64 where "R_AARCH64_GLOB_DAT = 1025"
definition R_AARCH64_JUMP_SLOT :: u64 where "R_AARCH64_JUMP_SLOT = 1026"
definition STB_LOCAL :: u8 where "STB_LOCAL = 0"

text \<open>
  \<^verbatim>\<open>known_sections\<close>, an \<^verbatim>\<open>unordered_map<u16, Elf64_Shdr>\<close>, is an association list
  from section indices to headers, in insertion order. The source leaves the
  iteration order of the map open; it matters only in \<^verbatim>\<open>insert_shdr\<close>, for the
  slot an ordered section gets when several known sections contain its address.
\<close>

type_synonym known_sections = "(nat \<times> Elf64_Shdr) list"

text \<open>The lambda \<^verbatim>\<open>vaddr_to_shdr\<close> (lines 598-642): one round of its loop over the
  segments, and the loop. It adds the section's name to \<^verbatim>\<open>shstrtab\<close>.\<close>

definition vaddr_to_shdr_step ::
  "NsoFile \<Rightarrow> u64 \<Rightarrow> nat \<Rightarrow> Elf64_Shdr \<times> StringTable \<Rightarrow> Elf64_Shdr \<times> StringTable" where
  "vaddr_to_shdr_step st vaddr i = (\<lambda>(shdr, shstrtab).
     let location = vaddr;
         seg = segments (header st) ! i;
         seg_mem_end = mem_offset seg + mem_size seg
     in if location \<ge> ucast (mem_offset seg) \<and> location < ucast seg_mem_end then
          (let name = (if i = kText then ''.text'' else if i = kData then ''.data'' else ''.rodata'');
               fl = (if i = kText then SHF_ALLOC OR SHF_EXECINSTR
                     else if i = kData then SHF_ALLOC OR SHF_WRITE else SHF_ALLOC);
               shstrtab' = AddString name shstrtab
           in (shdr\<lparr>sh_name := GetOffset shstrtab' name, sh_type := SHT_PROGBITS,
                    sh_flags := fl, sh_addr := ucast (mem_offset seg),
                    sh_size := ucast (mem_size seg), sh_addralign := 8\<rparr>, shstrtab'))
        else if i = kData \<and> location \<ge> ucast seg_mem_end \<and>
                location \<le> ucast (seg_mem_end + bss_align seg) then
          (let shstrtab' = AddString ''.bss'' shstrtab
           in (shdr\<lparr>sh_name := GetOffset shstrtab' ''.bss'', sh_type := SHT_NOBITS,
                    sh_flags := SHF_ALLOC OR SHF_WRITE, sh_addr := ucast seg_mem_end,
                    sh_size := ucast (bss_align seg), sh_addralign := 8\<rparr>, shstrtab'))
        else (shdr, shstrtab))"

definition vaddr_to_shdr :: "NsoFile \<Rightarrow> u64 \<Rightarrow> StringTable \<Rightarrow> Elf64_Shdr \<times> StringTable" where
  "vaddr_to_shdr st vaddr shstrtab =
     fold (vaddr_to_shdr_step st vaddr) [0, 1, 2] (Elf64_Shdr_zero, shstrtab)"

text \<open>The callback of lines 643-657 on one symbol; the state is \<^verbatim>\<open>num_shdrs\<close> (a
  \<^verbatim>\<open>u16\<close>, kept as a natural number below \<open>2 ^ 16\<close>), the known sections and
  the string table.\<close>

definition profile_sym ::
  "NsoFile \<Rightarrow> Elf64_Sym \<Rightarrow> nat \<times> known_sections \<times> StringTable \<Rightarrow> nat \<times> known_sections \<times> StringTable" where
  "profile_sym st sy = (\<lambda>(num_shdrs, known, shstrtab).
     if st_shndx sy \<ge> SHN_LORESERVE then (num_shdrs, known, shstrtab)
     else
       (let num_shdrs' = max num_shdrs (unat (st_shndx sy)) in
        if st_shndx sy \<noteq> 0 \<and> map_of known (unat (st_shndx sy)) = None then
          (let (shdr, shstrtab') = vaddr_to_shdr st (st_value sy) shstrtab in
           if sh_type shdr \<noteq> SHT_NULL
           then (num_shdrs', AList.update (unat (st_shndx sy)) shdr known, shstrtab')
           else (num_shdrs', known, shstrtab'))
        else (num_shdrs', known, shstrtab)))"

text \<open>The lambda \<^verbatim>\<open>next_free\<close> (lines 661-668); 0 is \<^verbatim>\<open>SHN_UNDEF\<close>.\<close>

function next_free_from :: "known_sections \<Rightarrow> nat \<Rightarrow> nat" where
  "next_free_from known i =
     (if i < 0xff00 then (if map_of known i = None then i else next_free_from known (i + 1))
      else 0)"
  by pat_completeness auto
termination
  by (relation "measure (\<lambda>(known, i). 0xff00 - i)") auto

definition next_free :: "known_sections \<Rightarrow> nat \<Rightarrow> nat" where
  "next_free known start = next_free_from known ((start + 1) mod 2 ^ 16)"

text \<open>One of the four blocks of lines 670-694: a canonical section nothing pointed
  to is put at the free index \<open>shndx\<close>.\<close>

definition add_known_segment ::
  "NsoFile \<Rightarrow> string \<Rightarrow> bool \<Rightarrow> u64 \<Rightarrow> nat \<times> known_sections \<times> StringTable \<Rightarrow>
   nat \<times> known_sections \<times> StringTable" where
  "add_known_segment st name nonempty vaddr = (\<lambda>(shndx, known, shstrtab).
     if shndx \<noteq> 0 \<and> GetOffset shstrtab name = 0 \<and> nonempty then
       (let (shdr, shstrtab') = vaddr_to_shdr st vaddr shstrtab;
            known' = AList.update shndx shdr known
        in (next_free known' shndx, known', shstrtab'))
     else (shndx, known, shstrtab))"

text \<open>Lines 592-697: the sections known from the symbol table, the canonical
  sections added by hand, and \<^verbatim>\<open>num_shdrs\<close> after \<^verbatim>\<open>num_shdrs++\<close>.\<close>

definition WriteElf_profile :: "NsoFile \<Rightarrow> (nat \<times> known_sections \<times> StringTable) option" where
  "WriteElf_profile st = do {
     syms \<leftarrow> iter_dynsym st;
     let (num_shdrs, known, shstrtab) =
           fold (profile_sym st) syms (0, [], AddString ''.shstrtab'' StringTable_new);
     let segs = segments (header st);
     let (shndx, known', shstrtab') =
           (if length known \<noteq> 3 + 1 then
              (add_known_segment st ''.bss'' (bss_align (segs ! kData) > 0)
                 (ucast (mem_offset (segs ! kData) + mem_size (segs ! kData)))
               (add_known_segment st ''.data'' (mem_size (segs ! kData) > 0)
                 (ucast (mem_offset (segs ! kData)))
               (add_known_segment st ''.rodata'' (mem_size (segs ! kRodata) > 0)
                 (ucast (mem_offset (segs ! kRodata)))
               (add_known_segment st ''.text'' (mem_size (segs ! kText) > 0)
                 (ucast (mem_offset (segs ! kText)))
                 (next_free known 0, known, shstrtab)))))
            else (0, known, shstrtab));
     Some ((num_shdrs + 1) mod 2 ^ 16, known', shstrtab')
   }"

text \<open>The loops of lines 734-741 and 1096-1101 over the 24-byte \<^verbatim>\<open>Elf64_Rela\<close>
  entries \<^verbatim>\<open>{r_offset, r_info, r_addend}\<close> of a table: the largest
  \<^verbatim>\<open>r_offset + sizeof(u64)\<close> among the entries of one relocation type, starting
  from \<open>cur\<close>. \<^verbatim>\<open>ELF64_R_TYPE\<close> is the low 32 bits of \<^verbatim>\<open>r_info\<close>.\<close>

function rela_scan :: "u8 list \<Rightarrow> nat \<Rightarrow> nat \<Rightarrow> u64 \<Rightarrow> nat \<Rightarrow> u64 \<Rightarrow> u64 option" where
  "rela_scan img table n r_type i cur =
     (if i < n then
        (case read_bytes img (table + 24 * i) 16 of
           None \<Rightarrow> None
         | Some rela_bytes \<Rightarrow>
             rela_scan img table n r_type (i + 1)
               (if (u64_at rela_bytes 8 AND 0xffffffff) = r_type
                then max cur (u64_at rela_bytes 0 + 8) else cur))
      else Some cur)"
  by pat_completeness auto
termination
  by (relation "measure (\<lambda>(img, table, n, r_type, i, cur). n - i)") auto

text \<open>
  Modelled from the spec: \<^verbatim>\<open>memmem\<close>, declared outside the source files: the
  offset of the first occurrence of the needle in the haystack.
\<close>

definition memmem :: "u8 list \<Rightarrow> u8 list \<Rightarrow> nat option" where
  "memmem hay needle = memmem_m hay needle (replicate (length needle) 0xff)"

text \<open>Lines 765-770: the scan for the \<^verbatim>\<open>ret\<close> that ends \<^verbatim>\<open>.init\<close>, from word \<open>i\<close>
  on. The source's loop has no bound; it ends at a \<^verbatim>\<open>ret\<close> or leaves the
  image.\<close>

function init_ret_scan :: "u8 list \<Rightarrow> nat \<Rightarrow> nat \<Rightarrow> u32 option" where
  "init_ret_scan img init_ptr i =
     (case rd32 img (init_ptr + 4 * i) of
        None \<Rightarrow> None
      | Some w \<Rightarrow>
          if w = 0xd65f03c0 then Some (of_nat ((i + 1) * 4))
          else init_ret_scan img init_ptr (i + 1))"
  by pat_completeness auto
termination
  by (relation "measure (\<lambda>(img, init_ptr, i). length img - (init_ptr + 4 * i))")
     (auto dest!: rd32_in_range)

text \<open>Lines 776-781: the scan for the branch that ends \<^verbatim>\<open>.fini\<close>, within 0x20
  words; 0 when there is none.\<close>

function fini_branch_scan :: "u8 list \<Rightarrow> nat \<Rightarrow> nat \<Rightarrow> u32 option" where
  "fini_branch_scan img fini_ptr i =
     (if i < 0x20 then
        (case rd32 img (fini_ptr + 4 * i) of
           None \<Rightarrow> None
         | Some w \<Rightarrow>
             if (w AND 0xff000000) = 0x14000000 then Some (of_nat ((i + 1) * 4))
             else fini_branch_scan img fini_ptr (i + 1))
      else Some 0)"
  by pat_completeness auto
termination
  by (relation "measure (\<lambda>(img, fini_ptr, i). 0x20 - i)") auto

text \<open>
  \<^verbatim>\<open>ElfEHInfo::MeasureFrame\<close> is declared in \<^verbatim>\<open>elf_eh.h\<close>, which is not among the
  source files. It is the parameter \<open>measure_frame\<close>: from the image and
  \<^verbatim>\<open>eh_info.hdr_addr\<close> it gives \<open>None\<close> for an access outside the image,
  \<open>Some None\<close> for \<^verbatim>\<open>false\<close>, and \<open>Some (Some (eh_frame_ptr, frame_size))\<close>
  for \<^verbatim>\<open>true\<close>, with \<^verbatim>\<open>eh_frame_ptr\<close> as an offset from \<^verbatim>\<open>&image[0]\<close>.
\<close>

type_synonym eh_measure = "u8 list \<Rightarrow> u64 \<Rightarrow> (u64 \<times> u64) option option"

text \<open>The local struct \<^verbatim>\<open>present\<close> and the other values that lines 699-830
  compute for the rest of \<^verbatim>\<open>WriteElf\<close>.\<close>

record Present =
  present_plt :: bool
  present_got :: bool
  present_got_plt :: bool
  present_rela_plt :: bool
  present_hash :: bool
  present_gnu_hash :: bool
  present_init :: bool
  present_fini :: bool
  present_init_array :: bool
  present_fini_array :: bool
  present_note :: bool
  present_eh :: bool

record Plan =
  present :: Present
  jump_slot_addr_end :: u64
  got_addr :: u64
  init_ret_offset :: u32
  fini_branch_offset :: u32
  plan_eh_info :: EhInfo
  plan_shstrtab :: StringTable
  plan_num_shdrs :: nat

definition count_if :: "bool \<Rightarrow> int" where
  "count_if c = (if c then 1 else 0)"

definition add_name_if :: "bool \<Rightarrow> string \<Rightarrow> StringTable \<Rightarrow> StringTable" where
  "add_name_if c name t = (if c then AddString name t else t)"

text \<open>Lines 699-830. \<^verbatim>\<open>ALLOC_SHDR_IF(condition, name)\<close> sets \<^verbatim>\<open>present.name\<close> and
  counts one more header; the sum of the counts is \<^verbatim>\<open>shdrs_needed\<close>, an
  \<^verbatim>\<open>int\<close>.\<close>

definition WriteElf_plan ::
  "eh_measure \<Rightarrow> NsoFile \<Rightarrow> nat \<times> known_sections \<times> StringTable \<Rightarrow> Plan option" where
  "WriteElf_plan measure_frame st = (\<lambda>(num_shdrs, known, shstrtab0). do {
     let di = dyn_info st;
     let img = nso_image st;
     let shstrtab1 = fold AddString [''.dynstr'', ''.dynsym'', ''.dynamic'', ''.rela.dyn''] shstrtab0;
     let plt = (plt_addr (plt_info st) \<noteq> 0);
     jump_slot_addr_end \<leftarrow>
       (if jmprel di \<noteq> 0
        then rela_scan img (unat (jmprel di)) (unat (pltrelsz di div 24)) R_AARCH64_JUMP_SLOT 0 0
        else Some 0);
     let got_plt = (jump_slot_addr_end \<noteq> 0 \<and> pltgot di \<noteq> 0);
     got_addr \<leftarrow>
       (if jump_slot_addr_end \<noteq> 0 then
          (if unat jump_slot_addr_end > length img then None
           else (case memmem (drop (unat jump_slot_addr_end) img) (enc64 (of_nat (dynamic st))) of
                   Some found \<Rightarrow> Some (of_nat (unat jump_slot_addr_end + found))
                 | None \<Rightarrow> Some 0))
        else Some 0);
     let got = (got_addr \<noteq> 0 \<and> rela di \<noteq> 0);
     let rela_plt = (got_plt \<and> jmprel di \<noteq> 0 \<and> pltrelsz di \<noteq> 0);
     let hash' = (hash di \<noteq> 0);
     let gnu_hash' = (gnu_hash di \<noteq> 0);
     let init_array' = (init_array di \<noteq> 0 \<and> init_arraysz di \<noteq> 0);
     let fini_array' = (fini_array di \<noteq> 0 \<and> fini_arraysz di \<noteq> 0);
     let note' = (note_ptr st \<noteq> None);
     init_ret \<leftarrow> (if init di \<noteq> 0 then init_ret_scan img (unat (init di)) 0 else Some 0);
     let init' = (init di \<noteq> 0 \<and> init_ret \<noteq> 0);
     fini_branch \<leftarrow> (if fini di \<noteq> 0 then fini_branch_scan img (unat (fini di)) 0 else Some 0);
     let fini' = (fini di \<noteq> 0 \<and> fini_branch \<noteq> 0);
     measured \<leftarrow> measure_frame img (hdr_addr (eh_info st));
     let eh_info' =
       (case measured of
          Some (eh_frame_ptr, frame_size') \<Rightarrow>
            (eh_info st)\<lparr>frame_addr := hdr_addr (eh_info st) + (eh_frame_ptr - hdr_addr (eh_info st)),
                         hdr_size := ALIGN_UP (hdr_size (eh_info st)) 0x10,
                         frame_size := ALIGN_UP frame_size' 0x10\<rparr>
        | None \<Rightarrow> eh_info st);
     let eh = (measured \<noteq> None);
     let shdrs_needed =
       int (length known) - int num_shdrs + 1 + 1 + 4 +
       count_if plt + count_if got_plt + count_if got + count_if rela_plt + count_if hash' +
       count_if gnu_hash' + count_if init_array' + count_if fini_array' + count_if note' +
       count_if init' + count_if fini' + (if eh then 2 else 0);
     let shstrtab2 = add_name_if eh ''.eh_frame'' (add_name_if eh ''.eh_frame_hdr'' shstrtab1);
     let shstrtab3 =
       add_name_if note' ''.note'' (add_name_if fini_array' ''.fini_array''
       (add_name_if init_array' ''.init_array'' (add_name_if fini' ''.fini''
       (add_name_if init' ''.init'' (add_name_if gnu_hash' ''.gnu.hash''
       (add_name_if hash' ''.hash'' (add_name_if rela_plt ''.rela.plt''
       (add_name_if got_plt ''.got.plt'' (add_name_if got ''.got''
       (add_name_if plt ''.plt'' shstrtab2))))))))));
     shstrtab4 \<leftarrow> Finalize shstrtab3;
     Some \<lparr>present = \<lparr>present_plt = plt, present_got = got, present_got_plt = got_plt,
                       present_rela_plt = rela_plt, present_hash = hash',
                       present_gnu_hash = gnu_hash', present_init = init',
                       present_fini = fini', present_init_array = init_array',
                       present_fini_array = fini_array', present_note = note',
                       present_eh = eh\<rparr>,
           jump_slot_addr_end = jump_slot_addr_end, got_addr = got_addr,
           init_ret_offset = init_ret, fini_branch_offset = fini_branch,
           plan_eh_info = eh_info', plan_shstrtab = shstrtab4,
           plan_num_shdrs =
             (if shdrs_needed > 0 then nat ((int num_shdrs + shdrs_needed) mod 2 ^ 16)
              else num_shdrs)\<rparr>
   })"

text \<open>
  The output buffer \<^verbatim>\<open>elf\<close>. The pointers \<^verbatim>\<open>ehdr\<close>, \<^verbatim>\<open>phdrs\<close> and \<^verbatim>\<open>shdrs\<close> are
  typed views of its first \<^verbatim>\<open>e_shoff + e_shentsize * e_shnum\<close> bytes. The model
  keeps them as a record and two arrays, keeps the bytes behind them in
  \<open>elf_raw\<close>, and lays the views over the buffer when the file is written
  (\<open>elf_file\<close>). An index outside the section header array would write
  over the bytes that follow it: the model gives \<open>None\<close> there.
\<close>

record ElfFile =
  elf_ehdr :: Elf64_Ehdr
  elf_phdrs :: "Elf64_Phdr list"
  elf_shdrs :: "Elf64_Shdr list"
  elf_raw :: "u8 list"
  elf_shstrtab :: StringTable


text \<open>The lambda \<^verbatim>\<open>vaddr_to_foffset\<close> (lines 863-871) over the three PT_LOAD headers.\<close>

definition vaddr_to_foffset :: "Elf64_Phdr list \<Rightarrow> u64 \<Rightarrow> u64" where
  "vaddr_to_foffset phdrs vaddr =
     (case filter (\<lambda>phdr. vaddr \<ge> p_vaddr phdr \<and> vaddr < p_vaddr phdr + p_filesz phdr)
             (take 3 phdrs) of
        [] \<Rightarrow> 0
      | phdr # _ \<Rightarrow> p_offset phdr + (vaddr - p_vaddr phdr))"

text \<open>The PT_LOAD rounds of the loop of lines 877-936 (\<^verbatim>\<open>i < kNumSegment\<close>): the
  header, the copy of the segment out of the image, the fix of \<^verbatim>\<open>sh_offset\<close> in
  the known sections, and the advance of \<^verbatim>\<open>data_offset_cur\<close>.\<close>

definition load_phdr :: "SegmentHeader \<Rightarrow> nat \<Rightarrow> nat \<Rightarrow> Elf64_Phdr" where
  "load_phdr seg i data_offset_cur =
     \<lparr>p_type = PT_LOAD,
      p_flags = (if i = kText then PF_R OR PF_X else if i = kRodata then PF_R else PF_R OR PF_W),
      p_offset = of_nat data_offset_cur,
      p_vaddr = ucast (mem_offset seg), p_paddr = ucast (mem_offset seg),
      p_filesz = ucast (mem_size seg),
      p_memsz = (if i = kData then ucast (mem_size seg + bss_align seg) else ucast (mem_size seg)),
      p_align = (if i = kData then 1 else ucast (max 1 (bss_align seg)))\<rparr>"

fun WriteElf_loads ::
  "NsoFile \<Rightarrow> nat list \<Rightarrow> u8 list \<times> Elf64_Phdr list \<times> known_sections \<times> nat \<Rightarrow>
   (u8 list \<times> Elf64_Phdr list \<times> known_sections \<times> nat) option" where
  "WriteElf_loads st [] acc = Some acc"
| "WriteElf_loads st (i # is) (elf, phdrs, known, data_offset_cur) =
     (let seg = segments (header st) ! i;
          phdr = load_phdr seg i data_offset_cur
      in do {
        seg_bytes \<leftarrow> read_bytes (nso_image st) (unat (mem_offset seg)) (unat (p_filesz phdr));
        elf' \<leftarrow> write_bytes elf (unat (p_offset phdr)) seg_bytes;
        let known' = map (\<lambda>(shndx, shdr).
              (shndx, if sh_addr shdr = p_vaddr phdr then shdr\<lparr>sh_offset := p_offset phdr\<rparr>
                      else shdr)) known;
        WriteElf_loads st is
          (elf', phdrs[i := phdr], known', data_offset_cur + unat (p_filesz phdr))
      })"

text \<open>Lines 921-924: the size of the dynamic table, walked again to its
  terminator. \<^verbatim>\<open>sizeof(Elf64_Dyn)\<close> is 16.\<close>

function dyn_size_loop :: "u8 list \<Rightarrow> nat \<Rightarrow> nat \<Rightarrow> nat option" where
  "dyn_size_loop img p dyn_size =
     (case rd64 img p of
        None \<Rightarrow> None
      | Some d_tag \<Rightarrow>
          if d_tag = 0 then Some dyn_size else dyn_size_loop img (p + 16) (dyn_size + 16))"
  by pat_completeness auto
termination
  by (relation "measure (\<lambda>(img, p, dyn_size). length img - p)") (auto dest: rd64_in_range)

text \<open>Lines 832-936: the buffer, the ELF header, the string table's bytes and the
  five program headers.\<close>

definition WriteElf_headers ::
  "NsoFile \<Rightarrow> known_sections \<Rightarrow> Plan \<Rightarrow>
   (Elf64_Ehdr \<times> Elf64_Phdr list \<times> known_sections \<times> u8 list \<times> StringTable) option" where
  "WriteElf_headers st known plan = do {
     let num_shdrs = plan_num_shdrs plan;
     let num_phdrs = 3 + 2;
     let elf_size = 64 + 56 * num_phdrs + 64 * num_shdrs + strtab_size (plan_shstrtab plan) +
                    sum_list (map (\<lambda>seg. unat (mem_size seg)) (segments (header st)));
     let elf0 = replicate elf_size 0;
     let ehdr = \<lparr>e_ident = [0x7f, 0x45, 0x4c, 0x46, 2, 1, 1, 0, 0],
                 e_type = ET_DYN, e_machine = EM_AARCH64, e_version = 1,
                 e_entry = ucast (mem_offset (segments (header st) ! kText)),
                 e_phoff = 64, e_shoff = 64 + 56 * of_nat num_phdrs, e_flags = 0,
                 e_ehsize = 64, e_phentsize = 56, e_phnum = of_nat num_phdrs,
                 e_shentsize = 64, e_shnum = of_nat num_shdrs, e_shstrndx = 0\<rparr>;
     let shstrtab = (plan_shstrtab plan)
           \<lparr>strtab_offset := unat (e_shoff ehdr + ucast (e_shentsize ehdr) * ucast (e_shnum ehdr))\<rparr>;
     elf1 \<leftarrow> write_bytes elf0 (strtab_offset shstrtab) (buffer shstrtab);
     (elf2, phdrs, known', data_offset_cur) \<leftarrow>
       WriteElf_loads st [0, 1, 2]
         (elf1, replicate num_phdrs Elf64_Phdr_zero, known,
          strtab_offset shstrtab + strtab_size shstrtab);
     dyn_size \<leftarrow> dyn_size_loop (nso_image st) (dynamic st) 16;
     let dyn_phdr = \<lparr>p_type = PT_DYNAMIC, p_flags = PF_R OR PF_W,
                     p_offset = vaddr_to_foffset phdrs (of_nat (dynamic st)),
                     p_vaddr = of_nat (dynamic st), p_paddr = of_nat (dynamic st),
                     p_filesz = of_nat dyn_size, p_memsz = of_nat dyn_size, p_align = 8\<rparr>;
     let eh = plan_eh_info plan;
     let eh_phdr = \<lparr>p_type = PT_GNU_EH_FRAME, p_flags = PF_R,
                    p_offset = vaddr_to_foffset phdrs (hdr_addr eh),
                    p_vaddr = hdr_addr eh, p_paddr = hdr_addr eh,
                    p_filesz = hdr_size eh, p_memsz = hdr_size eh, p_align = 4\<rparr>;
     Some (ehdr, phdrs[3 := dyn_phdr, 4 := eh_phdr], known', elf2, shstrtab)
   }"

text \<open>Lines 946-949: the known sections go to their own indices.\<close>

fun place_known :: "known_sections \<Rightarrow> Elf64_Shdr list \<Rightarrow> Elf64_Shdr list option" where
  "place_known [] shdrs = Some shdrs"
| "place_known ((shndx, shdr) # known) shdrs =
     (if shndx < length shdrs then place_known known (shdrs[shndx := shdr]) else None)"

text \<open>The lambda \<^verbatim>\<open>insert_shdr\<close> (lines 951-981): the first index from \<open>start\<close> on
  whose header is still \<^verbatim>\<open>SHT_NULL\<close>; the result is the array and the index, 0
  (\<^verbatim>\<open>SHN_UNDEF\<close>) when there is none.\<close>

function first_free :: "Elf64_Shdr list \<Rightarrow> nat \<Rightarrow> nat option" where
  "first_free shdrs i =
     (if i < length shdrs then
        (if sh_type (shdrs ! i) = SHT_NULL then Some i else first_free shdrs (i + 1))
      else None)"
  by pat_completeness auto
termination
  by (relation "measure (\<lambda>(shdrs, i). length shdrs - i)") auto

definition insert_start :: "known_sections \<Rightarrow> Elf64_Shdr \<Rightarrow> bool \<Rightarrow> nat" where
  "insert_start known shdr ordered =
     (if ordered then
        fold (\<lambda>(shndx, known_shdr) start.
                if sh_addr shdr \<ge> sh_addr known_shdr \<and>
                   sh_addr shdr < sh_addr known_shdr + sh_size known_shdr
                then shndx + 1 else start)
          known 1
      else 1)"

definition insert_shdr ::
  "known_sections \<Rightarrow> Elf64_Shdr \<Rightarrow> bool \<Rightarrow> Elf64_Shdr list \<Rightarrow> Elf64_Shdr list \<times> nat" where
  "insert_shdr known shdr ordered shdrs =
     (let start = insert_start known shdr ordered in
      case first_free shdrs start of
        Some i \<Rightarrow> (shdrs[i := shdr], i)
      | None \<Rightarrow>
          if ordered \<and> start \<noteq> 1 then
            (case first_free shdrs 1 of
               Some i \<Rightarrow> (shdrs[i := shdr], i)
             | None \<Rightarrow> (shdrs, 0))
          else (shdrs, 0))"

text \<open>An optional section: inserted when its \<^verbatim>\<open>present\<close> flag is set.\<close>

definition insert_if ::
  "bool \<Rightarrow> known_sections \<Rightarrow> Elf64_Shdr \<Rightarrow> bool \<Rightarrow> Elf64_Shdr list \<Rightarrow> Elf64_Shdr list \<times> nat" where
  "insert_if c known shdr ordered shdrs = (if c then insert_shdr known shdr ordered shdrs else (shdrs, 0))"

text \<open>Lines 1026-1031: the largest index of a symbol with binding \<^verbatim>\<open>STB_LOCAL\<close>
  (\<^verbatim>\<open>ELF64_ST_BIND\<close> is \<^verbatim>\<open>st_info >> 4\<close>), 0 when there is none.\<close>

definition last_local_dynsym_index :: "Elf64_Sym list \<Rightarrow> u32" where
  "last_local_dynsym_index syms =
     fold (\<lambda>(index, sy) acc. if drop_bit 4 (st_info sy) = STB_LOCAL then max acc (of_nat index) else acc)
       (zip [0..<length syms] syms) 0"

text \<open>The section headers of lines 985-1276, each as the source fills it in
  after \<^verbatim>\<open>shdr = {}\<close>.\<close>

definition shdr_init :: "StringTable \<Rightarrow> Elf64_Phdr list \<Rightarrow> NsoFile \<Rightarrow> Plan \<Rightarrow> Elf64_Shdr" where
  "shdr_init shstrtab phdrs st plan =
     Elf64_Shdr_zero\<lparr>sh_name := GetOffset shstrtab ''.init'', sh_type := SHT_PROGBITS,
       sh_flags := SHF_ALLOC OR SHF_EXECINSTR, sh_addr := init (dyn_info st),
       sh_offset := vaddr_to_foffset phdrs (init (dyn_info st)),
       sh_size := ucast (init_ret_offset plan), sh_addralign := 4\<rparr>"

definition shdr_fini :: "StringTable \<Rightarrow> Elf64_Phdr list \<Rightarrow> NsoFile \<Rightarrow> Plan \<Rightarrow> Elf64_Shdr" where
  "shdr_fini shstrtab phdrs st plan =
     Elf64_Shdr_zero\<lparr>sh_name := GetOffset shstrtab ''.fini'', sh_type := SHT_PROGBITS,
       sh_flags := SHF_ALLOC OR SHF_EXECINSTR, sh_addr := fini (dyn_info st),
       sh_offset := vaddr_to_foffset phdrs (fini (dyn_info st)),
       sh_size := ucast (fini_branch_offset plan), sh_addralign := 4\<rparr>"

definition shdr_dynstr :: "StringTable \<Rightarrow> Elf64_Phdr list \<Rightarrow> NsoFile \<Rightarrow> Elf64_Shdr" where
  "shdr_dynstr shstrtab phdrs st =
     Elf64_Shdr_zero\<lparr>sh_name := GetOffset shstrtab ''.dynstr'', sh_type := SHT_STRTAB,
       sh_flags := SHF_ALLOC,
       sh_addr := ucast (mem_offset (segments (header st) ! kRodata) + ext_offset (dynstr (header st))),
       sh_offset := p_offset (phdrs ! kRodata) + ucast (ext_offset (dynstr (header st))),
       sh_size := ucast (ext_size (dynstr (header st))), sh_addralign := 1\<rparr>"

definition shdr_dynsym ::
  "StringTable \<Rightarrow> Elf64_Phdr list \<Rightarrow> NsoFile \<Rightarrow> Elf64_Sym list \<Rightarrow> nat \<Rightarrow> Elf64_Shdr" where
  "shdr_dynsym shstrtab phdrs st syms dynstr_shndx =
     Elf64_Shdr_zero\<lparr>sh_name := GetOffset shstrtab ''.dynsym'', sh_type := SHT_DYNSYM,
       sh_flags := SHF_ALLOC,
       sh_addr := ucast (mem_offset (segments (header st) ! kRodata) + ext_offset (dynsym (header st))),
       sh_offset := p_offset (phdrs ! kRodata) + ucast (ext_offset (dynsym (header st))),
       sh_size := ucast (ext_size (dynsym (header st))), sh_link := of_nat dynstr_shndx,
       sh_info := last_local_dynsym_index syms + 1, sh_addralign := 8, sh_entsize := 24\<rparr>"

definition shdr_dynamic :: "StringTable \<Rightarrow> Elf64_Phdr list \<Rightarrow> nat \<Rightarrow> Elf64_Shdr" where
  "shdr_dynamic shstrtab phdrs dynstr_shndx =
     (let dyn_phdr = phdrs ! (kData + 1) in
      Elf64_Shdr_zero\<lparr>sh_name := GetOffset shstrtab ''.dynamic'', sh_type := SHT_DYNAMIC,
        sh_flags := SHF_ALLOC OR SHF_WRITE, sh_addr := p_vaddr dyn_phdr,
        sh_offset := p_offset dyn_phdr, sh_size := p_filesz dyn_phdr,
        sh_link := of_nat dynstr_shndx, sh_addralign := p_align dyn_phdr, sh_entsize := 16\<rparr>)"

definition shdr_rela_dyn :: "StringTable \<Rightarrow> Elf64_Phdr list \<Rightarrow> NsoFile \<Rightarrow> nat \<Rightarrow> Elf64_Shdr" where
  "shdr_rela_dyn shstrtab phdrs st dynsym_shndx =
     Elf64_Shdr_zero\<lparr>sh_name := GetOffset shstrtab ''.rela.dyn'', sh_type := SHT_RELA,
       sh_flags := SHF_ALLOC, sh_addr := rela (dyn_info st),
       sh_offset := vaddr_to_foffset phdrs (rela (dyn_info st)),
       sh_size := relasz (dyn_info st), sh_link := of_nat dynsym_shndx,
       sh_addralign := 8, sh_entsize := 24\<rparr>"

definition shdr_plt :: "StringTable \<Rightarrow> Elf64_Phdr list \<Rightarrow> NsoFile \<Rightarrow> Elf64_Shdr" where
  "shdr_plt shstrtab phdrs st =
     Elf64_Shdr_zero\<lparr>sh_name := GetOffset shstrtab ''.plt'', sh_type := SHT_PROGBITS,
       sh_flags := SHF_ALLOC OR SHF_EXECINSTR, sh_addr := plt_addr (plt_info st),
       sh_offset := vaddr_to_foffset phdrs (plt_addr (plt_info st)),
       sh_size := plt_size (plt_info st), sh_addralign := 0x10, sh_entsize := 0x10\<rparr>"

definition shdr_got :: "StringTable \<Rightarrow> Elf64_Phdr list \<Rightarrow> Plan \<Rightarrow> u64 \<Rightarrow> Elf64_Shdr" where
  "shdr_got shstrtab phdrs plan glob_dat_end =
     Elf64_Shdr_zero\<lparr>sh_name := GetOffset shstrtab ''.got'', sh_type := SHT_PROGBITS,
       sh_flags := SHF_ALLOC OR SHF_WRITE, sh_addr := got_addr plan,
       sh_offset := vaddr_to_foffset phdrs (got_addr plan),
       sh_size := glob_dat_end - got_addr plan, sh_addralign := 8, sh_entsize := 8\<rparr>"

definition shdr_got_plt :: "StringTable \<Rightarrow> Elf64_Phdr list \<Rightarrow> NsoFile \<Rightarrow> Plan \<Rightarrow> Elf64_Shdr" where
  "shdr_got_plt shstrtab phdrs st plan =
     Elf64_Shdr_zero\<lparr>sh_name := GetOffset shstrtab ''.got.plt'', sh_type := SHT_PROGBITS,
       sh_flags := SHF_ALLOC OR SHF_WRITE, sh_addr := pltgot (dyn_info st),
       sh_offset := vaddr_to_foffset phdrs (pltgot (dyn_info st)),
       sh_size := jump_slot_addr_end plan - pltgot (dyn_info st),
       sh_addralign := 8, sh_entsize := 8\<rparr>"

definition shdr_rela_plt ::
  "StringTable \<Rightarrow> Elf64_Phdr list \<Rightarrow> NsoFile \<Rightarrow> nat \<Rightarrow> nat \<Rightarrow> Elf64_Shdr" where
  "shdr_rela_plt shstrtab phdrs st dynsym_shndx plt_shndx =
     Elf64_Shdr_zero\<lparr>sh_name := GetOffset shstrtab ''.rela.plt'', sh_type := SHT_RELA,
       sh_flags := (if plt_shndx \<noteq> 0 then SHF_ALLOC OR SHF_INFO_LINK else SHF_ALLOC),
       sh_addr := jmprel (dyn_info st),
       sh_offset := vaddr_to_foffset phdrs (jmprel (dyn_info st)),
       sh_size := pltrelsz (dyn_info st), sh_link := of_nat dynsym_shndx,
       sh_info := of_nat plt_shndx, sh_addralign := 8, sh_entsize := 24\<rparr>"

definition shdr_init_array :: "StringTable \<Rightarrow> Elf64_Phdr list \<Rightarrow> NsoFile \<Rightarrow> Elf64_Shdr" where
  "shdr_init_array shstrtab phdrs st =
     Elf64_Shdr_zero\<lparr>sh_name := GetOffset shstrtab ''.init_array'', sh_type := SHT_INIT_ARRAY,
       sh_flags := SHF_ALLOC OR SHF_WRITE, sh_addr := init_array (dyn_info st),
       sh_offset := vaddr_to_foffset phdrs (init_array (dyn_info st)),
       sh_size := init_arraysz (dyn_info st), sh_addralign := 8\<rparr>"

definition shdr_fini_array :: "StringTable \<Rightarrow> Elf64_Phdr list \<Rightarrow> NsoFile \<Rightarrow> Elf64_Shdr" where
  "shdr_fini_array shstrtab phdrs st =
     Elf64_Shdr_zero\<lparr>sh_name := GetOffset shstrtab ''.fini_array'', sh_type := SHT_FINI_ARRAY,
       sh_flags := SHF_ALLOC OR SHF_WRITE, sh_addr := fini_array (dyn_info st),
       sh_offset := vaddr_to_foffset phdrs (fini_array (dyn_info st)),
       sh_size := fini_arraysz (dyn_info st), sh_addralign := 8\<rparr>"

definition shdr_hash ::
  "StringTable \<Rightarrow> Elf64_Phdr list \<Rightarrow> NsoFile \<Rightarrow> nat \<Rightarrow> u32 \<Rightarrow> u32 \<Rightarrow> Elf64_Shdr" where
  "shdr_hash shstrtab phdrs st dynsym_shndx nbucket nchain =
     Elf64_Shdr_zero\<lparr>sh_name := GetOffset shstrtab ''.hash'', sh_type := SHT_HASH,
       sh_flags := SHF_ALLOC, sh_addr := hash (dyn_info st),
       sh_offset := vaddr_to_foffset phdrs (hash (dyn_info st)),
       sh_size := 8 + ucast nbucket * 4 + ucast nchain * 4, sh_link := of_nat dynsym_shndx,
       sh_addralign := 8, sh_entsize := 4\<rparr>"

definition shdr_gnu_hash ::
  "StringTable \<Rightarrow> Elf64_Phdr list \<Rightarrow> NsoFile \<Rightarrow> nat \<Rightarrow> u64 \<Rightarrow> Elf64_Shdr" where
  "shdr_gnu_hash shstrtab phdrs st dynsym_shndx gnu_hash_len =
     Elf64_Shdr_zero\<lparr>sh_name := GetOffset shstrtab ''.gnu.hash'', sh_type := SHT_GNU_HASH,
       sh_flags := SHF_ALLOC, sh_addr := gnu_hash (dyn_info st),
       sh_offset := vaddr_to_foffset phdrs (gnu_hash (dyn_info st)),
       sh_size := gnu_hash_len, sh_link := of_nat dynsym_shndx,
       sh_addralign := 8, sh_entsize := 4\<rparr>"

definition shdr_note :: "StringTable \<Rightarrow> Elf64_Phdr list \<Rightarrow> nat \<Rightarrow> u32 \<Rightarrow> u32 \<Rightarrow> Elf64_Shdr" where
  "shdr_note shstrtab phdrs note_off n_descsz n_namesz =
     Elf64_Shdr_zero\<lparr>sh_name := GetOffset shstrtab ''.note'', sh_type := SHT_NOTE,
       sh_flags := SHF_ALLOC, sh_addr := of_nat note_off,
       sh_offset := vaddr_to_foffset phdrs (of_nat note_off),
       sh_size := 12 + ucast n_descsz + ucast n_namesz, sh_addralign := 4\<rparr>"

definition shdr_eh_frame_hdr :: "StringTable \<Rightarrow> Elf64_Phdr list \<Rightarrow> Plan \<Rightarrow> Elf64_Shdr" where
  "shdr_eh_frame_hdr shstrtab phdrs plan =
     Elf64_Shdr_zero\<lparr>sh_name := GetOffset shstrtab ''.eh_frame_hdr'', sh_type := SHT_PROGBITS,
       sh_flags := SHF_ALLOC, sh_addr := hdr_addr (plan_eh_info plan),
       sh_offset := vaddr_to_foffset phdrs (hdr_addr (plan_eh_info plan)),
       sh_size := hdr_size (plan_eh_info plan), sh_addralign := 4\<rparr>"

definition shdr_eh_frame :: "StringTable \<Rightarrow> Elf64_Phdr list \<Rightarrow> Plan \<Rightarrow> Elf64_Shdr" where
  "shdr_eh_frame shstrtab phdrs plan =
     Elf64_Shdr_zero\<lparr>sh_name := GetOffset shstrtab ''.eh_frame'', sh_type := SHT_PROGBITS,
       sh_flags := SHF_ALLOC, sh_addr := frame_addr (plan_eh_info plan),
       sh_offset := vaddr_to_foffset phdrs (frame_addr (plan_eh_info plan)),
       sh_size := frame_size (plan_eh_info plan), sh_addralign := 4\<rparr>"

definition shdr_shstrtab :: "StringTable \<Rightarrow> Elf64_Shdr" where
  "shdr_shstrtab shstrtab =
     Elf64_Shdr_zero\<lparr>sh_name := GetOffset shstrtab ''.shstrtab'', sh_type := SHT_STRTAB,
       sh_offset := of_nat (strtab_offset shstrtab), sh_size := of_nat (length (buffer shstrtab)),
       sh_addralign := 1\<rparr>"

text \<open>Lines 944-1280: the section header array. The known sections are placed
  first; every other section goes through \<^verbatim>\<open>insert_shdr\<close>, in the order of the
  source.\<close>

definition WriteElf_sections ::
  "NsoFile \<Rightarrow> Plan \<Rightarrow> Elf64_Phdr list \<Rightarrow> known_sections \<Rightarrow> StringTable \<Rightarrow>
   (Elf64_Shdr list \<times> nat) option" where
  "WriteElf_sections st plan phdrs known shstrtab = do {
     let pr = present plan;
     let di = dyn_info st;
     let img = nso_image st;
     shdrs0 \<leftarrow> place_known known (replicate (plan_num_shdrs plan) Elf64_Shdr_zero);
     let (shdrs1, _) = insert_if (present_init pr) known (shdr_init shstrtab phdrs st plan) True shdrs0;
     let (shdrs2, _) = insert_if (present_fini pr) known (shdr_fini shstrtab phdrs st plan) True shdrs1;
     let (shdrs3, dynstr_shndx) = insert_shdr known (shdr_dynstr shstrtab phdrs st) False shdrs2;
     syms \<leftarrow> iter_dynsym st;
     let (shdrs4, dynsym_shndx) =
       insert_shdr known (shdr_dynsym shstrtab phdrs st syms dynstr_shndx) False shdrs3;
     let (shdrs5, _) = insert_shdr known (shdr_dynamic shstrtab phdrs dynstr_shndx) False shdrs4;
     let (shdrs6, _) = insert_shdr known (shdr_rela_dyn shstrtab phdrs st dynsym_shndx) False shdrs5;
     let (shdrs7, plt_shndx) = insert_if (present_plt pr) known (shdr_plt shstrtab phdrs st) True shdrs6;
     glob_dat_end \<leftarrow>
       (if present_got pr
        then rela_scan img (unat (rela di)) (unat (relasz di div 24)) R_AARCH64_GLOB_DAT 0 (got_addr plan)
        else Some 0);
     let (shdrs8, _) =
       insert_if (present_got pr) known (shdr_got shstrtab phdrs plan glob_dat_end) True shdrs7;
     let (shdrs9, _) =
       insert_if (present_got_plt pr) known (shdr_got_plt shstrtab phdrs st plan) True shdrs8;
     let (shdrs10, _) =
       insert_if (present_rela_plt pr) known
         (shdr_rela_plt shstrtab phdrs st dynsym_shndx plt_shndx) False shdrs9;
     let (shdrs11, _) =
       insert_if (present_init_array pr) known (shdr_init_array shstrtab phdrs st) True shdrs10;
     let (shdrs12, _) =
       insert_if (present_fini_array pr) known (shdr_fini_array shstrtab phdrs st) True shdrs11;
     (nbucket, nchain) \<leftarrow>
       (if present_hash pr then do {
          nbucket \<leftarrow> rd32 img (unat (hash di));
          nchain \<leftarrow> rd32 img (unat (hash di) + 4);
          Some (nbucket, nchain)
        } else Some (0, 0));
     let (shdrs13, _) =
       insert_if (present_hash pr) known
         (shdr_hash shstrtab phdrs st dynsym_shndx nbucket nchain) False shdrs12;
     gnu_hash_len \<leftarrow>
       (if present_gnu_hash pr then do {
          nbuckets \<leftarrow> rd32 img (unat (gnu_hash di));
          symndx \<leftarrow> rd32 img (unat (gnu_hash di) + 4);
          maskwords \<leftarrow> rd32 img (unat (gnu_hash di) + 8);
          let dynsymcount = ucast (ext_size (dynsym (header st))) div 24;
          Some (16 + ucast maskwords * 8 + ucast nbuckets * 4 + (dynsymcount - ucast symndx) * 4)
        } else Some 0);
     let (shdrs14, _) =
       insert_if (present_gnu_hash pr) known
         (shdr_gnu_hash shstrtab phdrs st dynsym_shndx gnu_hash_len) False shdrs13;
     (note_off, n_descsz, n_namesz) \<leftarrow>
       (case note_ptr st of
          Some n \<Rightarrow> do {
            n_descsz \<leftarrow> rd32 img (n + 4);
            n_namesz \<leftarrow> rd32 img n;
            Some (n, n_descsz, n_namesz)
          }
        | None \<Rightarrow> Some (0, 0, 0));
     let (shdrs15, _) =
       insert_if (present_note pr) known
         (shdr_note shstrtab phdrs note_off n_descsz n_namesz) False shdrs14;
     let (shdrs16, _) =
       insert_if (present_eh pr) known (shdr_eh_frame_hdr shstrtab phdrs plan) True shdrs15;
     let (shdrs17, _) =
       insert_if (present_eh pr) known (shdr_eh_frame shstrtab phdrs plan) True shdrs16;
     Some (insert_shdr known (shdr_shstrtab shstrtab) False shdrs17)
   }"

text \<open>
  \<^verbatim>\<open>NsoFile::WriteElf\<close>: the buffer handed to \<^verbatim>\<open>File::Write\<close>, with the typed
  views of its head.
\<close>

definition WriteElf :: "eh_measure \<Rightarrow> NsoFile \<Rightarrow> ElfFile option" where
  "WriteElf measure_frame st = do {
     (num_shdrs, known, shstrtab0) \<leftarrow> WriteElf_profile st;
     plan \<leftarrow> WriteElf_plan measure_frame st (num_shdrs, known, shstrtab0);
     (ehdr, phdrs, known', elf, shstrtab) \<leftarrow> WriteElf_headers st known plan;
     (shdrs, shstrndx) \<leftarrow> WriteElf_sections st plan phdrs known' shstrtab;
     Some \<lparr>elf_ehdr = ehdr\<lparr>e_shstrndx := of_nat shstrndx\<rparr>, elf_phdrs = phdrs,
           elf_shdrs = shdrs, elf_raw = elf, elf_shstrtab = shstrtab\<rparr>
   }"

section \<open>Notions of the specification and example inputs\<close>

text \<open>The masked resolver pattern of \<^verbatim>\<open>ResolvePlt\<close> occurs at offset \<open>j\<close> of a
  buffer.\<close>

definition plt_occurs_at :: "u8 list \<Rightarrow> nat \<Rightarrow> bool" where
  "plt_occurs_at buf j =
     match_masked (drop j buf) (concat (map enc32 plt_pattern)) (concat (map enc32 plt_mask))"

text \<open>An image that holds the resolver pattern at offset 4, with one
  \<^verbatim>\<open>.rela.plt\<close> entry (\<^verbatim>\<open>pltrelsz = 24\<close>).\<close>

definition plt_example :: NsoFile where
  "plt_example = (NsoFile_new \<lparr>plt_addr = 0, plt_size = 0\<rparr>)
     \<lparr>nso_image := [0, 0, 0, 0] @ concat (map enc32 plt_pattern),
      dyn_info := DynInfo_zero\<lparr>pltrelsz := 24\<rparr>\<rparr>"

text \<open>An image of two zero words whose dynamic table gave \<^verbatim>\<open>DT_INIT = 4\<close>: there
  is no \<^verbatim>\<open>ret\<close> at or after \<^verbatim>\<open>.init\<close>.\<close>

definition init_example :: NsoFile where
  "init_example = (NsoFile_new \<lparr>plt_addr = 0, plt_size = 0\<rparr>)
     \<lparr>nso_image := replicate 8 0, dyn_info := DynInfo_zero\<lparr>init := 4\<rparr>\<rparr>"

text \<open>
A plan of \<^verbatim>\<open>WriteElf\<close> with no optional section, for building single section headers.
\<close>

definition plan_example :: Plan where
  "plan_example =
     \<lparr>present = \<lparr>present_plt = False, present_got = False, present_got_plt = False,
                  present_rela_plt = False, present_hash = False, present_gnu_hash = False,
                  present_init = False, present_fini = False, present_init_array = False,
                  present_fini_array = False, present_note = False, present_eh = False\<rparr>,
      jump_slot_addr_end = 0, got_addr = 0, init_ret_offset = 0, fini_branch_offset = 0,
      plan_eh_info = \<lparr>hdr_addr = 0, hdr_size = 0, frame_addr = 0, frame_size = 0\<rparr>,
      plan_shstrtab = StringTable_new, plan_num_shdrs = 1\<rparr>"

text \<open>
The arrays of an \<^verbatim>\<open>NsoHeader\<close> have their declared lengths.
\<close>

definition wf_NsoHeader :: "NsoHeader \<Rightarrow> bool" where
  "wf_NsoHeader h =
     (length (magic h) = 4 \<and> length (segments h) = 3 \<and> length (gnu_build_id h) = 32 \<and>
      length (segment_file_sizes h) = 3 \<and> length (field_6c h) = 9 \<and>
      length (segment_digests h) = 96)"

text \<open>
An NSO whose \<^verbatim>\<open>.text\<close> (52 bytes at image offset 0, stored) holds the MOD pointer,
  the MOD header and an empty dynamic table, whose \<^verbatim>\<open>.rodata\<close> (4 bytes at image offset
  64) is compressed, and whose \<^verbatim>\<open>.data\<close> is empty at offset 72. The two compressed bytes
  \<open>0x10, 0xAA\<close> are an LZ4 block of one literal: the token \<open>0x10\<close> (one literal, no match) and
  the literal \<open>0xAA\<close>. It decodes to one byte, where \<^verbatim>\<open>mem_size\<close> is 4.
\<close>

definition nso_example_header :: NsoHeader where
  "nso_example_header = NsoHeader_zero
     \<lparr>magic := nso_magic, flags := 2,
      segments := [\<lparr>file_offset = 0x100, mem_offset = 0, mem_size = 52, bss_align = 0\<rparr>,
                   \<lparr>file_offset = 0x134, mem_offset = 64, mem_size = 4, bss_align = 0\<rparr>,
                   \<lparr>file_offset = 0x136, mem_offset = 72, mem_size = 0, bss_align = 0\<rparr>],
      segment_file_sizes := [52, 2, 0]\<rparr>"

definition nso_example_text :: "u8 list" where
  "nso_example_text =
     enc32 0 @ enc32 8 @ mod_magic @ enc32 28 @ replicate 20 0 @ replicate 16 0"

definition nso_example_file :: "u8 list" where
  "nso_example_file = ser_NsoHeader nso_example_header @ nso_example_text @ [0x10, 0xAA]"

text \<open>
  The decoder of the examples. \<^verbatim>\<open>LZ4_decompress_safe\<close> is not among the source files; this
  decoder gives its result on the blocks the examples use, the blocks of one sequence without
  a match: a token \<open>16 * n\<close> with \<open>n < 15\<close> followed by exactly \<open>n\<close> literals decodes to
  the literals when they fit the capacity. Every other block is rejected with a negative
  result and nothing stored, as the malformed block \<open>1, 2\<close> (a token that announces a match,
  and no room for its offset) is by the library. The negative number itself is not modelled:
  the loader only tests \<^verbatim>\<open>len > 0\<close>.
\<close>

definition lz4_example :: lz4_decoder where
  "lz4_example src cap =
     (case src of
        [] \<Rightarrow> (- 1, [])
      | token # lits \<Rightarrow>
          if length lits < 15 \<and> token = of_nat (16 * length lits) \<and> length lits \<le> cap
          then (int (length lits), lits) else (- 1, []))"

definition nso_example_image :: "u8 list" where
  "nso_example_image = nso_example_text @ replicate 12 0 @ [0xAA] @ replicate 7 0"

definition nso_example_state :: "PltInfo \<Rightarrow> NsoFile" where
  "nso_example_state plt0 = (NsoFile_new plt0)
     \<lparr>file_type := kNso, header := nso_example_header, nso_image := nso_example_image,
      dynamic := 36,
      eh_info := \<lparr>hdr_addr = 8, hdr_size = 0, frame_addr = 0, frame_size = 0\<rparr>\<rparr>"

text \<open>
Bit \<open>i\<close> of \<^verbatim>\<open>flags\<close> is set in the header of an NSO file, and the value
  \<^verbatim>\<open>LZ4_decompress_safe\<close> returns for segment \<open>i\<close> of the file.
\<close>

definition nso_compressed :: "u8 list \<Rightarrow> nat \<Rightarrow> bool" where
  "nso_compressed file i = ((flags (parse_NsoHeader file) AND push_bit i 1) \<noteq> 0)"

definition nso_decoded_len :: "lz4_decoder \<Rightarrow> u8 list \<Rightarrow> nat \<Rightarrow> int" where
  "nso_decoded_len lz4 file i =
     (let hdr = parse_NsoHeader file; seg = segments hdr ! i
      in fst (lz4 (take (unat (segment_file_sizes hdr ! i)) (drop (unat (file_offset seg)) file))
                  (unat (mem_size seg))))"

text \<open>
The distinct \<^verbatim>\<open>st_shndx\<close> values of a symbol table, without \<^verbatim>\<open>SHN_UNDEF\<close> and the
  reserved indices.
\<close>

definition distinct_shndx :: "Elf64_Sym list \<Rightarrow> u16 set" where
  "distinct_shndx syms =
     st_shndx ` {sy \<in> set syms. st_shndx sy \<noteq> SHN_UNDEF \<and> st_shndx sy < SHN_LORESERVE}"

text \<open>
The NSO example with the malformed block \<open>1, 2\<close> for its compressed \<^verbatim>\<open>.rodata\<close>.
\<close>

definition nso_example_bad_file :: "u8 list" where
  "nso_example_bad_file = ser_NsoHeader nso_example_header @ nso_example_text @ [1, 2]"

section \<open>A raw MOD example\<close>

text \<open>
The 24 bytes of an \<^verbatim>\<open>Elf64_Sym\<close> (elf.h), used to build example symbol tables.
\<close>

definition ser_Elf64_Sym :: "Elf64_Sym \<Rightarrow> u8 list" where
  "ser_Elf64_Sym sy =
     enc32 (st_name sy) @ [st_info sy, st_other sy] @ enc16 (st_shndx sy) @
     enc64 (st_value sy) @ enc64 (st_size sy)"

text \<open>
A symbol with the section index, the info byte and the value given.
\<close>

definition mod_example_sym :: "u16 \<Rightarrow> u8 \<Rightarrow> u64 \<Rightarrow> Elf64_Sym" where
  "mod_example_sym shndx info v =
     \<lparr>st_name = 0, st_info = info, st_other = 0, st_shndx = shndx, st_value = v, st_size = 0\<rparr>"

text \<open>
The first 132 bytes of the example: the \<^verbatim>\<open>ModPointer\<close> (magic_offset 8), the \<^verbatim>\<open>MOD0\<close>
  header with dynamic_offset 28, the dynamic table \<open>DT_PLTRELSZ = 24, DT_SYMTAB = 132,
  DT_STRTAB = 228, DT_NULL\<close> at offset 36, and the resolver pattern of the PLT at offset 100.
\<close>

definition mod_example_head :: "u8 list" where
  "mod_example_head =
     enc32 0 @ enc32 8 @ mod_magic @ enc32 28 @ replicate 20 0 @
     enc64 2 @ enc64 24 @ enc64 6 @ enc64 132 @ enc64 5 @ enc64 228 @ enc64 0 @ enc64 0 @
     concat (map enc32 plt_pattern)"

text \<open>
Four symbols at offset 132: sections 1, 2, the section symbol of section 3 with value
  \<open>0x1000\<close>, and a symbol of section \<open>k\<close>. With \<open>k = 4\<close> there are four distinct section
  indices, with \<open>k = 3\<close> only three.
\<close>

definition mod_example_syms :: "u16 \<Rightarrow> Elf64_Sym list" where
  "mod_example_syms k =
     [mod_example_sym 1 0 0, mod_example_sym 2 0 0, mod_example_sym 3 3 0x1000,
      mod_example_sym k 0 0]"

text \<open>
The example file, 4096 bytes, neither an NSO nor an NRO.
\<close>

definition mod_example_file :: "u16 \<Rightarrow> u8 list" where
  "mod_example_file k =
     mod_example_head @ concat (map ser_Elf64_Sym (mod_example_syms k)) @ replicate 3868 0"

section \<open>A stored NSO example\<close>

text \<open>
The \<^verbatim>\<open>.text\<close> of the example, 100 bytes: the \<^verbatim>\<open>ModPointer\<close> (magic_offset 8), the \<^verbatim>\<open>MOD0\<close> header
  with dynamic_offset 28, and at offset 36 the dynamic table \<open>DT_INIT_ARRAY = 8, DT_RELA = 16,
  DT_RELASZ = 24, DT_NULL\<close>.
\<close>

definition plain_example_text :: "u8 list" where
  "plain_example_text =
     enc32 0 @ enc32 8 @ mod_magic @ enc32 28 @ replicate 20 0 @
     enc64 25 @ enc64 8 @ enc64 7 @ enc64 16 @ enc64 8 @ enc64 24 @ replicate 16 0"

text \<open>
The header: no segment is compressed, \<^verbatim>\<open>.text\<close> is at image offset 0, \<^verbatim>\<open>.rodata\<close> (4 bytes) at 112
  and \<^verbatim>\<open>.data\<close> (4 bytes and 8 bytes of bss) at 116. The parameter is the file size of \<^verbatim>\<open>.text\<close>;
  with 100 the header is the one \<^verbatim>\<open>WriteUncompressedNso\<close> writes.
\<close>

definition plain_example_header :: "u32 \<Rightarrow> NsoHeader" where
  "plain_example_header fs = NsoHeader_zero
     \<lparr>magic := nso_magic,
      segments := [\<lparr>file_offset = 0x100, mem_offset = 0, mem_size = 100, bss_align = 0x100\<rparr>,
                   \<lparr>file_offset = 0x170, mem_offset = 112, mem_size = 4, bss_align = 0\<rparr>,
                   \<lparr>file_offset = 0x174, mem_offset = 116, mem_size = 4, bss_align = 8\<rparr>],
      segment_file_sizes := [fs, 4, 4]\<rparr>"

text \<open>
The file: header, \<^verbatim>\<open>.text\<close>, the byte \<open>g\<close> and 11 zero bytes that no segment covers, \<^verbatim>\<open>.rodata\<close>
  and \<^verbatim>\<open>.data\<close>.
\<close>

definition plain_example_file :: "u32 \<Rightarrow> u8 \<Rightarrow> u8 list" where
  "plain_example_file fs g =
     ser_NsoHeader (plain_example_header fs) @ plain_example_text @ [g] @ replicate 11 0 @
     [1, 2, 3, 4, 5, 6, 7, 8]"

text \<open>
The image after loading, with \<open>g\<close> at offset 100.
\<close>

definition plain_example_image :: "u8 \<Rightarrow> u8 list" where
  "plain_example_image g =
     plain_example_text @ [g] @ replicate 11 0 @ [1, 2, 3, 4, 5, 6, 7, 8] @ replicate 8 0"

text \<open>
The object after \<^verbatim>\<open>Load\<close>.
\<close>

definition plain_example_state :: "PltInfo \<Rightarrow> u32 \<Rightarrow> u8 \<Rightarrow> NsoFile" where
  "plain_example_state plt0 fs g = (NsoFile_new plt0)
     \<lparr>file_type := kNso, header := plain_example_header fs, nso_image := plain_example_image g,
      dynamic := 36, dyn_info := DynInfo_zero\<lparr>rela := 16, relasz := 24, init_array := 8\<rparr>,
      eh_info := \<lparr>hdr_addr = 8, hdr_size = 0, frame_addr = 0, frame_size = 0\<rparr>\<rparr>"

text \<open>
The image offsets of segment \<open>i\<close>.
\<close>

definition seg_range :: "NsoHeader \<Rightarrow> nat \<Rightarrow> nat set" where
  "seg_range h i =
     {unat (mem_offset (segments h ! i)) ..<
      unat (mem_offset (segments h ! i)) + unat (mem_size (segments h ! i))}"

text \<open>
The three segments lie inside the first \<^verbatim>\<open>data.mem_offset + data.mem_size\<close> bytes of the image,
  that size plus \<^verbatim>\<open>sizeof(NsoHeader)\<close> fits 32 bits, and a segment that is not compressed has
  no more bytes in the file than in memory.
\<close>

definition nso_stored_within :: "NsoHeader \<Rightarrow> bool" where
  "nso_stored_within h =
     (let image_size = unat (mem_offset (segments h ! kData) + mem_size (segments h ! kData)) in
      image_size + 0x100 < 2 ^ 32 \<and>
      list_all (\<lambda>i. unat (mem_offset (segments h ! i)) + unat (mem_size (segments h ! i)) \<le> image_size \<and>
                    ((flags h AND push_bit i 1) \<noteq> 0 \<or>
                     segment_file_sizes h ! i \<le> mem_size (segments h ! i)))
        [0, 1, 2])"

section \<open>Examples for the ELF emitter\<close>

text \<open>
A \<^verbatim>\<open>MeasureFrame\<close> that finds no frame: \<^verbatim>\<open>.eh_frame_hdr\<close> and \<^verbatim>\<open>.eh_frame\<close> are left out.
\<close>

definition measure_frame_example :: eh_measure where
  "measure_frame_example img hdr = Some None"


text \<open>
The same in an object whose \<^verbatim>\<open>plt_info\<close>, which has no initialiser, held \<open>0x40\<close> and \<open>0x1234\<close>.
\<close>

definition plt_kept_example :: NsoFile where
  "plt_kept_example = plain_example_state \<lparr>plt_addr = 0x40, plt_size = 0x1234\<rparr> 100 0"

text \<open>
The four sections that \<^verbatim>\<open>WriteElf\<close> knows for the example (\<^verbatim>\<open>.text\<close>, \<^verbatim>\<open>.rodata\<close>, \<^verbatim>\<open>.data\<close>,
  \<^verbatim>\<open>.bss\<close>), with the file offsets of the first three as parameters.
\<close>

definition elf_example_known :: "u64 \<Rightarrow> u64 \<Rightarrow> u64 \<Rightarrow> known_sections" where
  "elf_example_known o1 o2 o3 =
     [(1, \<lparr>sh_name = 11, sh_type = 1, sh_flags = 6, sh_addr = 0, sh_offset = o1, sh_size = 100,
           sh_link = 0, sh_info = 0, sh_addralign = 8, sh_entsize = 0\<rparr>),
      (2, \<lparr>sh_name = 17, sh_type = 1, sh_flags = 2, sh_addr = 112, sh_offset = o2, sh_size = 4,
           sh_link = 0, sh_info = 0, sh_addralign = 8, sh_entsize = 0\<rparr>),
      (3, \<lparr>sh_name = 25, sh_type = 1, sh_flags = 3, sh_addr = 116, sh_offset = o3, sh_size = 4,
           sh_link = 0, sh_info = 0, sh_addralign = 8, sh_entsize = 0\<rparr>),
      (4, \<lparr>sh_name = 31, sh_type = 8, sh_flags = 3, sh_addr = 120, sh_offset = 0, sh_size = 8,
           sh_link = 0, sh_info = 0, sh_addralign = 8, sh_entsize = 0\<rparr>)]"

text \<open>
The names of its section name table with their offsets, and the bytes of the table.
\<close>

definition elf_example_names :: "(string \<times> u32) list" where
  "elf_example_names =
     [([], 0), (''.shstrtab'', 1), (''.text'', 11), (''.rodata'', 17), (''.data'', 25),
      (''.bss'', 31), (''.dynstr'', 36), (''.dynsym'', 44), (''.dynamic'', 52),
      (''.rela.dyn'', 61)]"

definition elf_example_name_bytes :: "u8 list" where
  "elf_example_name_bytes =
        [0, 46, 115, 104, 115, 116, 114, 116, 97, 98, 0, 46, 116, 101, 120,
         116, 0, 46, 114, 111, 100, 97, 116, 97, 0, 46, 100, 97, 116, 97, 0,
         46, 98, 115, 115, 0, 46, 100, 121, 110, 115, 116, 114, 0, 46, 100,
         121, 110, 115, 121, 109, 0, 46, 100, 121, 110, 97, 109, 105, 99, 0,
         46, 114, 101, 108, 97, 46, 100, 121, 110, 0]"

definition elf_example_shstrtab :: "nat \<Rightarrow> StringTable" where
  "elf_example_shstrtab off =
     \<lparr>entries = elf_example_names, watermark = 71, strtab_offset = off, strtab_size = 80,
      buffer = elf_example_name_bytes\<rparr>"

definition plt_kept_shstrtab :: StringTable where
  "plt_kept_shstrtab =
     \<lparr>entries = elf_example_names @ [(''.plt'', 71)], watermark = 76, strtab_offset = 0,
      strtab_size = 80, buffer = elf_example_name_bytes @ [46, 112, 108, 116, 0]\<rparr>"

text \<open>
The plans of \<^verbatim>\<open>WriteElf\<close> for the two objects: without and with \<^verbatim>\<open>.plt\<close>.
\<close>

definition elf_example_plan :: Plan where
  "elf_example_plan =
     \<lparr>present = \<lparr>present_plt = False, present_got = False, present_got_plt = False,
                  present_rela_plt = False, present_hash = False, present_gnu_hash = False,
                  present_init = False, present_fini = False, present_init_array = False,
                  present_fini_array = False, present_note = False, present_eh = False\<rparr>,
      jump_slot_addr_end = 0, got_addr = 0, init_ret_offset = 0, fini_branch_offset = 0,
      plan_eh_info = \<lparr>hdr_addr = 8, hdr_size = 0, frame_addr = 0, frame_size = 0\<rparr>,
      plan_shstrtab = elf_example_shstrtab 0, plan_num_shdrs = 10\<rparr>"

definition plt_kept_plan :: Plan where
  "plt_kept_plan =
     elf_example_plan\<lparr>present := (present elf_example_plan)\<lparr>present_plt := True\<rparr>,
       plan_shstrtab := plt_kept_shstrtab, plan_num_shdrs := 11\<rparr>"





section \<open>Properties of the string table\<close>

lemma map_of_fold_AddString_None:
  "map_of (entries t) str = None \<Longrightarrow> str \<notin> set names \<Longrightarrow>
   map_of (entries (fold AddString names t)) str = None"
proof (induction names arbitrary: t)
  case Nil
  then show ?case by simp
next
  case (Cons n names)
  have "map_of (entries (AddString n t)) str = None"
    using Cons.prems by (auto simp: AddString_def)
  with Cons show ?case by simp
qed

lemma map_of_fold_AddString_Some:
  "map_of (entries t) str = Some off \<Longrightarrow>
   map_of (entries (fold AddString names t)) str = Some off"
proof (induction names arbitrary: t)
  case Nil
  then show ?case by simp
next
  case (Cons n names)
  have "map_of (entries (AddString n t)) str = Some off"
    using Cons.prems by (auto simp: AddString_def map_add_Some_iff)
  with Cons show ?case by simp
qed

lemma StringTable_new_entries: "entries StringTable_new = [('''', 0)]"
  by (simp add: StringTable_new_def AddString_def)

lemma map_of_AddString_self: "map_of (entries (AddString s t)) s \<noteq> None"
  by (auto simp: AddString_def map_add_def)

lemma map_of_fold_AddString_mem:
  "s \<in> set names \<Longrightarrow> map_of (entries (fold AddString names t)) s \<noteq> None"
proof (induction names arbitrary: t)
  case Nil
  then show ?case by simp
next
  case (Cons n names)
  show ?case
  proof (cases "s = n")
    case True
    then obtain off where "map_of (entries (AddString n t)) s = Some off"
      using map_of_AddString_self [of n t] by auto
    from map_of_fold_AddString_Some [OF this] show ?thesis by simp
  next
    case False
    with Cons show ?thesis by simp
  qed
qed

text \<open>
  C10: in a table \<open>t\<close> built by the constructor and any sequence of \<^verbatim>\<open>AddString\<close> calls, the
  empty string is stored at offset 0 and every added string is stored, and \<^verbatim>\<open>GetOffset\<close> of a
  string that was never added is 0, the offset of the empty string: a failed lookup cannot be
  told from the empty string. Every section header that the emitter builds by name (the
  definitions \<open>shdr_init\<close> to \<open>shdr_shstrtab\<close>, lines 985-1280) takes its \<^verbatim>\<open>sh_name\<close> from
  \<^verbatim>\<open>GetOffset\<close>, so a header whose name was not inserted gets \<^verbatim>\<open>sh_name = 0\<close> and no error.
\<close>

theorem GetOffset_unknown:
  assumes "str \<noteq> ''''" and "str \<notin> set names"
    and "t = fold AddString names StringTable_new"
  shows "map_of (entries t) '''' = Some 0 \<and>
         (\<forall>s \<in> set names. map_of (entries t) s \<noteq> None) \<and>
         map_of (entries t) str = None \<and>
         GetOffset t str = 0 \<and> GetOffset t str = GetOffset t '''' \<and>
         (str = ''.init'' \<longrightarrow> sh_name (shdr_init t phdrs st plan) = 0) \<and>
         (str = ''.fini'' \<longrightarrow> sh_name (shdr_fini t phdrs st plan) = 0) \<and>
         (str = ''.dynstr'' \<longrightarrow> sh_name (shdr_dynstr t phdrs st) = 0) \<and>
         (str = ''.dynsym'' \<longrightarrow> sh_name (shdr_dynsym t phdrs st syms dynstr_shndx) = 0) \<and>
         (str = ''.dynamic'' \<longrightarrow> sh_name (shdr_dynamic t phdrs dynstr_shndx) = 0) \<and>
         (str = ''.rela.dyn'' \<longrightarrow> sh_name (shdr_rela_dyn t phdrs st dynsym_shndx) = 0) \<and>
         (str = ''.plt'' \<longrightarrow> sh_name (shdr_plt t phdrs st) = 0) \<and>
         (str = ''.got'' \<longrightarrow> sh_name (shdr_got t phdrs plan glob_dat_end) = 0) \<and>
         (str = ''.got.plt'' \<longrightarrow> sh_name (shdr_got_plt t phdrs st plan) = 0) \<and>
         (str = ''.rela.plt'' \<longrightarrow> sh_name (shdr_rela_plt t phdrs st dynsym_shndx plt_shndx) = 0) \<and>
         (str = ''.init_array'' \<longrightarrow> sh_name (shdr_init_array t phdrs st) = 0) \<and>
         (str = ''.fini_array'' \<longrightarrow> sh_name (shdr_fini_array t phdrs st) = 0) \<and>
         (str = ''.hash'' \<longrightarrow> sh_name (shdr_hash t phdrs st dynsym_shndx nbucket nchain) = 0) \<and>
         (str = ''.gnu.hash'' \<longrightarrow> sh_name (shdr_gnu_hash t phdrs st dynsym_shndx gnu_hash_len) = 0) \<and>
         (str = ''.note'' \<longrightarrow> sh_name (shdr_note t phdrs note_off n_descsz n_namesz) = 0) \<and>
         (str = ''.eh_frame_hdr'' \<longrightarrow> sh_name (shdr_eh_frame_hdr t phdrs plan) = 0) \<and>
         (str = ''.eh_frame'' \<longrightarrow> sh_name (shdr_eh_frame t phdrs plan) = 0) \<and>
         (str = ''.shstrtab'' \<longrightarrow> sh_name (shdr_shstrtab t) = 0)"
proof -
  have n: "map_of (entries t) str = None"
    unfolding assms(3) using assms(1,2)
    by (intro map_of_fold_AddString_None) (simp_all add: StringTable_new_entries)
  have e: "map_of (entries t) '''' = Some 0"
    unfolding assms(3) by (intro map_of_fold_AddString_Some) (simp add: StringTable_new_entries)
  have m: "\<forall>s \<in> set names. map_of (entries t) s \<noteq> None"
    unfolding assms(3) using map_of_fold_AddString_mem by blast
  have g: "GetOffset t str = 0" "GetOffset t '''' = 0"
    using n e by (simp_all add: GetOffset_def)
  have s: "(str = ''.init'' \<longrightarrow> sh_name (shdr_init t phdrs st plan) = 0) \<and>
           (str = ''.fini'' \<longrightarrow> sh_name (shdr_fini t phdrs st plan) = 0) \<and>
           (str = ''.dynstr'' \<longrightarrow> sh_name (shdr_dynstr t phdrs st) = 0) \<and>
           (str = ''.dynsym'' \<longrightarrow> sh_name (shdr_dynsym t phdrs st syms dynstr_shndx) = 0) \<and>
           (str = ''.dynamic'' \<longrightarrow> sh_name (shdr_dynamic t phdrs dynstr_shndx) = 0) \<and>
           (str = ''.rela.dyn'' \<longrightarrow> sh_name (shdr_rela_dyn t phdrs st dynsym_shndx) = 0) \<and>
           (str = ''.plt'' \<longrightarrow> sh_name (shdr_plt t phdrs st) = 0) \<and>
           (str = ''.got'' \<longrightarrow> sh_name (shdr_got t phdrs plan glob_dat_end) = 0) \<and>
           (str = ''.got.plt'' \<longrightarrow> sh_name (shdr_got_plt t phdrs st plan) = 0) \<and>
           (str = ''.rela.plt'' \<longrightarrow> sh_name (shdr_rela_plt t phdrs st dynsym_shndx plt_shndx) = 0) \<and>
           (str = ''.init_array'' \<longrightarrow> sh_name (shdr_init_array t phdrs st) = 0) \<and>
           (str = ''.fini_array'' \<longrightarrow> sh_name (shdr_fini_array t phdrs st) = 0) \<and>
           (str = ''.hash'' \<longrightarrow> sh_name (shdr_hash t phdrs st dynsym_shndx nbucket nchain) = 0) \<and>
           (str = ''.gnu.hash'' \<longrightarrow> sh_name (shdr_gnu_hash t phdrs st dynsym_shndx gnu_hash_len) = 0) \<and>
           (str = ''.note'' \<longrightarrow> sh_name (shdr_note t phdrs note_off n_descsz n_namesz) = 0) \<and>
           (str = ''.eh_frame_hdr'' \<longrightarrow> sh_name (shdr_eh_frame_hdr t phdrs plan) = 0) \<and>
           (str = ''.eh_frame'' \<longrightarrow> sh_name (shdr_eh_frame t phdrs plan) = 0) \<and>
           (str = ''.shstrtab'' \<longrightarrow> sh_name (shdr_shstrtab t) = 0)"
    using g(1)
    by (intro conjI impI) (simp_all add: shdr_init_def shdr_fini_def shdr_dynstr_def shdr_dynsym_def shdr_dynamic_def shdr_rela_dyn_def shdr_plt_def shdr_got_def shdr_got_plt_def shdr_rela_plt_def shdr_init_array_def shdr_fini_array_def shdr_hash_def shdr_gnu_hash_def shdr_note_def shdr_eh_frame_hdr_def shdr_eh_frame_def shdr_shstrtab_def Let_def)
  from n e m g s show ?thesis by (intro conjI) simp_all
qed

text \<open>
  A table with \<^verbatim>\<open>.shstrtab\<close> and \<^verbatim>\<open>.dynstr\<close>, asked for \<^verbatim>\<open>.init\<close>; the header of \<^verbatim>\<open>.init\<close> built
  with it has \<^verbatim>\<open>sh_name = 0\<close>.
\<close>

theorem GetOffset_unknown_witness:
  "''.init'' \<noteq> '''' \<and> ''.init'' \<notin> set [''.shstrtab'', ''.dynstr''] \<and>
   map_of (entries (fold AddString [''.shstrtab'', ''.dynstr''] StringTable_new)) '''' = Some 0 \<and>
   map_of (entries (fold AddString [''.shstrtab'', ''.dynstr''] StringTable_new)) ''.dynstr'' \<noteq> None \<and>
   GetOffset (fold AddString [''.shstrtab'', ''.dynstr''] StringTable_new) ''.init'' = 0 \<and>
   GetOffset (fold AddString [''.shstrtab'', ''.dynstr''] StringTable_new) ''.init'' =
     GetOffset (fold AddString [''.shstrtab'', ''.dynstr''] StringTable_new) '''' \<and>
   sh_name (shdr_init (fold AddString [''.shstrtab'', ''.dynstr''] StringTable_new) []
              init_example plan_example) = 0"
proof -
  have h1: "''.init'' \<noteq> ''''" by simp
  have h2: "''.init'' \<notin> set [''.shstrtab'', ''.dynstr'']" by simp
  have h3: "''.dynstr'' \<in> set [''.shstrtab'', ''.dynstr'']" by simp
  note w = GetOffset_unknown [OF h1 h2 refl, of "[]" init_example plan_example]
  note c1 = w [THEN conjunct1]
  note r1 = w [THEN conjunct2]
  note c2 = r1 [THEN conjunct1]
  note r2 = r1 [THEN conjunct2, THEN conjunct2]
  note c4 = r2 [THEN conjunct1]
  note r3 = r2 [THEN conjunct2]
  note c5 = r3 [THEN conjunct1]
  note c6 = r3 [THEN conjunct2, THEN conjunct1, THEN mp, OF refl]
  have d: "map_of (entries (fold AddString [''.shstrtab'', ''.dynstr''] StringTable_new)) ''.dynstr'' \<noteq> None"
    using c2 h3 by (rule bspec)
  from h1 h2 c1 d c4 c5 c6 show ?thesis by - (intro conjI, assumption+)
qed

section \<open>Properties of the PLT resolver\<close>

lemma memmem_m_from_Some:
  "memmem_m_from i hay needle msk = Some r \<Longrightarrow>
   \<exists>j. r = i + j \<and> j < length hay \<and> match_masked (drop j hay) needle msk \<and>
       (\<forall>j' < j. \<not> match_masked (drop j' hay) needle msk)"
proof (induction hay arbitrary: i)
  case Nil
  then show ?case by simp
next
  case (Cons h hs)
  show ?case
  proof (cases "match_masked (h # hs) needle msk")
    case True
    with Cons.prems have "r = i" by simp
    with True show ?thesis by (intro exI [of _ 0]) simp
  next
    case False
    with Cons.prems have "memmem_m_from (Suc i) hs needle msk = Some r" by simp
    from Cons.IH [OF this] obtain j where j: "r = Suc i + j" "j < length hs"
      "match_masked (drop j hs) needle msk"
      "\<forall>j' < j. \<not> match_masked (drop j' hs) needle msk" by blast
    have "\<forall>j' < Suc j. \<not> match_masked (drop j' (h # hs)) needle msk"
    proof (intro allI impI)
      fix j' assume "j' < Suc j"
      then show "\<not> match_masked (drop j' (h # hs)) needle msk"
        using False j(4) by (cases j') auto
    qed
    with j show ?thesis by (intro exI [of _ "Suc j"]) simp
  qed
qed

lemma memmem_m_from_None:
  "memmem_m_from i hay needle msk = None \<Longrightarrow> j < length hay \<Longrightarrow>
   \<not> match_masked (drop j hay) needle msk"
proof (induction hay arbitrary: i j)
  case Nil
  then show ?case by simp
next
  case (Cons h hs)
  then show ?case by (cases j) (auto split: if_splits)
qed

lemma match_masked_in_range:
  "match_masked (drop j hay) needle msk \<Longrightarrow> needle \<noteq> [] \<Longrightarrow> j < length hay"
  by (cases "j < length hay") (auto simp: match_masked_def)

lemma plt_pattern_nonempty: "concat (map enc32 plt_pattern) \<noteq> []"
  by (simp add: plt_pattern_def enc32_def)

lemma plt_pattern_bytes:
  "concat (map enc32 plt_pattern) =
     [0xf0, 0x7b, 0xbf, 0xa9, 0xd0, 0x04, 0x00, 0xd0, 0x11, 0x8a, 0x42, 0xf9, 0x10, 0x42, 0x14, 0x91,
      0x20, 0x02, 0x1f, 0xd6, 0x1f, 0x20, 0x03, 0xd5, 0x1f, 0x20, 0x03, 0xd5, 0x1f, 0x20, 0x03, 0xd5]"
  by (simp add: plt_pattern_def enc32_def)

lemma plt_mask_bytes:
  "concat (map enc32 plt_mask) =
     [0xff, 0xff, 0xff, 0xff, 0, 0, 0, 0, 0, 0, 0, 0xff, 0, 0, 0, 0xff,
      0, 0, 0, 0xff, 0xff, 0xff, 0xff, 0xff, 0xff, 0xff, 0xff, 0xff, 0xff, 0xff, 0xff, 0xff]"
  by (simp add: plt_mask_def enc32_def)

lemma plt_example_resolve:
  "ResolvePlt 0 36 plt_example =
     Some (True, plt_example\<lparr>plt_info := \<lparr>plt_addr = 4, plt_size = 48\<rparr>\<rparr>)"
  by (simp add: ResolvePlt_def plt_example_def NsoFile_new_def DynInfo_zero_def read_bytes_def
      memmem_m_def match_masked_def plt_pattern_bytes plt_mask_bytes)


text \<open>
  The resolver that is found: when \<^verbatim>\<open>pltrelsz\<close> is not 0 and the masked resolver pattern occurs
  in the scanned buffer, \<^verbatim>\<open>ResolvePlt\<close> returns true and sets \<^verbatim>\<open>plt_info.addr\<close> to the image
  offset of the first occurrence and \<^verbatim>\<open>plt_info.size\<close> to \<open>32 + 16 * N\<close> with
  \<open>N = pltrelsz / 24\<close>: by the comment of lines 230-231 the resolver fills two 16-byte
  slots. When \<^verbatim>\<open>pltrelsz\<close> is 0 it returns false and writes nothing.
\<close>

lemma ResolvePlt_first_occurrence:
  assumes "read_bytes (nso_image st) base len = Some buf"
  shows "(pltrelsz (dyn_info st) \<noteq> 0 \<and> (\<exists>j. plt_occurs_at buf j) \<longrightarrow>
            (\<exists>j. plt_occurs_at buf j \<and> (\<forall>j' < j. \<not> plt_occurs_at buf j') \<and>
                 ResolvePlt base len st =
                   Some (True, st\<lparr>plt_info := \<lparr>plt_addr = of_nat (base + j),
                      plt_size = 32 + 16 * (pltrelsz (dyn_info st) div 24)\<rparr>\<rparr>))) \<and>
         (pltrelsz (dyn_info st) = 0 \<longrightarrow> ResolvePlt base len st = Some (False, st))"
proof (intro conjI impI)
  assume "pltrelsz (dyn_info st) = 0"
  then show "ResolvePlt base len st = Some (False, st)" by (simp add: ResolvePlt_def)
next
  assume a: "pltrelsz (dyn_info st) \<noteq> 0 \<and> (\<exists>j. plt_occurs_at buf j)"
  then obtain k where k: "plt_occurs_at buf k" by blast
  let ?pat = "concat (map enc32 plt_pattern)" and ?msk = "concat (map enc32 plt_mask)"
  have "k < length buf"
    using k plt_pattern_nonempty by (auto simp: plt_occurs_at_def dest: match_masked_in_range)
  with k have "memmem_m buf ?pat ?msk \<noteq> None"
    unfolding memmem_m_def plt_occurs_at_def using memmem_m_from_None by blast
  then obtain r where r: "memmem_m_from 0 buf ?pat ?msk = Some r"
    by (auto simp: memmem_m_def)
  from memmem_m_from_Some [OF r] obtain j where j: "r = j" "plt_occurs_at buf j"
    "\<forall>j' < j. \<not> plt_occurs_at buf j'" by (auto simp: plt_occurs_at_def)
  have "ResolvePlt base len st =
          Some (True, st\<lparr>plt_info := \<lparr>plt_addr = of_nat (base + j),
             plt_size = 32 + 16 * (pltrelsz (dyn_info st) div 24)\<rparr>\<rparr>)"
    using a assms r j(1) by (simp add: ResolvePlt_def memmem_m_def)
  with j show "\<exists>j. plt_occurs_at buf j \<and> (\<forall>j' < j. \<not> plt_occurs_at buf j') \<and>
       ResolvePlt base len st =
         Some (True, st\<lparr>plt_info := \<lparr>plt_addr = of_nat (base + j),
            plt_size = 32 + 16 * (pltrelsz (dyn_info st) div 24)\<rparr>\<rparr>)" by blast
qed

lemma ResolvePlt_first_occurrence_example:
  "read_bytes (nso_image plt_example) 0 36 = Some (nso_image plt_example) \<and>
   pltrelsz (dyn_info plt_example) \<noteq> 0 \<and> (\<exists>j. plt_occurs_at (nso_image plt_example) j) \<and>
   (\<exists>j. plt_occurs_at (nso_image plt_example) j \<and>
        (\<forall>j' < j. \<not> plt_occurs_at (nso_image plt_example) j') \<and>
        ResolvePlt 0 36 plt_example =
          Some (True, plt_example\<lparr>plt_info := \<lparr>plt_addr = of_nat (0 + j),
             plt_size = 32 + 16 * (pltrelsz (dyn_info plt_example) div 24)\<rparr>\<rparr>)) \<and>
   read_bytes (nso_image (NsoFile_new \<lparr>plt_addr = 0, plt_size = 0\<rparr>)) 0 0 = Some [] \<and>
   pltrelsz (dyn_info (NsoFile_new \<lparr>plt_addr = 0, plt_size = 0\<rparr>)) = 0 \<and>
   ResolvePlt 0 0 (NsoFile_new \<lparr>plt_addr = 0, plt_size = 0\<rparr>) =
     Some (False, NsoFile_new \<lparr>plt_addr = 0, plt_size = 0\<rparr>)"
proof -
  have r1: "read_bytes (nso_image plt_example) 0 36 = Some (nso_image plt_example)"
    by (simp add: plt_example_def read_bytes_def plt_pattern_bytes)
  have p1: "pltrelsz (dyn_info plt_example) \<noteq> 0"
    by (simp add: plt_example_def DynInfo_zero_def)
  have o1: "plt_occurs_at (nso_image plt_example) 4"
    by (simp add: plt_occurs_at_def plt_example_def match_masked_def plt_pattern_bytes plt_mask_bytes)
  have r2: "read_bytes (nso_image (NsoFile_new \<lparr>plt_addr = 0, plt_size = 0\<rparr>)) 0 0 = Some []"
    by (simp add: NsoFile_new_def read_bytes_def)
  have p2: "pltrelsz (dyn_info (NsoFile_new \<lparr>plt_addr = 0, plt_size = 0\<rparr>)) = 0"
    by (simp add: NsoFile_new_def DynInfo_zero_def)
  from ResolvePlt_first_occurrence [OF r1] ResolvePlt_first_occurrence [OF r2] r1 p1 o1 r2 p2
  show ?thesis by blast
qed

text \<open>With one relocation the size is 48, not \<open>16 + 16 * 1\<close>.\<close>

lemma ResolvePlt_size_example:
  "pltrelsz (dyn_info plt_example) \<noteq> 0 \<and> plt_occurs_at (nso_image plt_example) 4 \<and>
   \<not> (\<exists>st'. ResolvePlt 0 36 plt_example = Some (True, st') \<and>
            plt_size (plt_info st') = 16 + 16 * (pltrelsz (dyn_info plt_example) div 24))"
proof -
  have "pltrelsz (dyn_info plt_example) = 24"
    by (simp add: plt_example_def DynInfo_zero_def)
  moreover have "plt_occurs_at (nso_image plt_example) 4"
    by (simp add: plt_occurs_at_def plt_example_def match_masked_def plt_pattern_bytes plt_mask_bytes)
  ultimately show ?thesis by (auto simp: plt_example_resolve)
qed

section \<open>The scan for the end of \<^verbatim>\<open>.init\<close>\<close>

lemma init_ret_scan_no_ret:
  "(\<And>k. rd32 img (p + 4 * (i + k)) \<noteq> Some 0xd65f03c0) \<Longrightarrow> init_ret_scan img p i = None"
proof (induction img p i rule: init_ret_scan.induct)
  case (1 img init_ptr i)
  show ?case
  proof (cases "rd32 img (init_ptr + 4 * i)")
    case None
    then show ?thesis by (subst init_ret_scan.simps) simp
  next
    case (Some w)
    have "w \<noteq> 0xd65f03c0" using "1.prems" [of 0] Some by auto
    moreover have "init_ret_scan img init_ptr (i + 1) = None"
    proof (rule "1.IH" [OF Some \<open>w \<noteq> 0xd65f03c0\<close>])
      fix k show "rd32 img (init_ptr + 4 * (i + 1 + k)) \<noteq> Some 0xd65f03c0"
        using "1.prems" [of "Suc k"] by simp
    qed
    ultimately show ?thesis using Some by (subst init_ret_scan.simps) simp
  qed
qed

lemma WriteElf_plan_init_None:
  "init (dyn_info st) \<noteq> 0 \<Longrightarrow> init_ret_scan (nso_image st) (unat (init (dyn_info st))) 0 = None \<Longrightarrow>
   WriteElf_plan measure_frame st prof = None"
  by (cases prof) (auto simp: WriteElf_plan_def Let_def split: Option.bind_splits)

lemma le_nat_replicate_zero: "le_nat (replicate n 0) = 0"
  by (induction n) (simp_all add: le_nat_def)

lemma init_example_no_ret: "rd32 (replicate 8 0) (4 + 4 * k) \<noteq> Some 0xd65f03c0"
  by (cases k) (simp_all add: rd32_def read_bytes_def le_nat_replicate_zero)

text \<open>
  C7: the claim asks that the scan for the end of \<^verbatim>\<open>.init\<close> disables the section
  when no \<^verbatim>\<open>ret\<close> is found. The source's loop has no bound (the loop for
  \<^verbatim>\<open>.fini\<close> next to it stops after 0x20 words): when \<^verbatim>\<open>dyn_info.init\<close> is not 0
  and no word from there on is a \<^verbatim>\<open>ret\<close>, the scan reads past the end of the
  image, and \<^verbatim>\<open>WriteElf\<close> has no defined result.
\<close>

theorem WriteElf_init_without_ret:
  assumes "init (dyn_info st) \<noteq> 0"
    and "\<And>k. rd32 (nso_image st) (unat (init (dyn_info st)) + 4 * k) \<noteq> Some 0xd65f03c0"
  shows "WriteElf measure_frame st = None"
proof -
  have "init_ret_scan (nso_image st) (unat (init (dyn_info st))) 0 = None"
    using assms(2) by (intro init_ret_scan_no_ret) simp
  from WriteElf_plan_init_None [OF assms(1) this] show ?thesis
    by (auto simp: WriteElf_def split: Option.bind_splits)
qed

theorem WriteElf_init_without_ret_witness:
  "init (dyn_info init_example) \<noteq> 0 \<and>
   (\<forall>k. rd32 (nso_image init_example) (unat (init (dyn_info init_example)) + 4 * k) \<noteq> Some 0xd65f03c0) \<and>
   WriteElf (\<lambda>img a. Some None) init_example = None"
proof -
  have h1: "init (dyn_info init_example) \<noteq> 0"
    by (simp add: init_example_def DynInfo_zero_def)
  have h2: "rd32 (nso_image init_example) (unat (init (dyn_info init_example)) + 4 * k) \<noteq> Some 0xd65f03c0" for k
    using init_example_no_ret [of k] by (simp add: init_example_def DynInfo_zero_def)
  from WriteElf_init_without_ret [OF h1 h2] h1 h2 show ?thesis by blast
qed

text \<open>The bounded scan for \<^verbatim>\<open>.fini\<close> on an image without a branch ends with 0,
  which disables the section.\<close>

lemma fini_scan_example: "fini_branch_scan (replicate 132 0) 4 0 = Some 0"
  by (simp add: rd32_def read_bytes_def le_nat_replicate_zero)

section \<open>Little-endian fields and the NSO header\<close>

lemma length_le_bytes [simp]: "length (le_bytes n v) = n"
  by (induction n arbitrary: v) simp_all

lemma le_nat_Nil [simp]: "le_nat [] = 0"
  by (simp add: le_nat_def)

lemma le_nat_Cons [simp]: "le_nat (b # bs) = unat b + 256 * le_nat bs"
  by (simp add: le_nat_def)

lemma unat_of_nat_u8_mod: "unat (of_nat (v mod 256) :: u8) = v mod 256"
  by (simp add: unat_of_nat take_bit_eq_mod)

lemma le_nat_le_bytes: "le_nat (le_bytes n v) = v mod 256 ^ n"
proof (induction n arbitrary: v)
  case 0
  then show ?case by simp
next
  case (Suc n)
  have "v mod 256 + 256 * (v div 256 mod 256 ^ n) = v mod (256 * 256 ^ n)"
    by (simp add: mod_mult2_eq)
  with Suc show ?case by (simp add: unat_of_nat_u8_mod)
qed

lemma length_enc32 [simp]: "length (enc32 w) = 4"
  by (simp add: enc32_def)

lemma length_enc16 [simp]: "length (enc16 w) = 2"
  by (simp add: enc16_def)

lemma length_enc64 [simp]: "length (enc64 w) = 8"
  by (simp add: enc64_def)

lemma le_nat_enc32: "of_nat (le_nat (enc32 w)) = w"
proof -
  have "unat w < 2 ^ 32" using unsigned_less [of w, where ?'a = nat] by simp
  then have "le_nat (enc32 w) = unat w"
    unfolding enc32_def le_nat_le_bytes by simp
  then show ?thesis by simp
qed

lemma u32_at_enc32 [simp]: "u32_at (enc32 w @ rest) 0 = w"
  by (simp add: u32_at_def le_nat_enc32)

lemma u32_at_append [simp]: "length a \<le> off \<Longrightarrow> u32_at (a @ b) off = u32_at b (off - length a)"
  by (simp add: u32_at_def)

lemma u32_at_Cons [simp]: "0 < off \<Longrightarrow> u32_at (x # b) off = u32_at b (off - 1)"
  by (cases off) (simp_all add: u32_at_def)

lemma length3E: "length xs = 3 \<Longrightarrow> \<exists>a b c. xs = [a, b, c]"
  by (auto simp: eval_nat_numeral length_Suc_conv)

lemma length9E: "length xs = 9 \<Longrightarrow> \<exists>a b c d e f g h i. xs = [a, b, c, d, e, f, g, h, i]"
  by (auto simp: eval_nat_numeral length_Suc_conv)

lemma length_ser_SegmentHeader [simp]: "length (ser_SegmentHeader s) = 16"
  by (simp add: ser_SegmentHeader_def)

lemma length_ser_DataExtent [simp]: "length (ser_DataExtent s) = 8"
  by (simp add: ser_DataExtent_def)

lemma parse_ser_SegmentHeader [simp]:
  "parse_SegmentHeader (ser_SegmentHeader s @ rest) 0 = s"
  by (simp add: parse_SegmentHeader_def ser_SegmentHeader_def)

lemma parse_SegmentHeader_append [simp]:
  "length a \<le> off \<Longrightarrow> parse_SegmentHeader (a @ b) off = parse_SegmentHeader b (off - length a)"
  by (simp add: parse_SegmentHeader_def)

lemma parse_ser_DataExtent [simp]:
  "parse_DataExtent (ser_DataExtent s @ rest) 0 = s"
  by (simp add: parse_DataExtent_def ser_DataExtent_def)

lemma parse_DataExtent_append [simp]:
  "length a \<le> off \<Longrightarrow> parse_DataExtent (a @ b) off = parse_DataExtent b (off - length a)"
  by (simp add: parse_DataExtent_def)

lemma length_ser_NsoHeader: "wf_NsoHeader h \<Longrightarrow> length (ser_NsoHeader h) = 0x100"
  by (auto simp: wf_NsoHeader_def ser_NsoHeader_def dest!: length3E length9E)

lemma parse_ser_NsoHeader:
  assumes "wf_NsoHeader h"
  shows "parse_NsoHeader (ser_NsoHeader h @ rest) = h"
proof -
  obtain s0 s1 s2 where segs: "segments h = [s0, s1, s2]"
    using assms length3E unfolding wf_NsoHeader_def by blast
  obtain z0 z1 z2 where szs: "segment_file_sizes h = [z0, z1, z2]"
    using assms length3E unfolding wf_NsoHeader_def by blast
  obtain a b c d e f g i j where f6c: "field_6c h = [a, b, c, d, e, f, g, i, j]"
    using assms length9E unfolding wf_NsoHeader_def by blast
  have lens: "length (magic h) = 4" "length (gnu_build_id h) = 32" "length (segment_digests h) = 96"
    using assms by (simp_all add: wf_NsoHeader_def)
  show ?thesis
    by (rule NsoHeader.equality)
       (simp_all add: parse_NsoHeader_def ser_NsoHeader_def segs szs f6c lens)
qed

lemma wf_nso_example_header: "wf_NsoHeader nso_example_header"
  by (simp add: wf_NsoHeader_def nso_example_header_def NsoHeader_zero_def nso_magic_def bytes_of_def)

lemma length_nso_example_text: "length nso_example_text = 52"
  by (simp add: nso_example_text_def mod_magic_def bytes_of_def)

lemma is_nso_example: "is_nso nso_example_file"
  using wf_nso_example_header
  by (simp add: is_nso_def nso_example_file_def length_ser_NsoHeader length_nso_example_text)
     (simp add: ser_NsoHeader_def nso_example_header_def nso_magic_def bytes_of_def)

lemma parse_nso_example: "parse_NsoHeader nso_example_file = nso_example_header"
  unfolding nso_example_file_def by (rule parse_ser_NsoHeader [OF wf_nso_example_header])

lemma nso_example_segments_aux:
  assumes "length H = 256"
    and "segments hdr = [\<lparr>file_offset = 0x100, mem_offset = 0, mem_size = 52, bss_align = 0\<rparr>,
                   \<lparr>file_offset = 0x134, mem_offset = 64, mem_size = 4, bss_align = 0\<rparr>,
                   \<lparr>file_offset = 0x136, mem_offset = 72, mem_size = 0, bss_align = 0\<rparr>]"
    and "segment_file_sizes hdr = [52, 2, 0]" and "flags hdr = 2"
  shows "Load_nso_segments lz4_example (H @ nso_example_text @ [0x10, 0xAA]) hdr [0, 1, 2] (replicate 72 0) =
     Some (True, nso_example_image)"
  using assms
  by (simp add: Let_def Decompress_def lz4_example_def read_bytes_def write_bytes_def
      overwrite_def length_nso_example_text nso_example_image_def)

lemma nso_example_segments:
  "Load_nso_segments lz4_example nso_example_file nso_example_header [0, Suc 0, 2] (replicate 72 0) =
     Some (True, nso_example_image)"
  using nso_example_segments_aux [OF length_ser_NsoHeader [OF wf_nso_example_header],
      of nso_example_header]
  by (simp add: nso_example_file_def nso_example_header_def del: Load_nso_segments.simps)

lemma nso_example_image_bytes:
  "nso_example_image =
     [0, 0, 0, 0, 8, 0, 0, 0, 0x4d, 0x4f, 0x44, 0x30, 28, 0, 0, 0] @ replicate 20 0 @
     replicate 16 0 @ replicate 12 0 @ [0xAA] @ replicate 7 0"
  by (simp add: nso_example_image_def nso_example_text_def enc32_def mod_magic_def bytes_of_def)

lemma nso_example_container:
  "Load_container lz4_example nso_example_file (NsoFile_new plt0) =
     Some (True, (NsoFile_new plt0)\<lparr>header := nso_example_header, nso_image := nso_example_image,
        file_type := kNso\<rparr>)"
proof -
  have "unat (mem_offset (segments nso_example_header ! kData) +
          mem_size (segments nso_example_header ! kData) +
          bss_align (segments nso_example_header ! kData)) = 72"
    by (simp add: nso_example_header_def)
  then show ?thesis
    by (simp add: Load_container_def is_nso_example parse_nso_example nso_example_segments
        del: Load_nso_segments.simps)
qed

lemma nso_example_mod:
  "nso_image st = nso_example_image \<Longrightarrow> file_type st = kNso \<Longrightarrow>
   Load_mod file st = Some (True, st, 8)"
  by (simp add: Load_mod_def nso_example_image_bytes rd32_def read_bytes_def mod_magic_def bytes_of_def)

lemma nso_example_dynamic:
  "nso_image st = nso_example_image \<Longrightarrow>
   Load_dynamic 8 st = Some (st\<lparr>dynamic := 36, dyn_info := dyn_info st\<rparr>)"
  by (simp add: Load_dynamic_def nso_example_image_bytes parse_ModHeader_def u32_at_def
      rd64_def read_bytes_def le_nat_replicate_zero)

section \<open>The example NSO loads\<close>

lemma memmemr_from_absent_byte:
  "c \<in> set needle \<Longrightarrow> c \<notin> set hay \<Longrightarrow> memmemr_from i hay needle latest = latest"
proof (induction hay arbitrary: i)
  case Nil
  then show ?case by simp
next
  case (Cons h hs)
  have "take (length needle) (h # hs) \<noteq> needle"
  proof
    assume "take (length needle) (h # hs) = needle"
    then have "set needle \<subseteq> set (h # hs)" by (metis set_take_subset)
    with Cons.prems show False by auto
  qed
  with Cons show ?case by simp
qed

lemma build_id_needle_G: "0x47 \<in> set (build_id_needle d)"
  by (simp add: build_id_needle_def bytes_of_def)

lemma find_note_absent_byte:
  assumes "0x47 \<notin> set img"
    and "\<forall>i \<in> set idxs. unat (mem_offset (segs ! i)) + unat (mem_size (segs ! i)) \<le> length img"
  shows "find_note img segs idxs = Some None"
  using assms(2)
proof (induction idxs)
  case Nil
  then show ?case by simp
next
  case (Cons i idxs)
  let ?buf = "take (unat (mem_size (segs ! i))) (drop (unat (mem_offset (segs ! i))) img)"
  have "set ?buf \<subseteq> set img"
    by (meson set_take_subset set_drop_subset subset_trans)
  with assms(1) have "0x47 \<notin> set ?buf" by blast
  then have "memmemr ?buf (build_id_needle d) = None" for d
    unfolding memmemr_def by (rule memmemr_from_absent_byte [OF build_id_needle_G])
  with Cons show ?case by (simp add: read_bytes_def)
qed

lemma nso_example_no_G: "0x47 \<notin> set nso_example_image"
  by (simp add: nso_example_image_bytes)

lemma nso_example_note:
  assumes "nso_image st = nso_example_image" and "header st = nso_example_header"
  shows "Load_note st = Some (st\<lparr>note_ptr := None\<rparr>)"
proof -
  have "find_note (nso_image st) (segments (header st)) [kRodata, kText, kData] = Some None"
    unfolding assms
    by (rule find_note_absent_byte [OF nso_example_no_G])
       (simp add: nso_example_header_def nso_example_image_bytes)
  then show ?thesis by (simp add: Load_note_def)
qed

lemma nso_example_Load:
  "Load lz4_example nso_example_file (NsoFile_new plt0) = Some (True, nso_example_state plt0)"
proof -
  let ?st1 = "(NsoFile_new plt0)\<lparr>header := nso_example_header, nso_image := nso_example_image,
        file_type := kNso\<rparr>"
  let ?st3 = "(NsoFile_new plt0)\<lparr>header := nso_example_header, nso_image := nso_example_image,
        file_type := kNso, dynamic := 36\<rparr>"
  have m: "Load_mod nso_example_file ?st1 = Some (True, ?st1, 8)"
    by (rule nso_example_mod) simp_all
  have d: "Load_dynamic 8 ?st1 = Some ?st3"
    using nso_example_dynamic [of ?st1] by simp
  have p: "ResolvePlt a b ?st3 = Some (False, ?st3)" for a b
    by (simp add: ResolvePlt_def NsoFile_new_def DynInfo_zero_def)
  have n: "Load_note ?st3 = Some (?st3\<lparr>note_ptr := None\<rparr>)"
    by (rule nso_example_note) simp_all
  have e: "Load_eh 8 (?st3\<lparr>note_ptr := None\<rparr>) = nso_example_state plt0"
    by (simp add: Load_eh_def nso_example_state_def NsoFile_new_def nso_example_image_bytes
        parse_ModHeader_def u32_at_def mod_get_offset_def le_nat_replicate_zero)
  show ?thesis
    unfolding Load_def nso_example_container
    by (simp add: m d p n e del: Load_eh_def)
qed

section \<open>What the stages of \<^verbatim>\<open>Load\<close> change\<close>

lemma ResolvePlt_frame:
  "ResolvePlt base len st = Some (found, st') \<Longrightarrow>
   header st' = header st \<and> file_type st' = file_type st \<and> nso_image st' = nso_image st \<and>
   dyn_info st' = dyn_info st \<and> dynamic st' = dynamic st"
  by (auto simp: ResolvePlt_def Let_def split: if_splits option.splits Option.bind_splits)

lemma Load_dynamic_frame:
  "Load_dynamic mod_base st = Some st' \<Longrightarrow>
   header st' = header st \<and> file_type st' = file_type st \<and> nso_image st' = nso_image st \<and>
   plt_info st' = plt_info st"
  by (auto simp: Load_dynamic_def Let_def split: if_splits Option.bind_splits)

lemma Load_note_frame:
  "Load_note st = Some st' \<Longrightarrow>
   segments (header st') = segments (header st) \<and> dynsym (header st') = dynsym (header st) \<and>
   file_type st' = file_type st \<and> nso_image st' = nso_image st \<and> dyn_info st' = dyn_info st \<and>
   plt_info st' = plt_info st \<and> dynamic st' = dynamic st"
  by (auto simp: Load_note_def split: if_splits option.splits Option.bind_splits)

lemma Load_eh_frame:
  "header (Load_eh mod_base st) = header st \<and> file_type (Load_eh mod_base st) = file_type st \<and>
   nso_image (Load_eh mod_base st) = nso_image st \<and> dyn_info (Load_eh mod_base st) = dyn_info st \<and>
   plt_info (Load_eh mod_base st) = plt_info st \<and> dynamic (Load_eh mod_base st) = dynamic st \<and>
   note_ptr (Load_eh mod_base st) = note_ptr st"
  by (simp add: Load_eh_def Let_def)

lemma Load_mod_frame:
  "Load_mod file st = Some (True, st', mod_base) \<Longrightarrow>
   header st' = header st \<and> dyn_info st' = dyn_info st \<and> plt_info st' = plt_info st \<and>
   (file_type st \<noteq> kUnknown \<longrightarrow> st' = st) \<and>
   (file_type st = kUnknown \<longrightarrow> file_type st' = kMod \<and> nso_image st' = file)"
  by (auto simp: Load_mod_def split: if_splits Option.bind_splits)

lemma Load_TrueE:
  assumes "Load lz4 file st0 = Some (True, st)"
  obtains st1 st2 mod_base st3 st4 st5 where
    "Load_container lz4 file st0 = Some (True, st1)"
    "Load_mod file st1 = Some (True, st2, mod_base)"
    "Load_dynamic mod_base st2 = Some st3"
    "file_type st3 \<noteq> kMod \<Longrightarrow>
       \<exists>found. ResolvePlt (unat (mem_offset (segments (header st3) ! kText)))
                 (unat (mem_size (segments (header st3) ! kText))) st3 = Some (found, st4)"
    "file_type st3 = kMod \<Longrightarrow> Load_mod_segments mod_base st3 = Some (True, st4)"
    "Load_note st4 = Some st5"
    "st = Load_eh mod_base st5"
  using assms unfolding Load_def
  by (auto split: Option.bind_splits if_splits prod.splits simp del: kText_def)

lemma Load_container_type:
  "Load_container lz4 file st0 = Some (True, st1) \<Longrightarrow>
   (is_nso file \<longrightarrow> file_type st1 = kNso \<and> header st1 = parse_NsoHeader file) \<and>
   (is_nro file \<longrightarrow> file_type st1 = kNro \<and>
      segments (header st1) =
        segments_of_extents (nro_segments (parse_NroHeader (drop 16 file)))
          (nro_bss_size (parse_NroHeader (drop 16 file)))) \<and>
   (\<not> is_nso file \<and> \<not> is_nro file \<longrightarrow> st1 = st0)"
  by (auto simp: Load_container_def Let_def is_nro_def split: if_splits Option.bind_splits)

section \<open>Decompression failures\<close>

lemma Load_nso_segments_True:
  "Load_nso_segments lz4 file hdr idxs img = Some (True, img') \<Longrightarrow> i \<in> set idxs \<Longrightarrow>
   (flags hdr AND push_bit i 1) \<noteq> 0 \<Longrightarrow>
   0 < fst (lz4 (take (unat (segment_file_sizes hdr ! i)) (drop (unat (file_offset (segments hdr ! i))) file))
              (unat (mem_size (segments hdr ! i))))"
proof (induction idxs arbitrary: img)
  case Nil
  then show ?case by simp
next
  case (Cons j idxs)
  show ?case
  proof (cases "i = j")
    case True
    with Cons.prems show ?thesis
      by (auto simp: Let_def Decompress_def read_bytes_def
          split: Option.bind_splits if_splits prod.splits)
  next
    case False
    with Cons.prems have "i \<in> set idxs" by simp
    moreover from Cons.prems obtain img2 where
      "Load_nso_segments lz4 file hdr idxs img2 = Some (True, img')"
      by (auto simp: Let_def split: Option.bind_splits if_splits prod.splits)
    ultimately show ?thesis using Cons.IH Cons.prems(3) by blast
  qed
qed

text \<open>
  C5, as amended: for an NSO input and a segment \<open>i\<close> whose compression bit is
  set, \<^verbatim>\<open>Load\<close> returns false whenever \<^verbatim>\<open>LZ4_decompress_safe\<close> returns 0 or a
  negative number for that segment; so \<^verbatim>\<open>Load\<close> succeeds only if every compressed
  segment decodes to a positive length. (A positive length that differs from
  \<^verbatim>\<open>mem_size\<close> only prints a message.)
\<close>

theorem Load_nso_decompress_failure:
  assumes "is_nso file" and "Load lz4 file st0 = Some (ok, st)"
    and "i < 3" and "nso_compressed file i" and "nso_decoded_len lz4 file i \<le> 0"
  shows "\<not> ok"
proof
  assume ok
  with assms(2) have "Load lz4 file st0 = Some (True, st)" by simp
  then obtain st1 where "Load_container lz4 file st0 = Some (True, st1)"
    by (rule Load_TrueE)
  with assms(1) obtain img img' where
    "Load_nso_segments lz4 file (parse_NsoHeader file) [0, 1, 2] img = Some (True, img')"
    by (auto simp: Load_container_def Let_def split: Option.bind_splits if_splits
        simp del: Load_nso_segments.simps)
  moreover have "i \<in> set [0, 1, 2]" using assms(3) by auto
  ultimately have "0 < nso_decoded_len lz4 file i"
    using assms(4) unfolding nso_decoded_len_def nso_compressed_def Let_def
    by (rule Load_nso_segments_True)
  with assms(5) show False by simp
qed

lemma is_nso_example_bad: "is_nso nso_example_bad_file"
  using wf_nso_example_header
  by (simp add: is_nso_def nso_example_bad_file_def length_ser_NsoHeader length_nso_example_text)
     (simp add: ser_NsoHeader_def nso_example_header_def nso_magic_def bytes_of_def)

lemma parse_nso_example_bad: "parse_NsoHeader nso_example_bad_file = nso_example_header"
  unfolding nso_example_bad_file_def by (rule parse_ser_NsoHeader [OF wf_nso_example_header])

lemma nso_example_block:
  "take 2 (drop 308 nso_example_file) = [0x10, 0xAA]"
  "take 2 (drop 308 nso_example_bad_file) = [1, 2]"
  using length_ser_NsoHeader [OF wf_nso_example_header]
  by (simp_all add: nso_example_file_def nso_example_bad_file_def length_nso_example_text)

lemma nso_example_decoded_len:
  "nso_decoded_len lz4_example nso_example_file 1 = 1"
  "nso_decoded_len lz4_example nso_example_bad_file 1 = - 1"
  by (simp_all add: nso_decoded_len_def parse_nso_example parse_nso_example_bad
      nso_example_header_def nso_example_block lz4_example_def)

lemma nso_example_segments_fail_aux:
  assumes "length H = 256"
    and "segments hdr = [\<lparr>file_offset = 0x100, mem_offset = 0, mem_size = 52, bss_align = 0\<rparr>,
                   \<lparr>file_offset = 0x134, mem_offset = 64, mem_size = 4, bss_align = 0\<rparr>,
                   \<lparr>file_offset = 0x136, mem_offset = 72, mem_size = 0, bss_align = 0\<rparr>]"
    and "segment_file_sizes hdr = [52, 2, 0]" and "flags hdr = 2"
  shows "\<exists>img. Load_nso_segments lz4_example (H @ nso_example_text @ [1, 2]) hdr [0, Suc 0, 2]
           (replicate 72 0) = Some (False, img)"
  using assms
  by (simp add: Let_def Decompress_def lz4_example_def read_bytes_def write_bytes_def
      overwrite_def length_nso_example_text)

lemma nso_example_Load_fail:
  "\<exists>ok st. Load lz4_example nso_example_bad_file (NsoFile_new plt0) = Some (ok, st)"
proof -
  have s: "unat (mem_offset (segments nso_example_header ! kData) +
          mem_size (segments nso_example_header ! kData) +
          bss_align (segments nso_example_header ! kData)) = 72"
    by (simp add: nso_example_header_def)
  obtain img where "Load_nso_segments lz4_example nso_example_bad_file nso_example_header
      [0, Suc 0, 2] (replicate 72 0) = Some (False, img)"
    using nso_example_segments_fail_aux [OF length_ser_NsoHeader [OF wf_nso_example_header],
      of nso_example_header]
    by (auto simp add: nso_example_bad_file_def nso_example_header_def simp del: Load_nso_segments.simps)
  with s show ?thesis
    by (auto simp add: Load_def Load_container_def is_nso_example_bad parse_nso_example_bad
        simp del: Load_nso_segments.simps)
qed

lemma nso_example_compressed:
  "nso_compressed nso_example_file 1" "nso_compressed nso_example_bad_file 1"
  by (simp_all add: nso_compressed_def parse_nso_example parse_nso_example_bad nso_example_header_def)

text \<open>
  The NSO example with the malformed block: the decoder rejects it and \<^verbatim>\<open>Load\<close> returns false.
\<close>

theorem Load_nso_decompress_failure_witness:
  "is_nso nso_example_bad_file \<and> (1::nat) < 3 \<and> nso_compressed nso_example_bad_file 1 \<and>
   nso_decoded_len lz4_example nso_example_bad_file 1 \<le> 0 \<and>
   (\<exists>ok st. Load lz4_example nso_example_bad_file (NsoFile_new \<lparr>plt_addr = 0, plt_size = 0\<rparr>) =
      Some (ok, st) \<and> \<not> ok)"
proof -
  obtain ok st where L:
    "Load lz4_example nso_example_bad_file (NsoFile_new \<lparr>plt_addr = 0, plt_size = 0\<rparr>) = Some (ok, st)"
    using nso_example_Load_fail by blast
  have i: "(1::nat) < 3" by simp
  have d: "nso_decoded_len lz4_example nso_example_bad_file 1 \<le> 0"
    unfolding nso_example_decoded_len by simp
  from Load_nso_decompress_failure [OF is_nso_example_bad L i nso_example_compressed(2) d]
  have "\<not> ok" .
  with L is_nso_example_bad i nso_example_compressed(2) d show ?thesis by blast
qed

text \<open>
  C5 as stated fails: the compressed \<^verbatim>\<open>.rodata\<close> of the example NSO is the valid LZ4 block
  \<open>0x10, 0xAA\<close>, which decodes to 1 byte where \<^verbatim>\<open>mem_size\<close> is 4, and \<^verbatim>\<open>Load\<close> returns true.
\<close>

theorem Load_nso_length_mismatch_counterexample:
  "is_nso nso_example_file \<and> nso_compressed nso_example_file 1 \<and>
   take 2 (drop 308 nso_example_file) = [0x10, 0xAA] \<and>
   nso_decoded_len lz4_example nso_example_file 1 = 1 \<and>
   mem_size (segments (parse_NsoHeader nso_example_file) ! 1) = 4 \<and>
   (\<exists>st. Load lz4_example nso_example_file (NsoFile_new \<lparr>plt_addr = 0, plt_size = 0\<rparr>) =
      Some (True, st))"
proof -
  have "mem_size (segments (parse_NsoHeader nso_example_file) ! 1) = 4"
    by (simp add: parse_nso_example nso_example_header_def)
  then show ?thesis
    using is_nso_example nso_example_compressed(1) nso_example_Load nso_example_block(1)
      nso_example_decoded_len(1) by blast
qed

lemma mod_example_head_bytes:
  "mod_example_head =
     [0, 0, 0, 0, 8, 0, 0, 0, 0x4d, 0x4f, 0x44, 0x30, 28, 0, 0, 0] @ replicate 20 0 @
     [2, 0, 0, 0, 0, 0, 0, 0, 24, 0, 0, 0, 0, 0, 0, 0,
      6, 0, 0, 0, 0, 0, 0, 0, 132, 0, 0, 0, 0, 0, 0, 0,
      5, 0, 0, 0, 0, 0, 0, 0, 228, 0, 0, 0, 0, 0, 0, 0,
      0, 0, 0, 0, 0, 0, 0, 0, 0, 0, 0, 0, 0, 0, 0, 0,
      0xf0, 0x7b, 0xbf, 0xa9, 0xd0, 0x04, 0x00, 0xd0, 0x11, 0x8a, 0x42, 0xf9, 0x10, 0x42, 0x14, 0x91,
      0x20, 0x02, 0x1f, 0xd6, 0x1f, 0x20, 0x03, 0xd5, 0x1f, 0x20, 0x03, 0xd5, 0x1f, 0x20, 0x03, 0xd5]"
  by (simp add: mod_example_head_def enc32_def enc64_def mod_magic_def bytes_of_def plt_pattern_def)

lemma length_mod_example_head: "length mod_example_head = 132"
  by (simp add: mod_example_head_bytes)

lemma length_ser_Elf64_Sym [simp]: "length (ser_Elf64_Sym sy) = 24"
  by (simp add: ser_Elf64_Sym_def)

lemma length_mod_example_file: "length (mod_example_file k) = 4096"
  by (simp add: mod_example_file_def length_mod_example_head mod_example_syms_def)

lemma replicate_4: "replicate 4 x = [x, x, x, x]"
  by (simp add: numeral_eq_Suc)

lemma mod_example_not_nso: "\<not> is_nso (mod_example_file k)"
  by (simp add: is_nso_def mod_example_file_def mod_example_head_bytes nso_magic_def bytes_of_def)

lemma mod_example_not_nro: "\<not> is_nro (mod_example_file k)"
  by (simp add: is_nro_def mod_example_file_def mod_example_head_bytes nro_magic_def bytes_of_def
      replicate_4)

lemma mod_example_container:
  "Load_container lz4 (mod_example_file k) st = Some (True, st)"
  by (simp add: Load_container_def mod_example_not_nso mod_example_not_nro)

lemma mod_example_mod:
  "file_type st = kUnknown \<Longrightarrow>
   Load_mod (mod_example_file k) st =
     Some (True, st\<lparr>nso_image := mod_example_file k, file_type := kMod\<rparr>, 8)"
  by (simp add: Load_mod_def length_mod_example_file rd32_def read_bytes_def)
     (simp add: mod_example_file_def mod_example_head_bytes mod_magic_def bytes_of_def)

lemma mod_example_ModHeader:
  "parse_ModHeader (drop 8 (mod_example_file k)) =
     \<lparr>mod_magic_f = mod_magic, dynamic_offset = 28, bss_start_offset = 0, bss_end_offset = 0,
      eh_start_offset = 0, eh_end_offset = 0, module_object_offset = 0\<rparr>"
  by (simp add: parse_ModHeader_def u32_at_def mod_example_file_def mod_example_head_bytes
      mod_magic_def bytes_of_def le_nat_replicate_zero)

lemma mod_example_dyn_reads:
  "rd64 (mod_example_file k) 36 = Some 2" "rd64 (mod_example_file k) 44 = Some 24"
  "rd64 (mod_example_file k) 52 = Some 6" "rd64 (mod_example_file k) 60 = Some 132"
  "rd64 (mod_example_file k) 68 = Some 5" "rd64 (mod_example_file k) 76 = Some 228"
  "rd64 (mod_example_file k) 84 = Some 0"
  by (simp_all add: rd64_def read_bytes_def length_mod_example_file)
     (simp_all add: mod_example_file_def mod_example_head_bytes)

lemma mod_example_parse_dynamic:
  "parse_dynamic (mod_example_file k) 36 DynInfo_zero =
     Some (DynInfo_zero\<lparr>pltrelsz := 24, symtab := 132, strtab := 228\<rparr>)"
  by (simp add: mod_example_dyn_reads DT_captured_def DT_ASSIGN_U64_def
      DT_PLTRELSZ_def DT_PLTGOT_def DT_HASH_def DT_STRTAB_def DT_SYMTAB_def DT_RELA_def
      DT_RELASZ_def DT_STRSZ_def DT_INIT_def DT_FINI_def DT_JMPREL_def DT_INIT_ARRAY_def
      DT_FINI_ARRAY_def DT_INIT_ARRAYSZ_def DT_FINI_ARRAYSZ_def DT_GNU_HASH_def)

lemma mod_example_dynamic:
  "nso_image st = mod_example_file k \<Longrightarrow> dyn_info st = DynInfo_zero \<Longrightarrow>
   Load_dynamic 8 st =
     Some (st\<lparr>dynamic := 36, dyn_info := DynInfo_zero\<lparr>pltrelsz := 24, symtab := 132, strtab := 228\<rparr>\<rparr>)"
  by (simp add: Load_dynamic_def mod_example_ModHeader mod_example_parse_dynamic
      del: parse_dynamic.simps)

lemma memmem_m_from_skip:
  assumes "needle \<noteq> []" and "msk \<noteq> []"
    and "\<forall>b \<in> set pre. (b AND hd msk) \<noteq> (hd needle AND hd msk)"
  shows "memmem_m_from i (pre @ rest) needle msk = memmem_m_from (i + length pre) rest needle msk"
  using assms(3)
proof (induction pre arbitrary: i)
  case Nil
  then show ?case by simp
next
  case (Cons b pre)
  obtain n ns m ms where nm: "needle = n # ns" "msk = m # ms"
    using assms(1,2) by (cases needle; cases msk) auto
  have "\<not> match_masked (b # pre @ rest) needle msk"
    using Cons.prems by (simp add: match_masked_def nm)
  with Cons show ?case by simp
qed

lemma match_masked_self:
  assumes "length msk = length needle"
  shows "match_masked (needle @ tail) needle msk"
proof -
  have "list_all (\<lambda>(h, n, m). h AND m = n AND m) (zip (needle @ tail) (zip needle msk))"
    using assms [symmetric]
    by (induction needle msk rule: list_induct2) simp_all
  then show ?thesis by (simp add: match_masked_def)
qed

lemma le_nat_enc16: "of_nat (le_nat (enc16 w)) = w"
proof -
  have "unat w < 2 ^ 16" using unsigned_less [of w, where ?'a = nat] by simp
  then have "le_nat (enc16 w) = unat w"
    unfolding enc16_def le_nat_le_bytes by simp
  then show ?thesis by simp
qed

lemma le_nat_enc64: "of_nat (le_nat (enc64 w)) = w"
proof -
  have "unat w < 2 ^ 64" using unsigned_less [of w, where ?'a = nat] by simp
  then have "le_nat (enc64 w) = unat w"
    unfolding enc64_def le_nat_le_bytes by simp
  then show ?thesis by simp
qed

lemma parse_ser_Elf64_Sym: "parse_Elf64_Sym (ser_Elf64_Sym sy @ rest) = sy"
  by (simp add: parse_Elf64_Sym_def ser_Elf64_Sym_def u16_at_def u64_at_def
      le_nat_enc16 le_nat_enc64)

lemma parse_dynsym_bytes:
  "map (\<lambda>i. parse_Elf64_Sym (take 24 (drop (24 * i) (concat (map ser_Elf64_Sym syms)))))
     [0..<length syms] = syms"
proof (induction syms)
  case Nil
  then show ?case by simp
next
  case (Cons sy syms)
  have "[0..<length (sy # syms)] = 0 # map Suc [0..<length syms]"
    by (simp add: upt_conv_Cons map_Suc_upt del: upt_Suc)
  moreover have "parse_Elf64_Sym (take 24 (ser_Elf64_Sym sy @ concat (map ser_Elf64_Sym syms))) = sy"
    using parse_ser_Elf64_Sym [of sy "[]"] by simp
  ultimately show ?case using Cons.IH by (simp add: comp_def)
qed

lemma length_plt_pattern_bytes: "length (concat (map enc32 plt_pattern)) = 32"
  by (simp add: plt_pattern_def)

lemma length_plt_mask_bytes: "length (concat (map enc32 plt_mask)) = 32"
  by (simp add: plt_mask_def)

lemma mod_example_memmem:
  "memmem_m (mod_example_file k) (concat (map enc32 plt_pattern)) (concat (map enc32 plt_mask)) =
     Some 100"
proof -
  let ?pre = "enc32 0 @ enc32 8 @ mod_magic @ enc32 28 @ replicate 20 0 @
     enc64 2 @ enc64 24 @ enc64 6 @ enc64 132 @ enc64 5 @ enc64 228 @ enc64 0 @ enc64 0"
  let ?pat = "concat (map enc32 plt_pattern)" and ?msk = "concat (map enc32 plt_mask)"
  let ?rest = "concat (map ser_Elf64_Sym (mod_example_syms k)) @ replicate 3868 0"
  have f: "mod_example_file k = ?pre @ (?pat @ ?rest)"
    by (simp add: mod_example_file_def mod_example_head_def)
  have "memmem_m_from 0 (?pre @ (?pat @ ?rest)) ?pat ?msk =
          memmem_m_from (0 + length ?pre) (?pat @ ?rest) ?pat ?msk"
    by (rule memmem_m_from_skip)
       (simp_all add: plt_pattern_bytes plt_mask_bytes enc32_def enc64_def mod_magic_def bytes_of_def)
  moreover have "length ?pre = 100" by (simp add: mod_magic_def bytes_of_def)
  moreover have "match_masked (?pat @ ?rest) ?pat ?msk"
    by (rule match_masked_self) (simp add: length_plt_pattern_bytes length_plt_mask_bytes)
  moreover have "?pat @ ?rest \<noteq> []" by (simp add: plt_pattern_def enc32_def)
  ultimately have "memmem_m_from 0 (?pre @ (?pat @ ?rest)) ?pat ?msk = Some 100"
    by (cases "?pat @ ?rest") simp_all
  then show ?thesis unfolding memmem_m_def f .
qed

lemma mod_example_ResolvePlt:
  assumes "nso_image st = mod_example_file k" and "pltrelsz (dyn_info st) = 24"
  shows "ResolvePlt 0 (length (nso_image st)) st =
     Some (True, st\<lparr>plt_info := \<lparr>plt_addr = 100, plt_size = 48\<rparr>\<rparr>)"
  using assms by (simp add: ResolvePlt_def read_bytes_def mod_example_memmem)

lemma mod_example_iter_dynsym:
  assumes "nso_image st = mod_example_file k" and "symtab (dyn_info st) = 132"
    and "ext_size (dynsym (header st)) = 96"
  shows "iter_dynsym st = Some (mod_example_syms k)"
proof -
  have r: "read_bytes (mod_example_file k) 132 96 =
        Some (concat (map ser_Elf64_Sym (mod_example_syms k)))"
    by (simp add: read_bytes_def length_mod_example_file)
       (simp add: mod_example_file_def length_mod_example_head mod_example_syms_def)
  have n: "unat (96 :: u32) div 24 = length (mod_example_syms k)"
    by (simp add: mod_example_syms_def)
  have l: "24 * length (mod_example_syms k) = 96"
    by (simp add: mod_example_syms_def)
  show ?thesis
    unfolding iter_dynsym_def Let_def assms n
    by (simp add: l r parse_dynsym_bytes)
qed

lemma mod_example_seen4: "seen_shndx_of (mod_example_syms 4) = [1, 2, 3, 4]"
  by (simp add: seen_shndx_of_def mod_example_syms_def mod_example_sym_def SHN_UNDEF_def
      SHN_LORESERVE_def word_le_nat_alt)

lemma mod_example_seen3: "seen_shndx_of (mod_example_syms 3) = [1, 2, 3]"
  by (simp add: seen_shndx_of_def mod_example_syms_def mod_example_sym_def SHN_UNDEF_def
      SHN_LORESERVE_def word_le_nat_alt)

lemma mod_example_data_offset: "find_data_offset (mod_example_syms 4) [1, 2, 3, 4] = 0x1000"
  by (simp add: find_data_offset_def mod_example_syms_def mod_example_sym_def STT_SECTION_def)

lemma mod_example_segments4:
  assumes "nso_image st = mod_example_file 4"
    and "dyn_info st = DynInfo_zero\<lparr>pltrelsz := 24, symtab := 132, strtab := 228\<rparr>"
  shows "\<exists>st'. Load_mod_segments 8 st = Some (True, st') \<and>
           segments (header st') =
             [\<lparr>file_offset = 0, mem_offset = 0, mem_size = 148, bss_align = 0x100\<rparr>,
              \<lparr>file_offset = 0x1000, mem_offset = 0x1000, mem_size = 0, bss_align = 1\<rparr>,
              \<lparr>file_offset = 0x1000, mem_offset = 0x1000, mem_size = 0, bss_align = 1\<rparr>] \<and>
           nso_image st' = mod_example_file 4 \<and> file_type st' = file_type st"
proof -
  let ?st1 = "st\<lparr>plt_info := \<lparr>plt_addr = 100, plt_size = 48\<rparr>\<rparr>"
  let ?st2 = "?st1\<lparr>header := (header ?st1)\<lparr>dynsym := (dynsym (header ?st1))
                    \<lparr>ext_size := ucast (strtab (dyn_info ?st1) - symtab (dyn_info ?st1))\<rparr>\<rparr>\<rparr>"
  have p: "ResolvePlt 0 (length (nso_image st)) st = Some (True, ?st1)"
    using assms by (intro mod_example_ResolvePlt) (simp_all add: DynInfo_zero_def)
  have i: "iter_dynsym ?st2 = Some (mod_example_syms 4)"
    using assms by (intro mod_example_iter_dynsym) (simp_all add: DynInfo_zero_def)
  show ?thesis
    unfolding Load_mod_segments_def p
    using i assms
    by (simp add: Let_def mod_example_seen4 mod_example_data_offset DynInfo_zero_def
        mod_example_ModHeader length_mod_example_file segments_of_extents_def ALIGN_UP_def
        mod_get_offset_def)
qed

lemma mod_example_no_G: "0x47 \<notin> set (mod_example_file 4)"
  by (simp add: mod_example_file_def mod_example_head_bytes mod_example_syms_def
      mod_example_sym_def ser_Elf64_Sym_def enc16_def enc32_def enc64_def)

lemma mod_example_note:
  assumes "nso_image st = mod_example_file 4"
    and "segments (header st) =
             [\<lparr>file_offset = 0, mem_offset = 0, mem_size = 148, bss_align = 0x100\<rparr>,
              \<lparr>file_offset = 0x1000, mem_offset = 0x1000, mem_size = 0, bss_align = 1\<rparr>,
              \<lparr>file_offset = 0x1000, mem_offset = 0x1000, mem_size = 0, bss_align = 1\<rparr>]"
  shows "Load_note st = Some (st\<lparr>note_ptr := None\<rparr>)"
proof -
  have "find_note (nso_image st) (segments (header st)) [kRodata, kText, kData] = Some None"
    unfolding assms
    by (rule find_note_absent_byte [OF mod_example_no_G]) (simp add: length_mod_example_file)
  then show ?thesis by (simp add: Load_note_def)
qed

lemma mod_example_Load:
  "\<exists>st. Load lz4 (mod_example_file 4) (NsoFile_new plt0) = Some (True, st) \<and>
        file_type st = kMod \<and>
        segments (header st) =
             [\<lparr>file_offset = 0, mem_offset = 0, mem_size = 148, bss_align = 0x100\<rparr>,
              \<lparr>file_offset = 0x1000, mem_offset = 0x1000, mem_size = 0, bss_align = 1\<rparr>,
              \<lparr>file_offset = 0x1000, mem_offset = 0x1000, mem_size = 0, bss_align = 1\<rparr>]"
proof -
  let ?st0 = "NsoFile_new plt0"
  let ?st2 = "?st0\<lparr>nso_image := mod_example_file 4, file_type := kMod\<rparr>"
  let ?st3 = "?st2\<lparr>dynamic := 36,
      dyn_info := DynInfo_zero\<lparr>pltrelsz := 24, symtab := 132, strtab := 228\<rparr>\<rparr>"
  have m: "Load_mod (mod_example_file 4) ?st0 = Some (True, ?st2, 8)"
    by (rule mod_example_mod) (simp add: NsoFile_new_def)
  have d: "Load_dynamic 8 ?st2 = Some ?st3"
    by (rule mod_example_dynamic) (simp_all add: NsoFile_new_def)
  obtain st4 where s: "Load_mod_segments 8 ?st3 = Some (True, st4)"
    "segments (header st4) =
             [\<lparr>file_offset = 0, mem_offset = 0, mem_size = 148, bss_align = 0x100\<rparr>,
              \<lparr>file_offset = 0x1000, mem_offset = 0x1000, mem_size = 0, bss_align = 1\<rparr>,
              \<lparr>file_offset = 0x1000, mem_offset = 0x1000, mem_size = 0, bss_align = 1\<rparr>]"
    "nso_image st4 = mod_example_file 4" "file_type st4 = kMod"
    using mod_example_segments4 [of ?st3] by auto
  have n: "Load_note st4 = Some (st4\<lparr>note_ptr := None\<rparr>)"
    using s(2,3) by (intro mod_example_note)
  have "Load lz4 (mod_example_file 4) ?st0 = Some (True, Load_eh 8 (st4\<lparr>note_ptr := None\<rparr>))"
    unfolding Load_def mod_example_container
    by (simp add: m d s n del: Load_eh_def)
  then show ?thesis using s by (auto simp: Load_eh_frame)
qed

lemma mod_example_Load3:
  "\<exists>st. Load lz4 (mod_example_file 3) (NsoFile_new plt0) = Some (False, st) \<and>
        file_type st = kMod \<and> iter_dynsym st = Some (mod_example_syms 3)"
proof -
  let ?st0 = "NsoFile_new plt0"
  let ?st2 = "?st0\<lparr>nso_image := mod_example_file 3, file_type := kMod\<rparr>"
  let ?st3 = "?st2\<lparr>dynamic := 36,
      dyn_info := DynInfo_zero\<lparr>pltrelsz := 24, symtab := 132, strtab := 228\<rparr>\<rparr>"
  let ?st3a = "?st3\<lparr>plt_info := \<lparr>plt_addr = 100, plt_size = 48\<rparr>\<rparr>"
  let ?st3b = "?st3a\<lparr>header := (header ?st3a)\<lparr>dynsym := (dynsym (header ?st3a))
                    \<lparr>ext_size := ucast (strtab (dyn_info ?st3a) - symtab (dyn_info ?st3a))\<rparr>\<rparr>\<rparr>"
  have m: "Load_mod (mod_example_file 3) ?st0 = Some (True, ?st2, 8)"
    by (rule mod_example_mod) (simp add: NsoFile_new_def)
  have d: "Load_dynamic 8 ?st2 = Some ?st3"
    by (rule mod_example_dynamic) (simp_all add: NsoFile_new_def)
  have p: "ResolvePlt 0 (length (nso_image ?st3)) ?st3 = Some (True, ?st3a)"
    by (intro mod_example_ResolvePlt) (simp_all add: DynInfo_zero_def)
  have i: "iter_dynsym ?st3b = Some (mod_example_syms 3)"
    by (intro mod_example_iter_dynsym) (simp_all add: DynInfo_zero_def)
  have s: "Load_mod_segments 8 ?st3 = Some (False, ?st3b)"
    unfolding Load_mod_segments_def p using i
    by (simp add: Let_def mod_example_seen3 DynInfo_zero_def)
  have "Load lz4 (mod_example_file 3) ?st0 = Some (False, ?st3b)"
    unfolding Load_def mod_example_container
    by (simp add: m d s)
  with i show ?thesis by simp
qed

section \<open>The raw MOD path of Load\<close>

lemma iter_dynsym_cong:
  "nso_image st' = nso_image st \<Longrightarrow> dyn_info st' = dyn_info st \<Longrightarrow>
   ext_size (dynsym (header st')) = ext_size (dynsym (header st)) \<Longrightarrow>
   iter_dynsym st' = iter_dynsym st"
  by (simp add: iter_dynsym_def)

text \<open>
When the raw-MOD path of \<^verbatim>\<open>Load\<close> (lines 385-470) goes through, the symbol table has exactly
  four section indices and the segment table is the one of lines 434-441.
\<close>

lemma Load_mod_segments_TrueE:
  assumes "Load_mod_segments mod_base st = Some (True, st')"
  obtains tsz doff dsz bss syms where
    "segments (header st') =
       segments_of_extents
         [\<lparr>ext_offset = 0, ext_size = tsz\<rparr>,
          \<lparr>ext_offset = ALIGN_UP (0 + tsz) 0x1000, ext_size = doff - ALIGN_UP (0 + tsz) 0x1000\<rparr>,
          \<lparr>ext_offset = doff, ext_size = dsz\<rparr>] bss"
    "iter_dynsym st' = Some syms" "length (seen_shndx_of syms) = 4"
    "file_type st' = file_type st" "nso_image st' = nso_image st"
proof -
  from assms obtain st1 where p: "ResolvePlt 0 (length (nso_image st)) st = Some (True, st1)"
    by (auto simp: Load_mod_segments_def split: Option.bind_splits if_splits)
  let ?st2 = "st1\<lparr>header := (header st1)\<lparr>dynsym := (dynsym (header st1))
                    \<lparr>ext_size := ucast (strtab (dyn_info st1) - symtab (dyn_info st1))\<rparr>\<rparr>\<rparr>"
  from assms p obtain syms where i: "iter_dynsym ?st2 = Some syms"
    and l: "length (seen_shndx_of syms) = 4"
    by (auto simp: Load_mod_segments_def Let_def split: Option.bind_splits if_splits)
  from assms p i have st': "st' = ?st2\<lparr>header := (header ?st2)
      \<lparr>dynstr := dynstr (header st'), dynsym := dynsym (header st'),
       segments := segments (header st'),
       segment_file_sizes := segment_file_sizes (header st')\<rparr>\<rparr>"
    "ext_size (dynsym (header st')) = ext_size (dynsym (header ?st2))"
    by (auto simp: Load_mod_segments_def Let_def split: Option.bind_splits if_splits)
  have "iter_dynsym st' = iter_dynsym ?st2"
    by (rule iter_dynsym_cong) (subst st'(1), simp, subst st'(1), simp, rule st'(2))
  with i have i': "iter_dynsym st' = Some syms" by simp
  from assms p i obtain tsz doff dsz bss where
    "segments (header st') =
       segments_of_extents
         [\<lparr>ext_offset = 0, ext_size = tsz\<rparr>,
          \<lparr>ext_offset = ALIGN_UP (0 + tsz) 0x1000, ext_size = doff - ALIGN_UP (0 + tsz) 0x1000\<rparr>,
          \<lparr>ext_offset = doff, ext_size = dsz\<rparr>] bss"
    by (auto simp: Load_mod_segments_def Let_def split: Option.bind_splits if_splits)
  moreover have "file_type st' = file_type st" "nso_image st' = nso_image st"
    using ResolvePlt_frame [OF p] by (subst st'(1), simp)+
  ultimately show ?thesis using that i' l by blast
qed

lemma distinct_remdups_adj_sorted:
  "sorted (xs :: 'a :: linorder list) \<Longrightarrow> distinct (remdups_adj xs)"
proof (induction xs rule: remdups_adj.induct)
  case (3 x y xs)
  show ?case
  proof (cases "x = y")
    case True
    with 3 show ?thesis by simp
  next
    case False
    from "3.prems" have "\<forall>z \<in> set (y # xs). y \<le> z" "x \<le> y" by auto
    with False have "x \<notin> set (y # xs)" by auto
    with 3 False show ?thesis by simp
  qed
qed simp_all

text \<open>
After \<^verbatim>\<open>std::sort\<close> and \<^verbatim>\<open>std::unique\<close> the vector \<^verbatim>\<open>seen_shndx\<close> has one element for each distinct
  section index.
\<close>

lemma seen_shndx_card: "length (seen_shndx_of syms) = card (distinct_shndx syms)"
proof -
  have d: "distinct (seen_shndx_of syms)"
    unfolding seen_shndx_of_def by (rule distinct_remdups_adj_sorted) simp
  have s: "set (seen_shndx_of syms) = distinct_shndx syms"
    unfolding seen_shndx_of_def distinct_shndx_def by (auto simp: not_le)
  from distinct_card [OF d] s show ?thesis by simp
qed

text \<open>
C6. When \<^verbatim>\<open>Load\<close> has classified its input as a raw MOD and the \<^verbatim>\<open>.dynsym\<close> entries of the
  loaded object do not have exactly 4 distinct \<^verbatim>\<open>st_shndx\<close> values (leaving out \<^verbatim>\<open>SHN_UNDEF\<close> and
  the values from \<^verbatim>\<open>SHN_LORESERVE\<close> on), \<^verbatim>\<open>Load\<close> returns false.
\<close>

theorem Load_raw_mod_shndx_count:
  assumes L: "Load lz4 file st0 = Some (ok, st)"
    and t: "file_type st = kMod"
    and i: "iter_dynsym st = Some syms"
    and c: "card (distinct_shndx syms) \<noteq> 4"
  shows "\<not> ok"
proof
  assume ok
  with L have L': "Load lz4 file st0 = Some (True, st)" by simp
  obtain st3 st4 st5 mod_base where
    r: "file_type st3 \<noteq> kMod \<Longrightarrow>
         \<exists>found. ResolvePlt (unat (mem_offset (segments (header st3) ! kText)))
                 (unat (mem_size (segments (header st3) ! kText))) st3 = Some (found, st4)"
    and m: "file_type st3 = kMod \<Longrightarrow> Load_mod_segments mod_base st3 = Some (True, st4)"
    and n: "Load_note st4 = Some st5"
    and e: "st = Load_eh mod_base st5"
    by (rule Load_TrueE [OF L']) blast
  from t e n have t4: "file_type st4 = kMod"
    using Load_eh_frame [of mod_base st5] Load_note_frame [OF n] by simp
  have t3: "file_type st3 = kMod"
  proof (rule ccontr)
    assume "file_type st3 \<noteq> kMod"
    from r [OF this] ResolvePlt_frame t4 this show False by metis
  qed
  from m [OF t3] obtain syms' where i4: "iter_dynsym st4 = Some syms'"
    and l: "length (seen_shndx_of syms') = 4"
    by (rule Load_mod_segments_TrueE)
  have "iter_dynsym st = iter_dynsym st4"
    unfolding e using Load_eh_frame [of mod_base st5] Load_note_frame [OF n]
    by (simp add: iter_dynsym_def)
  with i i4 have "syms' = syms" by simp
  with l c show False by (simp add: seen_shndx_card)
qed

lemma card_distinct_shndx_example: "card (distinct_shndx (mod_example_syms 3)) = 3"
  using seen_shndx_card [of "mod_example_syms 3"] by (simp add: mod_example_seen3)

text \<open>
The example file with three distinct section indices is rejected.
\<close>

theorem Load_raw_mod_shndx_count_witness:
  "\<exists>ok st. Load lz4_example (mod_example_file 3) (NsoFile_new \<lparr>plt_addr = 0, plt_size = 0\<rparr>) =
      Some (ok, st) \<and> file_type st = kMod \<and> iter_dynsym st = Some (mod_example_syms 3) \<and>
      card (distinct_shndx (mod_example_syms 3)) \<noteq> 4 \<and> \<not> ok"
proof -
  obtain ok st where L:
    "Load lz4_example (mod_example_file 3) (NsoFile_new \<lparr>plt_addr = 0, plt_size = 0\<rparr>) = Some (ok, st)"
    and t: "file_type st = kMod" and i: "iter_dynsym st = Some (mod_example_syms 3)"
    using mod_example_Load3 by blast
  have c: "card (distinct_shndx (mod_example_syms 3)) \<noteq> 4"
    by (simp add: card_distinct_shndx_example)
  from Load_raw_mod_shndx_count [OF L t i c] have "\<not> ok" .
  with L t i c show ?thesis by blast
qed

section \<open>The segment table after loading\<close>

lemma segments_of_extents_nth:
  "mem_offset (segments_of_extents [a, b, c] bss ! 0) = ext_offset a"
  "mem_size (segments_of_extents [a, b, c] bss ! 0) = ext_size a"
  "mem_offset (segments_of_extents [a, b, c] bss ! Suc 0) = ext_offset b"
  "mem_size (segments_of_extents [a, b, c] bss ! Suc 0) = ext_size b"
  "mem_offset (segments_of_extents [a, b, c] bss ! 2) = ext_offset c"
  "mem_size (segments_of_extents [a, b, c] bss ! 2) = ext_size c"
  by (simp_all add: segments_of_extents_def)

text \<open>
C8, amended. After a successful \<^verbatim>\<open>Load\<close> on a fresh object, the segment table of an NSO is
  the one of the file's header and the segment table of an NRO is built from the three extents
  of its header, both unchecked; for a raw MOD \<^verbatim>\<open>.text\<close> starts at 0, \<^verbatim>\<open>.rodata\<close> starts at the end
  of \<^verbatim>\<open>.text\<close> rounded up to \<open>0x1000\<close>, and \<^verbatim>\<open>.data\<close> starts where \<^verbatim>\<open>.rodata\<close> ends.
\<close>

theorem Load_segment_table:
  assumes L: "Load lz4 file st0 = Some (True, st)"
    and t0: "file_type st0 = kUnknown"
  shows "(is_nso file \<longrightarrow> segments (header st) = segments (parse_NsoHeader file)) \<and>
         (is_nro file \<longrightarrow>
            segments (header st) =
              segments_of_extents (nro_segments (parse_NroHeader (drop 16 file)))
                (nro_bss_size (parse_NroHeader (drop 16 file)))) \<and>
         (\<not> is_nso file \<and> \<not> is_nro file \<longrightarrow>
            mem_offset (segments (header st) ! kText) = 0 \<and>
            mem_offset (segments (header st) ! kRodata) =
              ALIGN_UP (mem_offset (segments (header st) ! kText) +
                        mem_size (segments (header st) ! kText)) 0x1000 \<and>
            mem_offset (segments (header st) ! kData) =
              mem_offset (segments (header st) ! kRodata) +
              mem_size (segments (header st) ! kRodata))"
proof -
  obtain st1 st2 st3 st4 st5 mod_base where
    c: "Load_container lz4 file st0 = Some (True, st1)"
    and m: "Load_mod file st1 = Some (True, st2, mod_base)"
    and d: "Load_dynamic mod_base st2 = Some st3"
    and r: "file_type st3 \<noteq> kMod \<Longrightarrow>
         \<exists>found. ResolvePlt (unat (mem_offset (segments (header st3) ! kText)))
                 (unat (mem_size (segments (header st3) ! kText))) st3 = Some (found, st4)"
    and s: "file_type st3 = kMod \<Longrightarrow> Load_mod_segments mod_base st3 = Some (True, st4)"
    and n: "Load_note st4 = Some st5"
    and e: "st = Load_eh mod_base st5"
    by (rule Load_TrueE [OF L]) blast
  note ct = Load_container_type [OF c]
  note mf = Load_mod_frame [OF m]
  note df = Load_dynamic_frame [OF d]
  note nf = Load_note_frame [OF n]
  have f: "segments (header st) = segments (header st4)"
    unfolding e using Load_eh_frame [of mod_base st5] nf by simp
  have h3: "header st3 = header st1" "file_type st3 = file_type st2"
    using mf df by simp_all
  have k: "file_type st1 \<noteq> kUnknown \<Longrightarrow> file_type st1 \<noteq> kMod \<Longrightarrow> header st4 = header st1"
  proof -
    assume a: "file_type st1 \<noteq> kUnknown" "file_type st1 \<noteq> kMod"
    with mf have "st2 = st1" by simp
    with h3 a have "file_type st3 \<noteq> kMod" by simp
    from r [OF this] obtain found where
      "ResolvePlt (unat (mem_offset (segments (header st3) ! kText)))
                 (unat (mem_size (segments (header st3) ! kText))) st3 = Some (found, st4)" ..
    from ResolvePlt_frame [OF this] h3 show ?thesis by simp
  qed
  have nso: "segments (header st) = segments (parse_NsoHeader file)" if "is_nso file"
    using that ct k f by simp
  have nro: "segments (header st) =
              segments_of_extents (nro_segments (parse_NroHeader (drop 16 file)))
                (nro_bss_size (parse_NroHeader (drop 16 file)))" if "is_nro file"
    using that ct k f by simp
  have raw: "mem_offset (segments (header st) ! kText) = 0 \<and>
            mem_offset (segments (header st) ! kRodata) =
              ALIGN_UP (mem_offset (segments (header st) ! kText) +
                        mem_size (segments (header st) ! kText)) 0x1000 \<and>
            mem_offset (segments (header st) ! kData) =
              mem_offset (segments (header st) ! kRodata) +
              mem_size (segments (header st) ! kRodata)"
    if "\<not> is_nso file" "\<not> is_nro file"
  proof -
    from that ct have "st1 = st0" by simp
    with t0 mf h3 have "file_type st3 = kMod" by simp
    from s [OF this] obtain tsz doff dsz bss where
      "segments (header st4) =
       segments_of_extents
         [\<lparr>ext_offset = 0, ext_size = tsz\<rparr>,
          \<lparr>ext_offset = ALIGN_UP (0 + tsz) 0x1000, ext_size = doff - ALIGN_UP (0 + tsz) 0x1000\<rparr>,
          \<lparr>ext_offset = doff, ext_size = dsz\<rparr>] bss"
      by (rule Load_mod_segments_TrueE)
    with f show ?thesis by (simp add: segments_of_extents_nth)
  qed
  from nso nro raw show ?thesis by blast
qed

text \<open>
The raw MOD example and the NSO example.
\<close>

theorem Load_segment_table_witness:
  "(\<exists>st. Load lz4_example (mod_example_file 4) (NsoFile_new \<lparr>plt_addr = 0, plt_size = 0\<rparr>) =
          Some (True, st) \<and>
     \<not> is_nso (mod_example_file 4) \<and> \<not> is_nro (mod_example_file 4) \<and>
     mem_offset (segments (header st) ! kText) = 0 \<and>
     mem_offset (segments (header st) ! kRodata) =
       ALIGN_UP (mem_offset (segments (header st) ! kText) +
                 mem_size (segments (header st) ! kText)) 0x1000 \<and>
     mem_offset (segments (header st) ! kData) =
       mem_offset (segments (header st) ! kRodata) + mem_size (segments (header st) ! kRodata)) \<and>
   (\<exists>st. Load lz4_example nso_example_file (NsoFile_new \<lparr>plt_addr = 0, plt_size = 0\<rparr>) =
          Some (True, st) \<and>
     is_nso nso_example_file \<and> segments (header st) = segments (parse_NsoHeader nso_example_file))"
proof -
  let ?p = "\<lparr>plt_addr = 0, plt_size = 0\<rparr>"
  have u: "file_type (NsoFile_new ?p) = kUnknown" by (simp add: NsoFile_new_def)
  obtain st where L: "Load lz4_example (mod_example_file 4) (NsoFile_new ?p) = Some (True, st)"
    using mod_example_Load by blast
  have a: "\<not> is_nso (mod_example_file 4)" "\<not> is_nro (mod_example_file 4)"
    by (rule mod_example_not_nso, rule mod_example_not_nro)
  obtain st' where L': "Load lz4_example nso_example_file (NsoFile_new ?p) = Some (True, st')"
    using nso_example_Load by blast
  from Load_segment_table [OF L u] Load_segment_table [OF L' u] L L' a is_nso_example
  show ?thesis by blast
qed

section \<open>The stored NSO example loads\<close>

lemma wf_plain_example_header: "wf_NsoHeader (plain_example_header fs)"
  by (simp add: wf_NsoHeader_def plain_example_header_def NsoHeader_zero_def nso_magic_def bytes_of_def)

lemma plain_example_text_bytes:
  "plain_example_text =
     [0, 0, 0, 0, 8, 0, 0, 0, 0x4d, 0x4f, 0x44, 0x30, 28, 0, 0, 0] @ replicate 20 0 @
     [25, 0, 0, 0, 0, 0, 0, 0, 8, 0, 0, 0, 0, 0, 0, 0,
      7, 0, 0, 0, 0, 0, 0, 0, 16, 0, 0, 0, 0, 0, 0, 0,
      8, 0, 0, 0, 0, 0, 0, 0, 24, 0, 0, 0, 0, 0, 0, 0] @ replicate 16 0"
  by (simp add: plain_example_text_def enc32_def enc64_def mod_magic_def bytes_of_def)

lemma length_plain_example_text: "length plain_example_text = 100"
  by (simp add: plain_example_text_bytes)

lemma length_plain_example_image: "length (plain_example_image g) = 128"
  by (simp add: plain_example_image_def length_plain_example_text)

lemma is_nso_plain_example: "is_nso (plain_example_file fs g)"
  using wf_plain_example_header [of fs]
  by (simp add: is_nso_def plain_example_file_def length_ser_NsoHeader)
     (simp add: ser_NsoHeader_def plain_example_header_def nso_magic_def bytes_of_def)

lemma parse_plain_example: "parse_NsoHeader (plain_example_file fs g) = plain_example_header fs"
  unfolding plain_example_file_def by (rule parse_ser_NsoHeader [OF wf_plain_example_header])

lemma replicate_12: "x # replicate 11 x = replicate 12 x"
  by (simp add: numeral_eq_Suc)

lemma plain_example_segments_aux:
  assumes "length H = 256"
    and "segments hdr = [\<lparr>file_offset = 0x100, mem_offset = 0, mem_size = 100, bss_align = 0x100\<rparr>,
                   \<lparr>file_offset = 0x170, mem_offset = 112, mem_size = 4, bss_align = 0\<rparr>,
                   \<lparr>file_offset = 0x174, mem_offset = 116, mem_size = 4, bss_align = 8\<rparr>]"
    and "flags hdr = 0"
  shows "segment_file_sizes hdr = [100, 4, 4] \<Longrightarrow>
         Load_nso_segments lz4 (H @ plain_example_text @ [g] @ replicate 11 0 @ [1, 2, 3, 4, 5, 6, 7, 8])
           hdr [0, 1, 2] (replicate 128 0) = Some (True, plain_example_image 0)"
    and "segment_file_sizes hdr = [101, 4, 4] \<Longrightarrow>
         Load_nso_segments lz4 (H @ plain_example_text @ [g] @ replicate 11 0 @ [1, 2, 3, 4, 5, 6, 7, 8])
           hdr [0, 1, 2] (replicate 128 0) = Some (True, plain_example_image g)"
  using assms
  by (simp_all add: Let_def read_bytes_def write_bytes_def
      overwrite_def length_plain_example_text plain_example_image_def replicate_12)

lemma plain_example_segments:
  assumes "fs = 100 \<or> fs = 101"
  shows "Load_nso_segments lz4 (plain_example_file fs g) (plain_example_header fs) [0, Suc 0, 2]
     (replicate 128 0) =
     Some (True, plain_example_image (if fs = 100 then 0 else g))"
proof -
  note a = plain_example_segments_aux [OF length_ser_NsoHeader [OF wf_plain_example_header],
      where hdr = "plain_example_header fs"]
  from assms show ?thesis
  proof
    assume "fs = 100"
    with a(1) show ?thesis
      by (simp add: plain_example_file_def plain_example_header_def NsoHeader_zero_def
          del: Load_nso_segments.simps)
  next
    assume "fs = 101"
    with a(2) show ?thesis
      by (simp add: plain_example_file_def plain_example_header_def NsoHeader_zero_def
          del: Load_nso_segments.simps)
  qed
qed

lemma plain_example_image_bytes:
  "plain_example_image g =
     [0, 0, 0, 0, 8, 0, 0, 0, 0x4d, 0x4f, 0x44, 0x30, 28, 0, 0, 0] @ replicate 20 0 @
     [25, 0, 0, 0, 0, 0, 0, 0, 8, 0, 0, 0, 0, 0, 0, 0,
      7, 0, 0, 0, 0, 0, 0, 0, 16, 0, 0, 0, 0, 0, 0, 0,
      8, 0, 0, 0, 0, 0, 0, 0, 24, 0, 0, 0, 0, 0, 0, 0] @ replicate 16 0 @
     [g] @ replicate 11 0 @ [1, 2, 3, 4, 5, 6, 7, 8] @ replicate 8 0"
  by (simp add: plain_example_image_def plain_example_text_bytes)

lemma plain_example_container:
  assumes "fs = 100 \<or> fs = 101"
  shows "Load_container lz4 (plain_example_file fs g) (NsoFile_new plt0) =
     Some (True, (NsoFile_new plt0)\<lparr>header := plain_example_header fs,
        nso_image := plain_example_image (if fs = 100 then 0 else g), file_type := kNso\<rparr>)"
proof -
  have "unat (mem_offset (segments (plain_example_header fs) ! kData) +
          mem_size (segments (plain_example_header fs) ! kData) +
          bss_align (segments (plain_example_header fs) ! kData)) = 128"
    by (simp add: plain_example_header_def)
  then show ?thesis
    by (simp add: Load_container_def is_nso_plain_example parse_plain_example
        plain_example_segments [OF assms] del: Load_nso_segments.simps)
qed

lemma plain_example_mod:
  "nso_image st = plain_example_image g \<Longrightarrow> file_type st = kNso \<Longrightarrow>
   Load_mod file st = Some (True, st, 8)"
  by (simp add: Load_mod_def plain_example_image_bytes rd32_def read_bytes_def mod_magic_def bytes_of_def)

lemma plain_example_ModHeader:
  "parse_ModHeader (drop 8 (plain_example_image g)) =
     \<lparr>mod_magic_f = mod_magic, dynamic_offset = 28, bss_start_offset = 0, bss_end_offset = 0,
      eh_start_offset = 0, eh_end_offset = 0, module_object_offset = 0\<rparr>"
  by (simp add: parse_ModHeader_def u32_at_def plain_example_image_bytes
      mod_magic_def bytes_of_def le_nat_replicate_zero)

lemma plain_example_dyn_reads:
  "rd64 (plain_example_image g) 36 = Some 25" "rd64 (plain_example_image g) 44 = Some 8"
  "rd64 (plain_example_image g) 52 = Some 7" "rd64 (plain_example_image g) 60 = Some 16"
  "rd64 (plain_example_image g) 68 = Some 8" "rd64 (plain_example_image g) 76 = Some 24"
  "rd64 (plain_example_image g) 84 = Some 0"
  by (simp_all add: rd64_def read_bytes_def length_plain_example_image)
     (simp_all add: plain_example_image_bytes le_nat_replicate_zero)

lemma plain_example_parse_dynamic:
  "parse_dynamic (plain_example_image g) 36 DynInfo_zero =
     Some (DynInfo_zero\<lparr>rela := 16, relasz := 24, init_array := 8\<rparr>)"
  by (simp add: plain_example_dyn_reads DT_captured_def DT_ASSIGN_U64_def
      DT_PLTRELSZ_def DT_PLTGOT_def DT_HASH_def DT_STRTAB_def DT_SYMTAB_def DT_RELA_def
      DT_RELASZ_def DT_STRSZ_def DT_INIT_def DT_FINI_def DT_JMPREL_def DT_INIT_ARRAY_def
      DT_FINI_ARRAY_def DT_INIT_ARRAYSZ_def DT_FINI_ARRAYSZ_def DT_GNU_HASH_def DynInfo_zero_def)

lemma plain_example_dynamic:
  "nso_image st = plain_example_image g \<Longrightarrow> dyn_info st = DynInfo_zero \<Longrightarrow>
   Load_dynamic 8 st =
     Some (st\<lparr>dynamic := 36, dyn_info := DynInfo_zero\<lparr>rela := 16, relasz := 24, init_array := 8\<rparr>\<rparr>)"
  by (simp add: Load_dynamic_def plain_example_ModHeader plain_example_parse_dynamic
      del: parse_dynamic.simps)

lemma plain_example_no_G: "g \<noteq> 0x47 \<Longrightarrow> 0x47 \<notin> set (plain_example_image g)"
  by (simp add: plain_example_image_bytes)

lemma plain_example_note:
  assumes "nso_image st = plain_example_image g" and "header st = plain_example_header fs"
    and "g \<noteq> 0x47"
  shows "Load_note st = Some (st\<lparr>note_ptr := None\<rparr>)"
proof -
  have "find_note (nso_image st) (segments (header st)) [kRodata, kText, kData] = Some None"
    unfolding assms
    by (rule find_note_absent_byte [OF plain_example_no_G [OF assms(3)]])
       (simp add: plain_example_header_def length_plain_example_image)
  then show ?thesis by (simp add: Load_note_def)
qed

lemma plain_example_Load:
  assumes fs: "fs = 100 \<or> fs = 101" and g: "g \<noteq> 0x47"
  shows "Load lz4 (plain_example_file fs g) (NsoFile_new plt0) =
     Some (True, plain_example_state plt0 fs (if fs = 100 then 0 else g))"
proof -
  define g' where "g' = (if fs = 100 then 0 else g)"
  have g': "g' \<noteq> 0x47" using g by (simp add: g'_def)
  let ?st1 = "(NsoFile_new plt0)\<lparr>header := plain_example_header fs,
        nso_image := plain_example_image g', file_type := kNso\<rparr>"
  let ?st3 = "(NsoFile_new plt0)\<lparr>header := plain_example_header fs,
        nso_image := plain_example_image g', file_type := kNso, dynamic := 36,
        dyn_info := DynInfo_zero\<lparr>rela := 16, relasz := 24, init_array := 8\<rparr>\<rparr>"
  have c: "Load_container lz4 (plain_example_file fs g) (NsoFile_new plt0) = Some (True, ?st1)"
    unfolding g'_def by (rule plain_example_container [OF fs])
  have m: "Load_mod (plain_example_file fs g) ?st1 = Some (True, ?st1, 8)"
    by (rule plain_example_mod) simp_all
  have d: "Load_dynamic 8 ?st1 = Some ?st3"
    using plain_example_dynamic [of ?st1 g'] by (simp add: NsoFile_new_def)
  have p: "ResolvePlt a b ?st3 = Some (False, ?st3)" for a b
    by (simp add: ResolvePlt_def NsoFile_new_def DynInfo_zero_def)
  have n: "Load_note ?st3 = Some (?st3\<lparr>note_ptr := None\<rparr>)"
    by (rule plain_example_note [OF _ _ g']) simp_all
  have e: "Load_eh 8 (?st3\<lparr>note_ptr := None\<rparr>) = plain_example_state plt0 fs g'"
    by (simp add: Load_eh_def plain_example_state_def NsoFile_new_def plain_example_ModHeader
        mod_get_offset_def)
  show ?thesis
    unfolding Load_def c g'_def [symmetric]
    by (simp add: m d p n e del: Load_eh_def)
qed

text \<open>
  C8 as stated fails: the stored NSO example has no compressed segment, its \<^verbatim>\<open>.text\<close> is 100
  bytes at offset 0 and its \<^verbatim>\<open>.rodata\<close> starts at offset 112, as the header of the file says,
  and \<^verbatim>\<open>Load\<close> returns true.
\<close>

theorem Load_segments_contiguous_counterexample:
  "\<exists>st. Load lz4_example (plain_example_file 100 0) (NsoFile_new \<lparr>plt_addr = 0, plt_size = 0\<rparr>) =
          Some (True, st) \<and>
        flags (parse_NsoHeader (plain_example_file 100 0)) = 0 \<and>
        mem_offset (segments (header st) ! 0) + mem_size (segments (header st) ! 0) = 100 \<and>
        mem_offset (segments (header st) ! 1) = 112 \<and>
        mem_offset (segments (header st) ! 1) \<noteq>
          mem_offset (segments (header st) ! 0) + mem_size (segments (header st) ! 0)"
  using plain_example_Load [of 100 0 lz4_example "\<lparr>plt_addr = 0, plt_size = 0\<rparr>"]
  by (simp add: plain_example_state_def plain_example_header_def parse_plain_example
      NsoHeader_zero_def)

lemma uncompressed_plain_example_header:
  "uncompressed_header (plain_example_header fs) = plain_example_header 100"
  by (simp add: uncompressed_header_def plain_example_header_def NsoHeader_zero_def)

lemma plain_example_Write:
  "WriteUncompressedNso (plain_example_state plt0 fs g) = Some (plain_example_file 100 g)"
  by (simp add: WriteUncompressedNso_def plain_example_state_def uncompressed_plain_example_header
      read_bytes_def length_plain_example_image plain_example_file_def)
     (simp add: plain_example_header_def plain_example_image_def length_plain_example_text)

lemma plain_example_file_neq: "plain_example_file 100 0 \<noteq> plain_example_file 100 0xAA"
  by (simp add: plain_example_file_def)

text \<open>
C9 as stated fails: the stored example with a \<^verbatim>\<open>.text\<close> file size of 101 copies the byte \<open>0xAA\<close>
  behind its \<^verbatim>\<open>.text\<close> (100 bytes) into the image, the writer writes it, the second load copies
  only \<^verbatim>\<open>mem_size\<close> bytes, and the second output has 0 there.
\<close>

theorem WriteUncompressedNso_twice_counterexample:
  "\<exists>st1 out1 st2 out2.
     is_nso (plain_example_file 101 0xAA) \<and>
     Load lz4_example (plain_example_file 101 0xAA) (NsoFile_new \<lparr>plt_addr = 0, plt_size = 0\<rparr>) =
       Some (True, st1) \<and>
     WriteUncompressedNso st1 = Some out1 \<and>
     Load lz4_example out1 (NsoFile_new \<lparr>plt_addr = 0, plt_size = 0\<rparr>) = Some (True, st2) \<and>
     WriteUncompressedNso st2 = Some out2 \<and> out2 \<noteq> out1"
proof -
  let ?p = "\<lparr>plt_addr = 0, plt_size = 0\<rparr>"
  have 1: "Load lz4_example (plain_example_file 101 0xAA) (NsoFile_new ?p) =
             Some (True, plain_example_state ?p 101 0xAA)"
    using plain_example_Load [of 101 "0xAA" lz4_example ?p] by simp
  have 2: "Load lz4_example (plain_example_file 100 0xAA) (NsoFile_new ?p) =
             Some (True, plain_example_state ?p 100 0)"
    using plain_example_Load [of 100 "0xAA" lz4_example ?p] by simp
  from 1 2 plain_example_Write [of ?p 101 "0xAA"] plain_example_Write [of ?p 100 0]
    plain_example_file_neq is_nso_plain_example [of 101 "0xAA"]
  show ?thesis by blast
qed

section \<open>The uncompressed-NSO writer, run twice\<close>

lemma length_overwrite:
  "off + length bs \<le> length buf \<Longrightarrow> length (overwrite buf off bs) = length buf"
  by (simp add: overwrite_def)

lemma nth_overwrite:
  "off + length bs \<le> length buf \<Longrightarrow> j < length buf \<Longrightarrow>
   overwrite buf off bs ! j = (if off \<le> j \<and> j < off + length bs then bs ! (j - off) else buf ! j)"
  by (auto simp: overwrite_def nth_append)

lemma Load_nso_segments_outside:
  assumes "Load_nso_segments lz4 file h idxs img = Some (ok, img')"
    and "\<forall>i \<in> set idxs. (flags h AND push_bit i 1) \<noteq> 0 \<or>
           segment_file_sizes h ! i \<le> mem_size (segments h ! i)"
  shows "length img' = length img \<and>
         (\<forall>j < length img. j \<notin> (\<Union>i \<in> set idxs. seg_range h i) \<longrightarrow> img' ! j = img ! j)"
  using assms
proof (induction idxs arbitrary: img)
  case Nil
  then show ?case by simp
next
  case (Cons i idxs)
  let ?mo = "unat (mem_offset (segments h ! i))"
  let ?ms = "unat (mem_size (segments h ! i))"
  have "\<exists>bs img1. length bs \<le> ?ms \<and> ?mo + length bs \<le> length img \<and> img1 = overwrite img ?mo bs \<and>
          (img' = img1 \<or> Load_nso_segments lz4 file h idxs img1 = Some (ok, img'))"
  proof (cases "(flags h AND push_bit i 1) \<noteq> 0")
    case True
    with Cons.prems(1) obtain len stored where
      w: "?mo + length (take ?ms stored) \<le> length img"
      and d: "img' = overwrite img ?mo (take ?ms stored) \<or>
              Load_nso_segments lz4 file h idxs (overwrite img ?mo (take ?ms stored)) = Some (ok, img')"
      by (auto simp: Let_def Decompress_def read_bytes_def write_bytes_def
          split: Option.bind_splits if_splits prod.splits)
    have "length (take ?ms stored) \<le> ?ms" by simp
    with w d show ?thesis by blast
  next
    case False
    with Cons.prems(2) have le: "unat (segment_file_sizes h ! i) \<le> ?ms"
      by (simp add: word_le_nat_alt)
    let ?bs = "take (unat (segment_file_sizes h ! i)) (drop (unat (file_offset (segments h ! i))) file)"
    from le False Cons.prems(1) have
      "length ?bs \<le> ?ms" "?mo + length ?bs \<le> length img"
      "Load_nso_segments lz4 file h idxs (overwrite img ?mo ?bs) = Some (ok, img')"
      by (auto simp: Let_def read_bytes_def write_bytes_def
          split: Option.bind_splits if_splits)
    then show ?thesis by blast
  qed
  then obtain bs img1 where bs: "length bs \<le> ?ms" "?mo + length bs \<le> length img"
    and img1: "img1 = overwrite img ?mo bs"
    and r: "img' = img1 \<or> Load_nso_segments lz4 file h idxs img1 = Some (ok, img')"
    by blast
  have l1: "length img1 = length img" unfolding img1 by (rule length_overwrite [OF bs(2)])
  have o1: "img1 ! j = img ! j" if "j < length img" "j \<notin> seg_range h i" for j
    using that bs unfolding img1 seg_range_def by (auto simp: nth_overwrite)
  from r show ?case
  proof
    assume "img' = img1"
    with l1 o1 show ?thesis by simp
  next
    assume "Load_nso_segments lz4 file h idxs img1 = Some (ok, img')"
    from Cons.IH [OF this] Cons.prems(2)
    have "length img' = length img1"
      "\<forall>j < length img1. j \<notin> (\<Union>i \<in> set idxs. seg_range h i) \<longrightarrow> img' ! j = img1 ! j"
      by simp_all
    with l1 o1 show ?thesis by simp
  qed
qed

lemma Load_nso_segments_copy:
  assumes "\<forall>i \<in> set idxs. (flags h AND push_bit i 1) = 0 \<and>
             read_bytes file (unat (file_offset (segments h ! i))) (unat (segment_file_sizes h ! i)) =
               Some (take (unat (mem_size (segments h ! i)))
                       (drop (unat (mem_offset (segments h ! i))) src)) \<and>
             unat (mem_offset (segments h ! i)) + unat (mem_size (segments h ! i)) \<le> length src"
    and "length img = length src"
  shows "\<exists>img'. Load_nso_segments lz4 file h idxs img = Some (True, img') \<and>
           length img' = length src \<and>
           (\<forall>j < length src. img' ! j =
              (if j \<in> (\<Union>i \<in> set idxs. seg_range h i) then src ! j else img ! j))"
  using assms
proof (induction idxs arbitrary: img)
  case Nil
  then show ?case by simp
next
  case (Cons i idxs)
  let ?mo = "unat (mem_offset (segments h ! i))"
  let ?ms = "unat (mem_size (segments h ! i))"
  let ?bs = "take ?ms (drop ?mo src)"
  let ?img1 = "overwrite img ?mo ?bs"
  from Cons.prems have i: "(flags h AND push_bit i 1) = 0"
    "read_bytes file (unat (file_offset (segments h ! i))) (unat (segment_file_sizes h ! i)) = Some ?bs"
    "?mo + ?ms \<le> length src" by simp_all
  have lb: "length ?bs = ?ms" using i(3) by simp
  have l1: "length ?img1 = length src"
    using length_overwrite [of ?mo ?bs img] lb i(3) Cons.prems(2) by simp
  have s: "Load_nso_segments lz4 file h (i # idxs) img = Load_nso_segments lz4 file h idxs ?img1"
    using i lb Cons.prems(2) by (simp add: Let_def write_bytes_def)
  from Cons.IH [of ?img1] Cons.prems(1) l1 obtain img' where
    r: "Load_nso_segments lz4 file h idxs ?img1 = Some (True, img')" "length img' = length src"
    "\<forall>j < length src. img' ! j =
        (if j \<in> (\<Union>i \<in> set idxs. seg_range h i) then src ! j else ?img1 ! j)"
    by auto
  have o: "?img1 ! j = (if j \<in> seg_range h i then src ! j else img ! j)" if "j < length src" for j
    using that lb i(3) Cons.prems(2) unfolding seg_range_def
    by (auto simp: nth_overwrite)
  from r o s show ?case by auto
qed

lemma Load_mod_header:
  "file_type st \<noteq> kUnknown \<Longrightarrow> Load_mod file st = Some (ok, st', mod_base) \<Longrightarrow>
   Load_mod file' (st\<lparr>header := h'\<rparr>) = Some (ok, st'\<lparr>header := h'\<rparr>, mod_base)"
  by (auto simp: Load_mod_def split: Option.bind_splits if_splits)

lemma Load_dynamic_header:
  "Load_dynamic mod_base st = Some st' \<Longrightarrow>
   Load_dynamic mod_base (st\<lparr>header := h'\<rparr>) = Some (st'\<lparr>header := h'\<rparr>)"
  by (auto simp: Load_dynamic_def Let_def split: Option.bind_splits if_splits)

lemma ResolvePlt_header:
  "ResolvePlt base len st = Some (found, st') \<Longrightarrow>
   ResolvePlt base len (st\<lparr>header := h'\<rparr>) = Some (found, st'\<lparr>header := h'\<rparr>)"
  by (auto simp: ResolvePlt_def Let_def split: Option.bind_splits if_splits option.splits)

lemma find_note_cong:
  "\<forall>i \<in> set idxs. mem_offset (segs' ! i) = mem_offset (segs ! i) \<and>
                   mem_size (segs' ! i) = mem_size (segs ! i) \<Longrightarrow>
   find_note img segs' idxs = find_note img segs idxs"
  by (induction idxs) (simp_all cong: option.case_cong)

lemma Load_note_header:
  assumes "Load_note st = Some st'" and "file_type st \<noteq> kMod"
    and "\<forall>i \<in> {0, 1, 2}. mem_offset (segments h' ! i) = mem_offset (segments (header st) ! i) \<and>
                   mem_size (segments h' ! i) = mem_size (segments (header st) ! i)"
  shows "Load_note (st\<lparr>header := h'\<rparr>) = Some (st'\<lparr>header := h'\<rparr>)"
proof -
  define idxs where "idxs = [kRodata, kText, kData]"
  have f: "find_note (nso_image st) (segments h') idxs =
        find_note (nso_image st) (segments (header st)) idxs"
    by (rule find_note_cong) (use assms(3) in \<open>simp add: idxs_def\<close>)
  from assms(1) obtain found where
    n: "find_note (nso_image st) (segments (header st)) idxs = Some found"
    and st': "st' = st\<lparr>note_ptr := found\<rparr>"
    unfolding Load_note_def idxs_def [symmetric] using assms(2)
    by (auto split: Option.bind_splits option.splits)
  show ?thesis
    unfolding Load_note_def idxs_def [symmetric] using assms(2)
    by (simp add: f n st' split: option.splits)
qed

lemma Load_eh_header:
  "Load_eh mod_base (st\<lparr>header := h'\<rparr>) = (Load_eh mod_base st)\<lparr>header := h'\<rparr>"
  by (simp add: Load_eh_def Let_def)

lemma wf_parse_NsoHeader: "0x100 \<le> length bs \<Longrightarrow> wf_NsoHeader (parse_NsoHeader bs)"
  by (simp add: wf_NsoHeader_def parse_NsoHeader_def)

lemma wf_uncompressed_header: "wf_NsoHeader h \<Longrightarrow> wf_NsoHeader (uncompressed_header h)"
  by (simp add: wf_NsoHeader_def uncompressed_header_def Let_def)

lemma uncompressed_header_segments:
  assumes "segments h = [s0, s1, s2]"
  shows "segments (uncompressed_header h) =
           [s0\<lparr>file_offset := mem_offset s0 + 0x100, bss_align := 0x100\<rparr>,
            s1\<lparr>file_offset := mem_offset s1 + 0x100, bss_align := 0\<rparr>,
            s2\<lparr>file_offset := mem_offset s2 + 0x100\<rparr>]"
    and "segment_file_sizes (uncompressed_header h) = [mem_size s0, mem_size s1, mem_size s2]"
    and "flags (uncompressed_header h) = flags h AND 0xf8"
    and "magic (uncompressed_header h) = magic h"
  using assms by (simp_all add: uncompressed_header_def Let_def)

lemma and_f8_idem: "((f :: u32) AND 0xf8) AND 0xf8 = f AND 0xf8"
  by (simp add: and.assoc)

lemma uncompressed_header_idem:
  assumes "length (segments h) = 3"
  shows "uncompressed_header (uncompressed_header h) = uncompressed_header h"
proof -
  from assms obtain s0 s1 s2 where s: "segments h = [s0, s1, s2]" by (auto dest!: length3E)
  show ?thesis
    by (simp add: uncompressed_header_def Let_def s and_f8_idem)
qed

lemma flags_cleared:
  assumes "i \<in> {0, 1, 2}"
  shows "((f :: u32) AND 0xf8) AND push_bit i 1 = 0"
proof -
  from assms have "(0xf8 :: u32) AND push_bit i 1 = 0"
    by (elim insertE emptyE) simp_all
  then show ?thesis by (simp add: and.assoc)
qed

lemma Load_container_nso:
  assumes "is_nso file" and "Load_container lz4 file st0 = Some (True, st1)"
  obtains img where
    "Load_nso_segments lz4 file (parse_NsoHeader file) [0, 1, 2]
       (replicate (unat (mem_offset (segments (parse_NsoHeader file) ! kData) +
                         mem_size (segments (parse_NsoHeader file) ! kData) +
                         bss_align (segments (parse_NsoHeader file) ! kData))) 0) = Some (True, img)"
    "st1 = st0\<lparr>header := parse_NsoHeader file, nso_image := img, file_type := kNso\<rparr>"
  using assms
  by (auto simp: Load_container_def Let_def split: Option.bind_splits if_splits
      simp del: Load_nso_segments.simps)

lemma Load_nso_stages:
  assumes "Load lz4 file st0 = Some (True, st)" and "is_nso file"
  obtains img mod_base st3 found st4 st5 where
    "Load_nso_segments lz4 file (parse_NsoHeader file) [0, 1, 2]
       (replicate (unat (mem_offset (segments (parse_NsoHeader file) ! kData) +
                         mem_size (segments (parse_NsoHeader file) ! kData) +
                         bss_align (segments (parse_NsoHeader file) ! kData))) 0) = Some (True, img)"
    "Load_container lz4 file st0 =
       Some (True, st0\<lparr>header := parse_NsoHeader file, nso_image := img, file_type := kNso\<rparr>)"
    "Load_mod file (st0\<lparr>header := parse_NsoHeader file, nso_image := img, file_type := kNso\<rparr>) =
       Some (True, st0\<lparr>header := parse_NsoHeader file, nso_image := img, file_type := kNso\<rparr>, mod_base)"
    "Load_dynamic mod_base (st0\<lparr>header := parse_NsoHeader file, nso_image := img, file_type := kNso\<rparr>) =
       Some st3"
    "ResolvePlt (unat (mem_offset (segments (header st3) ! kText)))
                 (unat (mem_size (segments (header st3) ! kText))) st3 = Some (found, st4)"
    "Load_note st4 = Some st5" "st = Load_eh mod_base st5"
    "header st3 = parse_NsoHeader file" "header st4 = parse_NsoHeader file"
    "file_type st4 = kNso" "header st5 = parse_NsoHeader file" "nso_image st5 = img"
proof -
  obtain st1 st2 mod_base st3 st4 st5 where
    c: "Load_container lz4 file st0 = Some (True, st1)"
    and m: "Load_mod file st1 = Some (True, st2, mod_base)"
    and d: "Load_dynamic mod_base st2 = Some st3"
    and r: "file_type st3 \<noteq> kMod \<Longrightarrow>
         \<exists>found. ResolvePlt (unat (mem_offset (segments (header st3) ! kText)))
                 (unat (mem_size (segments (header st3) ! kText))) st3 = Some (found, st4)"
    and n: "Load_note st4 = Some st5"
    and e: "st = Load_eh mod_base st5"
    by (rule Load_TrueE [OF assms(1)]) blast
  obtain img where
    i: "Load_nso_segments lz4 file (parse_NsoHeader file) [0, 1, 2]
       (replicate (unat (mem_offset (segments (parse_NsoHeader file) ! kData) +
                         mem_size (segments (parse_NsoHeader file) ! kData) +
                         bss_align (segments (parse_NsoHeader file) ! kData))) 0) = Some (True, img)"
    and st1: "st1 = st0\<lparr>header := parse_NsoHeader file, nso_image := img, file_type := kNso\<rparr>"
    by (rule Load_container_nso [OF assms(2) c])
  from Load_mod_frame [OF m] st1 have st2: "st2 = st1" by simp
  from Load_dynamic_frame [OF d] st2 st1 have
    3: "header st3 = parse_NsoHeader file" "file_type st3 = kNso" "nso_image st3 = img" by simp_all
  then have "file_type st3 \<noteq> kMod" by simp
  from r [OF this] obtain found where
    p: "ResolvePlt (unat (mem_offset (segments (header st3) ! kText)))
                 (unat (mem_size (segments (header st3) ! kText))) st3 = Some (found, st4)" ..
  from ResolvePlt_frame [OF p] 3 have
    4: "header st4 = parse_NsoHeader file" "file_type st4 = kNso" "nso_image st4 = img" by simp_all
  from n 4 have 5: "header st5 = parse_NsoHeader file" "nso_image st5 = img"
    by (auto simp: Load_note_def split: Option.bind_splits option.splits if_splits)
  show ?thesis
    using that [OF i c [unfolded st1] m [unfolded st2 st1] d [unfolded st2 st1] p n e 3(1) 4(1) 4(2) 5] .
qed

lemma read_bytes_after_header:
  assumes "length H = 256" and "mo + ms \<le> S" and "S \<le> length img"
  shows "read_bytes (H @ take S img) (mo + 256) ms = Some (take ms (drop mo img))"
proof -
  have "take ms (drop mo (take S img)) = take ms (drop mo img)"
    using assms(2) by (simp add: drop_take min_def)
  with assms show ?thesis by (simp add: read_bytes_def)
qed

text \<open>
C9, amended. For an NSO whose segments lie inside the written prefix of the image and whose
  stored segments are not longer in the file than in memory, loading the file that
  \<^verbatim>\<open>WriteUncompressedNso\<close> wrote succeeds, and writing again gives the same bytes.
\<close>

theorem WriteUncompressedNso_idempotent:
  assumes nso: "is_nso file"
    and L1: "Load lz4 file st0 = Some (True, st1)"
    and W1: "WriteUncompressedNso st1 = Some out1"
    and reg: "nso_stored_within (parse_NsoHeader file)"
  shows "\<exists>st2. Load lz4 out1 st0 = Some (True, st2) \<and> WriteUncompressedNso st2 = Some out1"
proof -
  define h where "h = parse_NsoHeader file"
  define uh where "uh = uncompressed_header h"
  from nso have wf: "wf_NsoHeader h"
    unfolding h_def is_nso_def by (simp add: wf_parse_NsoHeader)
  then obtain s0 s1 s2 where segs: "segments h = [s0, s1, s2]"
    unfolding wf_NsoHeader_def by (auto dest!: length3E)
  note us = uncompressed_header_segments [OF segs, folded uh_def]
  have wfu: "wf_NsoHeader uh" unfolding uh_def by (rule wf_uncompressed_header [OF wf])
  define S where "S = unat (mem_offset s2 + mem_size s2)"
  define L where "L = unat (mem_offset s2 + mem_size s2 + bss_align s2)"
  obtain img mod_base st3 found st4 st5 where
    i0: "Load_nso_segments lz4 file h [0, 1, 2]
       (replicate (unat (mem_offset (segments h ! kData) + mem_size (segments h ! kData) +
                         bss_align (segments h ! kData))) 0) = Some (True, img)"
    and c: "Load_container lz4 file st0 =
       Some (True, st0\<lparr>header := h, nso_image := img, file_type := kNso\<rparr>)"
    and m: "Load_mod file (st0\<lparr>header := h, nso_image := img, file_type := kNso\<rparr>) =
       Some (True, st0\<lparr>header := h, nso_image := img, file_type := kNso\<rparr>, mod_base)"
    and d: "Load_dynamic mod_base (st0\<lparr>header := h, nso_image := img, file_type := kNso\<rparr>) =
       Some st3"
    and p: "ResolvePlt (unat (mem_offset (segments (header st3) ! kText)))
                 (unat (mem_size (segments (header st3) ! kText))) st3 = Some (found, st4)"
    and n: "Load_note st4 = Some st5" and e: "st1 = Load_eh mod_base st5"
    and hd: "header st3 = h" "header st4 = h" "file_type st4 = kNso" "header st5 = h"
    and im: "nso_image st5 = img"
    unfolding h_def by (rule Load_nso_stages [OF L1 nso]) blast
  from i0 have i1: "Load_nso_segments lz4 file h [0, 1, 2] (replicate L 0) = Some (True, img)"
    unfolding L_def by (simp add: segs del: Load_nso_segments.simps)
  have h1: "header st1 = h" "nso_image st1 = img"
    unfolding e using Load_eh_frame [of mod_base st5] hd im by simp_all
  from reg have r: "S + 0x100 < 2 ^ 32"
    "\<forall>i \<in> {0, 1, 2}. unat (mem_offset (segments h ! i)) + unat (mem_size (segments h ! i)) \<le> S"
    "\<forall>i \<in> set [0, 1, 2]. (flags h AND push_bit i 1) \<noteq> 0 \<or>
           segment_file_sizes h ! i \<le> mem_size (segments h ! i)"
    unfolding h_def [symmetric] nso_stored_within_def Let_def S_def
    by (simp_all add: segs)
  from Load_nso_segments_outside [OF i1 r(3)]
  have li: "length img = L"
    and z: "\<forall>j < L. j \<notin> (\<Union>i \<in> set [0, 1, 2]. seg_range h i) \<longrightarrow> img ! j = 0"
    by simp_all
  from W1 have SL: "S \<le> length img" and out1: "out1 = ser_NsoHeader uh @ take S img"
    unfolding WriteUncompressedNso_def Let_def h1 uh_def [symmetric] S_def
    by (auto simp: us read_bytes_def split: Option.bind_splits if_splits)
  have lh: "length (ser_NsoHeader uh) = 256"
    using length_ser_NsoHeader [OF wfu] by simp
  have mg: "magic h = nso_magic" using nso unfolding h_def is_nso_def parse_NsoHeader_def by simp
  have nso2: "is_nso out1"
  proof -
    have "length (magic uh) = 4" using wfu unfolding wf_NsoHeader_def by simp
    then have "take 4 (ser_NsoHeader uh) = magic uh" by (simp add: ser_NsoHeader_def)
    with lh have "take 4 out1 = magic uh" unfolding out1 by simp
    with us(4) mg lh show ?thesis unfolding is_nso_def out1 by simp
  qed
  have p2: "parse_NsoHeader out1 = uh"
    unfolding out1 by (rule parse_ser_NsoHeader [OF wfu])
  have rng: "seg_range uh i = seg_range h i" if "i \<in> {0, 1, 2}" for i
    using that unfolding seg_range_def by (auto simp: us segs)
  have cp: "\<forall>i \<in> set [0, 1, 2]. (flags uh AND push_bit i 1) = 0 \<and>
             read_bytes out1 (unat (file_offset (segments uh ! i))) (unat (segment_file_sizes uh ! i)) =
               Some (take (unat (mem_size (segments uh ! i)))
                       (drop (unat (mem_offset (segments uh ! i))) img)) \<and>
             unat (mem_offset (segments uh ! i)) + unat (mem_size (segments uh ! i)) \<le> length img"
  proof
    fix i :: nat assume "i \<in> set [0, 1, 2]"
    then have i: "i \<in> {0, 1, 2}" by simp
    have f: "(flags uh AND push_bit i 1) = 0" unfolding us by (rule flags_cleared [OF i])
    define mo where "mo = mem_offset (segments h ! i)"
    define ms where "ms = mem_size (segments h ! i)"
    from r(2) i have b: "unat mo + unat ms \<le> S" unfolding mo_def ms_def by blast
    from i have u: "mem_offset (segments uh ! i) = mo" "mem_size (segments uh ! i) = ms"
      "file_offset (segments uh ! i) = mo + 0x100" "segment_file_sizes uh ! i = ms"
      unfolding mo_def ms_def by (auto simp: us segs)
    have "unat (mo + 0x100) = unat mo + 256"
      using b r(1) by (simp add: unat_word_ariths)
    with read_bytes_after_header [OF lh b SL] b SL f show
      "(flags uh AND push_bit i 1) = 0 \<and>
             read_bytes out1 (unat (file_offset (segments uh ! i))) (unat (segment_file_sizes uh ! i)) =
               Some (take (unat (mem_size (segments uh ! i)))
                       (drop (unat (mem_offset (segments uh ! i))) img)) \<and>
             unat (mem_offset (segments uh ! i)) + unat (mem_size (segments uh ! i)) \<le> length img"
      unfolding u out1 by simp
  qed
  from Load_nso_segments_copy [OF cp, of "replicate L 0" lz4] li obtain img2 where
    i2: "Load_nso_segments lz4 out1 uh [0, 1, 2] (replicate L 0) = Some (True, img2)"
    and l2: "length img2 = L"
    and v2: "\<forall>j < L. img2 ! j =
              (if j \<in> (\<Union>i \<in> set [0, 1, 2]. seg_range uh i) then img ! j else replicate L 0 ! j)"
    by auto
  have "img2 = img"
  proof (rule nth_equalityI)
    show "length img2 = length img" using l2 li by simp
  next
    fix j assume "j < length img2"
    then have j: "j < L" using l2 by simp
    have "(\<Union>i \<in> set [0, 1, 2]. seg_range uh i) = (\<Union>i \<in> set [0, 1, 2]. seg_range h i)"
      using rng by simp
    with v2 z j show "img2 ! j = img ! j" by auto
  qed
  with i2 have i2': "Load_nso_segments lz4 out1 uh [0, 1, 2] (replicate L 0) = Some (True, img)"
    by simp
  let ?sc = "st0\<lparr>header := h, nso_image := img, file_type := kNso\<rparr>"
  have sc: "st0\<lparr>header := uh, nso_image := img, file_type := kNso\<rparr> = ?sc\<lparr>header := uh\<rparr>"
    by simp
  have c2: "Load_container lz4 out1 st0 = Some (True, ?sc\<lparr>header := uh\<rparr>)"
    unfolding sc [symmetric] Load_container_def
    using nso2 i2' by (simp add: p2 us L_def del: Load_nso_segments.simps)
  have m2: "Load_mod out1 (?sc\<lparr>header := uh\<rparr>) = Some (True, ?sc\<lparr>header := uh\<rparr>, mod_base)"
    by (rule Load_mod_header [OF _ m]) simp
  have d2: "Load_dynamic mod_base (?sc\<lparr>header := uh\<rparr>) = Some (st3\<lparr>header := uh\<rparr>)"
    by (rule Load_dynamic_header [OF d])
  have t3: "file_type (st3\<lparr>header := uh\<rparr>) \<noteq> kMod"
    using Load_dynamic_frame [OF d] by simp
  have tx: "mem_offset (segments uh ! kText) = mem_offset (segments h ! kText)"
    "mem_size (segments uh ! kText) = mem_size (segments h ! kText)"
    by (simp_all add: us segs)
  have p2': "ResolvePlt (unat (mem_offset (segments (header (st3\<lparr>header := uh\<rparr>)) ! kText)))
                 (unat (mem_size (segments (header (st3\<lparr>header := uh\<rparr>)) ! kText)))
                 (st3\<lparr>header := uh\<rparr>) = Some (found, st4\<lparr>header := uh\<rparr>)"
    using ResolvePlt_header [OF p, of uh] hd tx by (simp del: kText_def)
  have n2: "Load_note (st4\<lparr>header := uh\<rparr>) = Some (st5\<lparr>header := uh\<rparr>)"
  proof (rule Load_note_header [OF n])
    show "file_type st4 \<noteq> kMod" using hd by simp
    show "\<forall>i\<in>{0, 1, 2}. mem_offset (segments uh ! i) = mem_offset (segments (header st4) ! i) \<and>
                    mem_size (segments uh ! i) = mem_size (segments (header st4) ! i)"
      unfolding hd by (auto simp: us segs)
  qed
  have L2: "Load lz4 out1 st0 = Some (True, st1\<lparr>header := uh\<rparr>)"
    unfolding Load_def c2 e Load_eh_header [symmetric]
    using m2 d2 t3 p2' n2 by (simp del: kText_def Load_eh_def)
  have "uncompressed_header uh = uh"
    unfolding uh_def by (rule uncompressed_header_idem) (simp add: segs)
  then have W2: "WriteUncompressedNso (st1\<lparr>header := uh\<rparr>) = Some out1"
    using W1 unfolding WriteUncompressedNso_def Let_def by (simp add: h1 uh_def)
  from L2 W2 show ?thesis by blast
qed

lemma nso_example_stored_within: "nso_stored_within (parse_NsoHeader nso_example_file)"
  by (simp add: parse_nso_example nso_stored_within_def nso_example_header_def NsoHeader_zero_def
      word_le_nat_alt)

lemma nso_example_Write:
  "\<exists>out1. WriteUncompressedNso (nso_example_state plt0) = Some out1"
  by (simp add: WriteUncompressedNso_def nso_example_state_def uncompressed_header_def
      nso_example_header_def NsoHeader_zero_def read_bytes_def nso_example_image_def
      length_nso_example_text Let_def)

text \<open>
The NSO example with the compressed \<^verbatim>\<open>.rodata\<close>.
\<close>

theorem WriteUncompressedNso_idempotent_witness:
  "is_nso nso_example_file \<and> nso_stored_within (parse_NsoHeader nso_example_file) \<and>
   (\<exists>st1 out1 st2.
      Load lz4_example nso_example_file (NsoFile_new \<lparr>plt_addr = 0, plt_size = 0\<rparr>) =
        Some (True, st1) \<and>
      WriteUncompressedNso st1 = Some out1 \<and>
      Load lz4_example out1 (NsoFile_new \<lparr>plt_addr = 0, plt_size = 0\<rparr>) = Some (True, st2) \<and>
      WriteUncompressedNso st2 = Some out1)"
proof -
  let ?p = "\<lparr>plt_addr = 0, plt_size = 0\<rparr>"
  have L: "Load lz4_example nso_example_file (NsoFile_new ?p) = Some (True, nso_example_state ?p)"
    by (rule nso_example_Load)
  obtain out1 where W: "WriteUncompressedNso (nso_example_state ?p) = Some out1"
    using nso_example_Write by blast
  from WriteUncompressedNso_idempotent [OF is_nso_example L W nso_example_stored_within]
    is_nso_example nso_example_stored_within L W
  show ?thesis by blast
qed

section \<open>The emitter's plan for the examples\<close>

lemma plain_example_iter_dynsym: "iter_dynsym (plain_example_state plt0 fs g) = Some []"
  by (simp add: iter_dynsym_def plain_example_state_def plain_example_header_def
      NsoHeader_zero_def read_bytes_def DynInfo_zero_def)

lemma plain_example_state_segments:
  "segments (header (plain_example_state plt0 fs g)) =
     [\<lparr>file_offset = 0x100, mem_offset = 0, mem_size = 100, bss_align = 0x100\<rparr>,
      \<lparr>file_offset = 0x170, mem_offset = 112, mem_size = 4, bss_align = 0\<rparr>,
      \<lparr>file_offset = 0x174, mem_offset = 116, mem_size = 4, bss_align = 8\<rparr>]"
  by (simp add: plain_example_state_def plain_example_header_def)

lemma plain_example_profile:
  "WriteElf_profile (plain_example_state plt0 fs g) =
     Some (1, elf_example_known 0 0 0,
           \<lparr>entries = take 6 elf_example_names, watermark = 36, strtab_offset = 0,
            strtab_size = 0, buffer = []\<rparr>)"
  by (simp add: WriteElf_profile_def plain_example_iter_dynsym plain_example_state_segments
      add_known_segment_def vaddr_to_shdr_def vaddr_to_shdr_step_def AddString_def GetOffset_def
      StringTable_new_def next_free_def Elf64_Shdr_zero_def elf_example_known_def
      elf_example_names_def SHT_PROGBITS_def SHT_NOBITS_def SHF_ALLOC_def SHF_WRITE_def
      SHF_EXECINSTR_def Let_def word_le_nat_alt word_less_nat_alt)

lemma plain_example_state_fields:
  "dyn_info (plain_example_state plt0 fs g) =
     DynInfo_zero\<lparr>rela := 16, relasz := 24, init_array := 8\<rparr>"
  "plt_info (plain_example_state plt0 fs g) = plt0"
  "eh_info (plain_example_state plt0 fs g) =
     \<lparr>hdr_addr = 8, hdr_size = 0, frame_addr = 0, frame_size = 0\<rparr>"
  "note_ptr (plain_example_state plt0 fs g) = None" "dynamic (plain_example_state plt0 fs g) = 36"
  "nso_image (plain_example_state plt0 fs g) = plain_example_image g"
  "file_type (plain_example_state plt0 fs g) = kNso"
  by (simp_all add: plain_example_state_def NsoFile_new_def)

lemma elf_example_names4:
  "AddString ''.rela.dyn'' (AddString ''.dynamic'' (AddString ''.dynsym'' (AddString ''.dynstr''
     \<lparr>entries = take 6 elf_example_names, watermark = 36, strtab_offset = 0, strtab_size = 0,
      buffer = []\<rparr>))) =
   \<lparr>entries = elf_example_names, watermark = 71, strtab_offset = 0, strtab_size = 0, buffer = []\<rparr>"
  by (simp add: AddString_def elf_example_names_def)

lemma elf_example_names5:
  "AddString ''.plt''
     \<lparr>entries = elf_example_names, watermark = 71, strtab_offset = 0, strtab_size = 0, buffer = []\<rparr> =
   \<lparr>entries = elf_example_names @ [(''.plt'', 71)], watermark = 76, strtab_offset = 0,
    strtab_size = 0, buffer = []\<rparr>"
  by (simp add: AddString_def elf_example_names_def)

lemma elf_example_GetBuffer:
  "GetBuffer \<lparr>entries = elf_example_names, watermark = 71, strtab_offset = 0, strtab_size = 0,
     buffer = []\<rparr> = Some elf_example_name_bytes"
  "GetBuffer \<lparr>entries = elf_example_names @ [(''.plt'', 71)], watermark = 76, strtab_offset = 0,
     strtab_size = 0, buffer = []\<rparr> = Some (elf_example_name_bytes @ [46, 112, 108, 116, 0])"
  by (simp_all add: GetBuffer_def elf_example_names_def elf_example_name_bytes_def write_bytes_def
      overwrite_def c_str_def)

lemma length_elf_example_name_bytes: "length elf_example_name_bytes = 71"
  by (simp add: elf_example_name_bytes_def)

lemma elf_example_Finalize:
  "Finalize \<lparr>entries = elf_example_names, watermark = 71, strtab_offset = 0, strtab_size = 0,
     buffer = []\<rparr> = Some (elf_example_shstrtab 0)"
  "Finalize \<lparr>entries = elf_example_names @ [(''.plt'', 71)], watermark = 76, strtab_offset = 0,
     strtab_size = 0, buffer = []\<rparr> = Some plt_kept_shstrtab"
  by (simp_all add: Finalize_def elf_example_GetBuffer elf_example_shstrtab_def
      plt_kept_shstrtab_def ALIGN_UP_size_def length_elf_example_name_bytes)


lemma plt_kept_plan_eq:
  "WriteElf_plan measure_frame_example plt_kept_example
     (1, elf_example_known 0 0 0,
      \<lparr>entries = take 6 elf_example_names, watermark = 36, strtab_offset = 0, strtab_size = 0,
       buffer = []\<rparr>) = Some plt_kept_plan"
  by (simp add: WriteElf_plan_def plt_kept_example_def plain_example_state_fields DynInfo_zero_def
      measure_frame_example_def
      count_if_def add_name_if_def elf_example_names4 elf_example_names5 elf_example_Finalize
      elf_example_plan_def plt_kept_plan_def elf_example_known_def Let_def)

section \<open>The PLT when there are no PLT relocations\<close>

lemma Load_container_plt:
  "Load_container lz4 file st0 = Some (ok, st1) \<Longrightarrow> plt_info st1 = plt_info st0"
  by (auto simp: Load_container_def Let_def split: if_splits Option.bind_splits
      simp del: Load_nso_segments.simps)

lemma WriteElf_plan_present_plt:
  "WriteElf_plan measure_frame st prof = Some plan \<Longrightarrow>
   present_plt (present plan) = (plt_addr (plt_info st) \<noteq> 0)"
  by (cases prof) (auto simp: WriteElf_plan_def Let_def split: Option.bind_splits)

text \<open>
C4: the claim asks that the PLT is marked absent when \<^verbatim>\<open>pltrelsz\<close> is 0. It is not: for an
  NSO or an NRO \<^verbatim>\<open>ResolvePlt\<close> then returns false without writing \<^verbatim>\<open>plt_info\<close>, \<^verbatim>\<open>Load\<close> drops
  the result (line 379), and \<^verbatim>\<open>plt_info\<close> is the one member of \<^verbatim>\<open>NsoFile\<close> without an
  initialiser (lines 1312-1315). So after \<^verbatim>\<open>Load\<close> it holds what the object held before, and
  \<^verbatim>\<open>WriteElf\<close> takes \<^verbatim>\<open>.plt\<close> as present exactly when that \<^verbatim>\<open>addr\<close> is not 0 (line 731).
\<close>

theorem Load_plt_not_marked_absent:
  assumes L: "Load lz4 file st0 = Some (True, st)"
    and t: "file_type st \<noteq> kMod"
    and z: "pltrelsz (dyn_info st) = 0"
  shows "plt_info st = plt_info st0 \<and>
         (\<forall>prof plan. WriteElf_plan measure_frame st prof = Some plan \<longrightarrow>
            present_plt (present plan) = (plt_addr (plt_info st0) \<noteq> 0))"
proof -
  obtain st1 st2 st3 st4 st5 mod_base where
    c: "Load_container lz4 file st0 = Some (True, st1)"
    and m: "Load_mod file st1 = Some (True, st2, mod_base)"
    and d: "Load_dynamic mod_base st2 = Some st3"
    and r: "file_type st3 \<noteq> kMod \<Longrightarrow>
         \<exists>found. ResolvePlt (unat (mem_offset (segments (header st3) ! kText)))
                 (unat (mem_size (segments (header st3) ! kText))) st3 = Some (found, st4)"
    and s: "file_type st3 = kMod \<Longrightarrow> Load_mod_segments mod_base st3 = Some (True, st4)"
    and n: "Load_note st4 = Some st5"
    and e: "st = Load_eh mod_base st5"
    by (rule Load_TrueE [OF L]) blast
  note nf = Load_note_frame [OF n]
  note ef = Load_eh_frame [of mod_base st5]
  have t4: "file_type st4 \<noteq> kMod" using t e nf ef by simp
  have t3: "file_type st3 \<noteq> kMod"
  proof
    assume k: "file_type st3 = kMod"
    from s [OF k] obtain tsz doff dsz bss syms where "file_type st4 = file_type st3"
      by (rule Load_mod_segments_TrueE)
    with k t4 show False by simp
  qed
  from r [OF t3] obtain found where
    p: "ResolvePlt (unat (mem_offset (segments (header st3) ! kText)))
                 (unat (mem_size (segments (header st3) ! kText))) st3 = Some (found, st4)" ..
  note pf = ResolvePlt_frame [OF p]
  have "pltrelsz (dyn_info st3) = 0" using z e nf ef pf by simp
  with p have "st4 = st3" by (simp add: ResolvePlt_def)
  then have "plt_info st = plt_info st0"
    using e ef nf Load_dynamic_frame [OF d] Load_mod_frame [OF m] Load_container_plt [OF c]
    by simp
  then show ?thesis using WriteElf_plan_present_plt by metis
qed

text \<open>
The stored NSO example has no PLT relocations; loaded into an object whose \<^verbatim>\<open>plt_info\<close> held
  \<open>0x40\<close> and \<open>0x1234\<close>, it keeps them, and the plan of \<^verbatim>\<open>WriteElf\<close> has \<^verbatim>\<open>.plt\<close> present.
\<close>

theorem Load_plt_not_marked_absent_witness:
  "\<exists>st prof plan.
     Load lz4_example (plain_example_file 100 0) (NsoFile_new \<lparr>plt_addr = 0x40, plt_size = 0x1234\<rparr>) =
       Some (True, st) \<and>
     file_type st \<noteq> kMod \<and> pltrelsz (dyn_info st) = 0 \<and>
     plt_info st = \<lparr>plt_addr = 0x40, plt_size = 0x1234\<rparr> \<and>
     WriteElf_profile st = Some prof \<and>
     WriteElf_plan measure_frame_example st prof = Some plan \<and> present_plt (present plan)"
proof -
  let ?p = "\<lparr>plt_addr = 0x40, plt_size = 0x1234\<rparr>"
  have L: "Load lz4_example (plain_example_file 100 0) (NsoFile_new ?p) = Some (True, plt_kept_example)"
    using plain_example_Load [of 100 0 lz4_example ?p] by (simp add: plt_kept_example_def)
  have t: "file_type plt_kept_example \<noteq> kMod"
    by (simp add: plt_kept_example_def plain_example_state_fields)
  have z: "pltrelsz (dyn_info plt_kept_example) = 0"
    by (simp add: plt_kept_example_def plain_example_state_fields DynInfo_zero_def)
  have pr: "WriteElf_profile plt_kept_example =
     Some (1, elf_example_known 0 0 0,
           \<lparr>entries = take 6 elf_example_names, watermark = 36, strtab_offset = 0,
            strtab_size = 0, buffer = []\<rparr>)"
    unfolding plt_kept_example_def by (rule plain_example_profile)
  note w = Load_plt_not_marked_absent [OF L t z, of measure_frame_example]
  from w have 1: "plt_info plt_kept_example = ?p" by (simp add: NsoFile_new_def)
  from w plt_kept_plan_eq have 2: "present_plt (present plt_kept_plan)"
    by (simp add: NsoFile_new_def)
  from L t z 1 pr plt_kept_plan_eq 2 show ?thesis by blast
qed

section \<open>The emitter on the example\<close>










section \<open>The size of PT_DYNAMIC\<close>










section \<open>The PT_LOAD segments of the ELF\<close>

























end
